theory Spec2Isabelle
  imports Main "HOL-Library.Monad_Syntax"
begin

unbundle bit_operations_syntax

section \<open>Text formatting\<close>

text \<open>
  The engine builds names with printf-style formats (\<^verbatim>\<open>%d\<close>, \<^verbatim>\<open>%02d\<close>, \<^verbatim>\<open>%X\<close>).
  Sizes, offsets and counters are \<^verbatim>\<open>size_t\<close> in the source; they are reflected layout
  values far below the wrap-around of \<^verbatim>\<open>size_t\<close> and are modelled as \<^typ>\<open>nat\<close>.
\<close>

definition digit_char :: "nat \<Rightarrow> char" where
  "digit_char d = ''0123456789ABCDEF'' ! (d mod 16)"

function fmt_d :: "nat \<Rightarrow> string" where
  "fmt_d n = (if n < 10 then [digit_char n] else fmt_d (n div 10) @ [digit_char (n mod 10)])"
  by pat_completeness auto
termination
  by (relation "measure id") auto

declare fmt_d.simps [simp del]

function fmt_X :: "nat \<Rightarrow> string" where
  "fmt_X n = (if n < 16 then [digit_char n] else fmt_X (n div 16) @ [digit_char (n mod 16)])"
  by pat_completeness auto
termination
  by (relation "measure id") auto

declare fmt_X.simps [simp del]

definition fmt_02d :: "nat \<Rightarrow> string" where
  "fmt_02d n = (let s = fmt_d n in if length s < 2 then ''0'' @ s else s)"


section \<open>The reflected runtime\<close>

text \<open>
  An object handle (\<^verbatim>\<open>UEObject\<close>) is an index into the global object array; a handle
  outside the array is the null handle. The children of a struct, class or function are
  a chain of fields walked with \<^verbatim>\<open>GetNext\<close>, here a list. Every field answers the
  property accessors, whatever its class, as the source casts each child to
  \<^verbatim>\<open>UEProperty\<close> before looking at it. The kind of a field carries what the casts to
  its class read: the bit mask of a boolean property, the struct of a struct property,
  the inner properties of an array or a map, and for a function its flags, its index and
  its children.
\<close>

type_synonym UEObject = nat

datatype PropertyType = Unknown | Primitive | PredefinedStruct | CustomStruct | Container

record Info =
  InfoType :: PropertyType
  InfoSize :: nat
  CanBeReference :: bool
  InfoCppType :: string

datatype UEProperty = UEProperty
    (GetName: string) (GetFullName: string)
    (GetOffset: nat) (GetElementSize: nat) (GetArrayDim: nat)
    (GetPropertyFlags: nat) (GetInfo: Info) (GetKind: FieldKind)
and FieldKind =
    BoolProperty nat
  | StructProperty UEObject
  | ArrayProperty UEProperty
  | MapProperty UEProperty UEProperty
  | OtherProperty
  | Function nat nat "UEProperty list"
  | ScriptStructField
  | EnumField
  | ConstField

definition IsBoolProperty :: "UEProperty \<Rightarrow> bool" where
  "IsBoolProperty p = (case GetKind p of BoolProperty m \<Rightarrow> True | _ \<Rightarrow> False)"

definition GetBitMask :: "UEProperty \<Rightarrow> nat" where
  "GetBitMask p = (case GetKind p of BoolProperty m \<Rightarrow> m | _ \<Rightarrow> 0)"

definition IsFunction :: "UEProperty \<Rightarrow> bool" where
  "IsFunction p = (case GetKind p of Function fl ix ch \<Rightarrow> True | _ \<Rightarrow> False)"

definition IsScriptStructField :: "UEProperty \<Rightarrow> bool" where
  "IsScriptStructField p = (GetKind p = ScriptStructField)"

definition IsEnumField :: "UEProperty \<Rightarrow> bool" where
  "IsEnumField p = (GetKind p = EnumField)"

definition IsConstField :: "UEProperty \<Rightarrow> bool" where
  "IsConstField p = (GetKind p = ConstField)"

datatype ObjectKind = KEnum "string list" | KConst string | KClass | KScriptStruct | KOther

record UEObjectData =
  oName :: string
  oFullName :: string
  oNameCPP :: string
  oPackageObject :: UEObject
  oSuper :: UEObject
  oChildren :: "UEProperty list"
  oPropertySize :: nat
  oIndex :: nat
  oKind :: ObjectKind

type_synonym World = "UEObjectData list"

definition IsValid :: "World \<Rightarrow> UEObject \<Rightarrow> bool" where
  "IsValid W x = (x < length W)"

definition GetPropertySize :: "World \<Rightarrow> UEObject \<Rightarrow> nat" where
  "GetPropertySize W x = oPropertySize (W ! x)"

text \<open>
  \<^verbatim>\<open>ComparePropertyLess\<close>: by offset; two boolean properties at one offset by bit mask.
\<close>

definition ComparePropertyLess :: "UEProperty \<Rightarrow> UEProperty \<Rightarrow> bool" where
  "ComparePropertyLess lhs rhs =
     (if GetOffset lhs = GetOffset rhs \<and> IsBoolProperty lhs \<and> IsBoolProperty rhs
      then GetBitMask lhs < GetBitMask rhs
      else GetOffset lhs < GetOffset rhs)"

section \<open>Collaborators\<close>

text \<open>
  The generator configuration (\<^verbatim>\<open>IGenerator\<close>), the name sanitizer, the flag printer, the
  parameter classifier and the memory probes are declared outside \<^verbatim>\<open>Package.cpp\<close>; they
  are parameters of the model. A lookup that returns a flag and fills a vector is an
  option; \<^verbatim>\<open>GetPredefinedClassMethods\<close> gives the methods it appends.
\<close>

datatype PredefinedMethodType = PM_Default | PM_Inline

record PredefinedMethod =
  Signature :: string
  Body :: string
  MethodType :: PredefinedMethodType

definition Inline :: "string \<Rightarrow> PredefinedMethod" where
  "Inline body = \<lparr> Signature = [], Body = body, MethodType = PM_Inline \<rparr>"

record PredefinedMember =
  PredefinedMember_Type :: string
  PredefinedMember_Name :: string

type_synonym VirtualFunctionPattern = "string \<times> string \<times> string"

record IGenerator =
  ShouldGenerateEmptyFiles :: bool
  ShouldUseStrings :: bool
  ShouldXorStrings :: bool
  GetGlobalMemberAlignment :: nat
  GetClassAlignas :: "string \<Rightarrow> nat"
  GetOverrideType :: "string \<Rightarrow> string"
  GetPredefinedClassMembers :: "string \<Rightarrow> PredefinedMember list option"
  GetPredefinedClassStaticMembers :: "string \<Rightarrow> PredefinedMember list option"
  GetPredefinedClassMethods :: "string \<Rightarrow> PredefinedMethod list"
  GetVirtualFunctionPatterns :: "string \<Rightarrow> VirtualFunctionPattern list option"
  GetGameNameShort :: string

datatype ParamType = Default | Out | Return

record Externals =
  MakeValidName :: "string \<Rightarrow> string"
  MakeUniqueCppName :: "UEObject \<Rightarrow> string"
  StringifyFlags :: "nat \<Rightarrow> string"
  StringifyFunctionFlags :: "nat \<Rightarrow> string"
  MakeType :: "nat \<Rightarrow> ParamType option"
  FUNC_Native :: nat
  FUNC_Static :: nat
  FormatIndex :: "string \<Rightarrow> nat \<Rightarrow> string"
  VTable :: "UEObject \<Rightarrow> nat \<Rightarrow> nat"
  VirtualQuery :: "nat \<Rightarrow> nat option"
  FindPattern :: "nat \<Rightarrow> nat \<Rightarrow> string \<Rightarrow> string \<Rightarrow> int"

section \<open>The package model\<close>

record Member =
  Member_Name :: string
  Member_Type :: string
  Member_Offset :: nat
  Member_Size :: nat
  Member_Flags :: nat
  Member_FlagsString :: string
  Member_Comment :: string

text \<open>
  \<^verbatim>\<open>Member::Unknown\<close>: a filler of \<^verbatim>\<open>unsigned char\<close>. Fields a constructor leaves unset
  are 0 or empty here.
\<close>

definition Member_Unknown :: "nat \<Rightarrow> nat \<Rightarrow> nat \<Rightarrow> string \<Rightarrow> Member" where
  "Member_Unknown ident offset sz reason =
     \<lparr> Member_Name = ''UnknownData'' @ fmt_02d ident @ ''[0x'' @ fmt_X sz @ '']'',
       Member_Type = ''unsigned char'',
       Member_Offset = offset,
       Member_Size = sz,
       Member_Flags = 0,
       Member_FlagsString = [],
       Member_Comment = reason \<rparr>"

subsection \<open>GenerateMembers\<close>

text \<open>
  The loop state: the layout cursor \<^verbatim>\<open>offset\<close>, the members emitted so far, the name
  counters \<^verbatim>\<open>uniqueMemberNames\<close> and \<^verbatim>\<open>unknownDataCounter\<close>.
\<close>

type_synonym MembersState = "nat \<times> Member list \<times> (string \<rightharpoonup> nat) \<times> nat"

text \<open>
  \<^verbatim>\<open>static_cast<int>\<close> of a \<^verbatim>\<open>size_t\<close>: the low 32 bits, read as a signed number.
\<close>

definition static_cast_int :: "nat \<Rightarrow> int" where
  "static_cast_int n =
     (let r = int n mod 2 ^ 32 in if r < 2 ^ 31 then r else r - 2 ^ 32)"

text \<open>
  The test of line 562: the footprint of the property less the footprint of the mapped
  type, each cast to \<^verbatim>\<open>int\<close> before the subtraction.
\<close>

definition sizeMismatch :: "UEProperty \<Rightarrow> int" where
  "sizeMismatch prop =
     static_cast_int (GetElementSize prop * GetArrayDim prop)
       - static_cast_int (InfoSize (GetInfo prop) * GetArrayDim prop)"

definition GenerateMembers_step :: "Externals \<Rightarrow> UEProperty \<Rightarrow> MembersState \<Rightarrow> MembersState" where
  "GenerateMembers_step X prop st =
     (case st of (offset, members, uniqueMemberNames, unknownDataCounter) \<Rightarrow>
      let (members1, counter1) =
            (if offset < GetOffset prop
             then (members @ [Member_Unknown unknownDataCounter offset (GetOffset prop - offset) ''MISSED OFFSET''],
                   unknownDataCounter + 1)
             else (members, unknownDataCounter));
          info = GetInfo prop;
          footprint = GetElementSize prop * GetArrayDim prop
      in if InfoType info \<noteq> Unknown then
           let name0 = MakeValidName X (GetName prop);
               (names1, name1) =
                 (case uniqueMemberNames name0 of
                    None \<Rightarrow> (uniqueMemberNames(name0 \<mapsto> 1), name0)
                  | Some c \<Rightarrow> (uniqueMemberNames(name0 \<mapsto> c + 1), name0 @ fmt_02d (c + 1)));
               name2 = (if GetArrayDim prop > 1
                        then name1 @ ''[0x'' @ fmt_X (GetArrayDim prop) @ '']'' else name1);
               name3 = (if IsBoolProperty prop then name2 @ '' : 1'' else name2);
               sp = \<lparr> Member_Name = name3,
                      Member_Type = InfoCppType info,
                      Member_Offset = GetOffset prop,
                      Member_Size = InfoSize info,
                      Member_Flags = GetPropertyFlags prop,
                      Member_FlagsString = StringifyFlags X (GetPropertyFlags prop),
                      Member_Comment = [] \<rparr>;
               (members2, counter2) =
                 (if sizeMismatch prop > 0
                  then (members1 @ [sp, Member_Unknown counter1 offset (nat (sizeMismatch prop))
                                          ''FIX WRONG TYPE SIZE OF PREVIUS PROPERTY''],
                        counter1 + 1)
                  else (members1 @ [sp], counter1))
           in (GetOffset prop + footprint, members2, names1, counter2)
         else
           (GetOffset prop + footprint,
            members1 @ [Member_Unknown counter1 offset footprint (''UNKNOWN PROPERTY: '' @ GetFullName prop)],
            uniqueMemberNames, counter1 + 1))"

fun GenerateMembers_loop :: "Externals \<Rightarrow> UEProperty list \<Rightarrow> MembersState \<Rightarrow> MembersState" where
  "GenerateMembers_loop X [] st = st"
| "GenerateMembers_loop X (prop # properties) st =
     GenerateMembers_loop X properties (GenerateMembers_step X prop st)"

definition GenerateMembers ::
  "IGenerator \<Rightarrow> Externals \<Rightarrow> World \<Rightarrow> UEObject \<Rightarrow> nat \<Rightarrow> UEProperty list \<Rightarrow> Member list \<Rightarrow> Member list" where
  "GenerateMembers G X W structObj offset0 properties members0 =
     (case GenerateMembers_loop X properties (offset0, members0, Map.empty, 0) of
        (offset, members, uniqueMemberNames, unknownDataCounter) \<Rightarrow>
          if offset < GetPropertySize W structObj then
            let sz = GetPropertySize W structObj - offset in
            if sz \<ge> GetGlobalMemberAlignment G
            then members @ [Member_Unknown unknownDataCounter offset sz ''MISSED OFFSET'']
            else members
          else members)"


subsection \<open>Enums, constants, structs, classes, methods\<close>

record Enum =
  Enum_Name :: string
  Enum_FullName :: string
  Enum_Values :: "string list"

record Parameter =
  ParamType :: ParamType
  PassByReference :: bool
  CppType :: string
  Parameter_Name :: string
  Parameter_FlagsString :: string

record Method =
  Method_Index :: nat
  Method_Name :: string
  Method_FullName :: string
  Parameters :: "Parameter list"
  IsNative :: bool
  IsStatic :: bool
  Method_FlagsString :: string

record ScriptStruct =
  Name :: string
  FullName :: string
  NameCpp :: string
  NameCppFull :: string
  Size :: nat
  InheritedSize :: nat
  Members :: "Member list"
  PredefinedMethods :: "PredefinedMethod list"

record Class = ScriptStruct +
  Methods :: "Method list"

text \<open>
  A \<^verbatim>\<open>Package\<close> owns its entity lists and holds references to the two shared
  containers of the run, \<^verbatim>\<open>packageOrder\<close> and \<^verbatim>\<open>definedClasses\<close>.
\<close>

record Package =
  packageObj :: UEObject
  enums :: "Enum list"
  constants :: "string \<rightharpoonup> string"
  scriptStructs :: "ScriptStruct list"
  classes :: "Class list"
  packageOrder :: "UEObject list"
  definedClasses :: "UEObject \<rightharpoonup> bool"

text \<open>\<^verbatim>\<open>std::string::find(needle) != npos\<close>.\<close>

fun starts_with :: "string \<Rightarrow> string \<Rightarrow> bool" where
  "starts_with [] s = True"
| "starts_with (a # as) [] = False"
| "starts_with (a # as) (b # bs) = (a = b \<and> starts_with as bs)"

fun contains :: "string \<Rightarrow> string \<Rightarrow> bool" where
  "contains needle [] = (needle = [])"
| "contains needle (c # cs) = (starts_with needle (c # cs) \<or> contains needle cs)"

text \<open>
  \<^verbatim>\<open>std::sort\<close> with a comparator, as an insertion sort that keeps equivalent elements
  in their order. The standard leaves the order of equivalent elements open, and the
  model fixes it to the order of the input, which is what the insertion sort of the
  usual implementations gives on a short range. It matters for two sorts: the layout
  properties of a struct or class that share an offset and are not both bitfields, and
  the parameters of a function, which line 676 pairs with the function itself, so that
  all of them are equivalent under \<^verbatim>\<open>ComparePropertyLess\<close> and \<^verbatim>\<open>std::sort\<close> is free to
  permute them. The order of such elements in the output is that of this model only.
\<close>

fun insert_by :: "('a \<Rightarrow> 'a \<Rightarrow> bool) \<Rightarrow> 'a \<Rightarrow> 'a list \<Rightarrow> 'a list" where
  "insert_by lt x [] = [x]"
| "insert_by lt x (y # ys) = (if lt y x then y # insert_by lt x ys else x # y # ys)"

fun std_sort :: "('a \<Rightarrow> 'a \<Rightarrow> bool) \<Rightarrow> 'a list \<Rightarrow> 'a list" where
  "std_sort lt [] = []"
| "std_sort lt (x # xs) = insert_by lt x (std_sort lt xs)"

subsubsection \<open>GenerateEnum and GenerateConst\<close>

fun GenerateEnum_loop ::
  "Externals \<Rightarrow> string list \<Rightarrow> string list \<times> (string \<rightharpoonup> nat) \<Rightarrow> string list \<times> (string \<rightharpoonup> nat)" where
  "GenerateEnum_loop X [] st = st"
| "GenerateEnum_loop X (s # names) (vals, conflicts) =
     (let clean = MakeValidName X s in
      case conflicts clean of
        None \<Rightarrow> GenerateEnum_loop X names (vals @ [clean], conflicts(clean \<mapsto> 1))
      | Some c \<Rightarrow> GenerateEnum_loop X names (vals @ [clean @ fmt_02d c], conflicts(clean \<mapsto> c + 1)))"

definition GetNames :: "World \<Rightarrow> UEObject \<Rightarrow> string list" where
  "GetNames W x = (case oKind (W ! x) of KEnum ns \<Rightarrow> ns | _ \<Rightarrow> [])"

definition GetValue :: "World \<Rightarrow> UEObject \<Rightarrow> string" where
  "GetValue W x = (case oKind (W ! x) of KConst v \<Rightarrow> v | _ \<Rightarrow> [])"

definition GenerateEnum :: "Externals \<Rightarrow> World \<Rightarrow> UEObject \<Rightarrow> Package \<Rightarrow> Package" where
  "GenerateEnum X W enumObj P =
     (let name = MakeUniqueCppName X enumObj in
      if contains ''Default__'' name \<or> contains ''PLACEHOLDER-CLASS'' name then P
      else
        let e = \<lparr> Enum_Name = name,
                  Enum_FullName = oFullName (W ! enumObj),
                  Enum_Values = fst (GenerateEnum_loop X (GetNames W enumObj) ([], Map.empty)) \<rparr>
        in P\<lparr> enums := enums P @ [e] \<rparr>)"

definition GenerateConst :: "Externals \<Rightarrow> World \<Rightarrow> UEObject \<Rightarrow> Package \<Rightarrow> Package" where
  "GenerateConst X W constObj P =
     (let name = MakeUniqueCppName X constObj in
      if contains ''Default__'' name \<or> contains ''PLACEHOLDER-CLASS'' name then P
      else P\<lparr> constants := (constants P)(name \<mapsto> GetValue W constObj) \<rparr>)"

subsubsection \<open>GenerateMethods\<close>

text \<open>
  The parameter loop of one function. \<^verbatim>\<open>prop\<close> is the class child that is the function,
  \<^verbatim>\<open>param\<close> the child of the function under inspection; the state is the list
  \<^verbatim>\<open>parameters\<close> and the name counters \<^verbatim>\<open>unique\<close>.
\<close>

definition GenerateMethods_param ::
  "IGenerator \<Rightarrow> Externals \<Rightarrow> UEProperty \<Rightarrow> UEProperty \<Rightarrow>
   (UEProperty \<times> Parameter) list \<times> (string \<rightharpoonup> nat) \<Rightarrow> (UEProperty \<times> Parameter) list \<times> (string \<rightharpoonup> nat)" where
  "GenerateMethods_param G X prop param st =
     (case st of (parameters, unique) \<Rightarrow>
      if GetElementSize param = 0 then st
      else
        let info = GetInfo param in
        if InfoType info \<noteq> Unknown then
          (case MakeType X (GetPropertyFlags param) of
             None \<Rightarrow> st
           | Some ptype \<Rightarrow>
               let name0 = MakeValidName X (GetName param);
                   (unique1, name1) =
                     (case unique name0 of
                        None \<Rightarrow> (unique(name0 \<mapsto> 1), name0)
                      | Some c \<Rightarrow> (unique(name0 \<mapsto> c + 1), name0 @ fmt_02d (c + 1)));
                   cpp0 = (if IsBoolProperty param then GetOverrideType G ''bool'' else InfoCppType info);
                   (cpp1, byref) =
                     (case ptype of
                        Default \<Rightarrow>
                          if GetArrayDim prop > 1 then (cpp0 @ ''*'', False)
                          else if CanBeReference info then (cpp0, True)
                          else (cpp0, False)
                      | _ \<Rightarrow> (cpp0, False));
                   p = \<lparr> ParamType = ptype,
                         PassByReference = byref,
                         CppType = cpp1,
                         Parameter_Name = name1,
                         Parameter_FlagsString = StringifyFlags X (GetPropertyFlags param) \<rparr>
               in (parameters @ [(prop, p)], unique1))
        else st)"

fun GenerateMethods_params ::
  "IGenerator \<Rightarrow> Externals \<Rightarrow> UEProperty \<Rightarrow> UEProperty list \<Rightarrow>
   (UEProperty \<times> Parameter) list \<times> (string \<rightharpoonup> nat) \<Rightarrow> (UEProperty \<times> Parameter) list \<times> (string \<rightharpoonup> nat)" where
  "GenerateMethods_params G X prop [] st = st"
| "GenerateMethods_params G X prop (param # rest) st =
     GenerateMethods_params G X prop rest (GenerateMethods_param G X prop param st)"

definition GenerateMethods_function ::
  "IGenerator \<Rightarrow> Externals \<Rightarrow> UEProperty \<Rightarrow> Method list \<times> string list \<Rightarrow> Method list \<times> string list" where
  "GenerateMethods_function G X prop st =
     (case st of (methods, uniqueMethods) \<Rightarrow>
      (case GetKind prop of
        Function functionFlags index children \<Rightarrow>
          if GetFullName prop \<in> set uniqueMethods then st
          else
            let parameters = fst (GenerateMethods_params G X prop children ([], Map.empty));
                sorted_parameters =
                  std_sort (\<lambda>lhs rhs. ComparePropertyLess (fst lhs) (fst rhs)) parameters;
                m = \<lparr> Method_Index = index,
                      Method_Name = MakeValidName X (GetName prop),
                      Method_FullName = GetFullName prop,
                      Parameters = map snd sorted_parameters,
                      IsNative = (functionFlags AND FUNC_Native X \<noteq> 0),
                      IsStatic = (functionFlags AND FUNC_Static X \<noteq> 0),
                      Method_FlagsString = StringifyFunctionFlags X functionFlags \<rparr>
            in (methods @ [m], uniqueMethods @ [GetFullName prop])
      | _ \<Rightarrow> st))"

fun GenerateMethods_loop ::
  "IGenerator \<Rightarrow> Externals \<Rightarrow> UEProperty list \<Rightarrow> Method list \<times> string list \<Rightarrow> Method list \<times> string list" where
  "GenerateMethods_loop G X [] st = st"
| "GenerateMethods_loop G X (prop # rest) st =
     GenerateMethods_loop G X rest (GenerateMethods_function G X prop st)"

definition GenerateMethods ::
  "IGenerator \<Rightarrow> Externals \<Rightarrow> World \<Rightarrow> UEObject \<Rightarrow> Method list \<Rightarrow> Method list" where
  "GenerateMethods G X W classObj methods =
     fst (GenerateMethods_loop G X (oChildren (W ! classObj)) (methods, []))"


subsubsection \<open>The virtual-table scan of GenerateClass\<close>

text \<open>
  \<^verbatim>\<open>VTable X classObj i\<close> is the slot \<^verbatim>\<open>vtable[i]\<close> of the instance at
  \<^verbatim>\<open>classObj.GetAddress()\<close>; \<^verbatim>\<open>VirtualQuery\<close> gives the page protection of an
  address, or \<open>None\<close> when the query returns 0. The counting loop is
  \<^verbatim>\<open>while (true)\<close>: it has no bound of its own, so it is a partial function.
\<close>

definition PAGE_EXECUTE_READ :: nat where "PAGE_EXECUTE_READ = 0x20"
definition PAGE_EXECUTE_READWRITE :: nat where "PAGE_EXECUTE_READWRITE = 0x40"

partial_function (option) CountMethods :: "Externals \<Rightarrow> UEObject \<Rightarrow> nat \<Rightarrow> nat option" where
  "CountMethods X classObj methodCount =
     (case VirtualQuery X (VTable X classObj methodCount) of
        None \<Rightarrow> Some methodCount
      | Some protect \<Rightarrow>
          if protect \<noteq> PAGE_EXECUTE_READWRITE \<and> protect \<noteq> PAGE_EXECUTE_READ
          then Some methodCount
          else CountMethods X classObj (methodCount + 1))"

declare CountMethods.simps [code]

definition SlotMatches :: "Externals \<Rightarrow> UEObject \<Rightarrow> VirtualFunctionPattern \<Rightarrow> nat \<Rightarrow> bool" where
  "SlotMatches X classObj pattern i =
     (VTable X classObj i \<noteq> 0 \<and>
      FindPattern X (VTable X classObj i) 0x200 (fst pattern) (fst (snd pattern)) \<noteq> - 1)"

function FindSlot :: "Externals \<Rightarrow> UEObject \<Rightarrow> VirtualFunctionPattern \<Rightarrow> nat \<Rightarrow> nat \<Rightarrow> nat option" where
  "FindSlot X classObj pattern methodCount i =
     (if i < methodCount then
        (if SlotMatches X classObj pattern i then Some i
         else FindSlot X classObj pattern methodCount (i + 1))
      else None)"
  by pat_completeness auto
termination
  by (relation "measure (\<lambda>(X, classObj, pattern, methodCount, i). methodCount - i)") auto

declare FindSlot.simps [simp del]

fun ScanPatterns ::
  "Externals \<Rightarrow> UEObject \<Rightarrow> nat \<Rightarrow> VirtualFunctionPattern list \<Rightarrow> PredefinedMethod list \<Rightarrow> PredefinedMethod list" where
  "ScanPatterns X classObj methodCount [] methods = methods"
| "ScanPatterns X classObj methodCount (pattern # patterns) methods =
     ScanPatterns X classObj methodCount patterns
       (case FindSlot X classObj pattern methodCount 0 of
          Some i \<Rightarrow> methods @ [Inline (FormatIndex X (snd (snd pattern)) i)]
        | None \<Rightarrow> methods)"

text \<open>
  The test of the counting loop: the query on slot \<open>i\<close> succeeds and the page is
  execute-read-write or execute-read.
\<close>

definition Executable :: "Externals \<Rightarrow> UEObject \<Rightarrow> nat \<Rightarrow> bool" where
  "Executable X classObj i =
     (case VirtualQuery X (VTable X classObj i) of
        None \<Rightarrow> False
      | Some protect \<Rightarrow> protect = PAGE_EXECUTE_READWRITE \<or> protect = PAGE_EXECUTE_READ)"

text \<open>The accessors one pattern contributes: one for its first matching slot, or none.\<close>

definition BoundAccessor :: "Externals \<Rightarrow> UEObject \<Rightarrow> nat \<Rightarrow> VirtualFunctionPattern \<Rightarrow> PredefinedMethod list" where
  "BoundAccessor X classObj methodCount pattern =
     (case FindSlot X classObj pattern methodCount 0 of
        Some i \<Rightarrow> [Inline (FormatIndex X (snd (snd pattern)) i)]
      | None \<Rightarrow> [])"

subsubsection \<open>GenerateScriptStruct and GenerateClass\<close>

definition IsLayoutProperty :: "UEProperty \<Rightarrow> bool" where
  "IsLayoutProperty prop =
     (GetElementSize prop > 0 \<and> \<not> IsScriptStructField prop \<and> \<not> IsFunction prop
      \<and> \<not> IsEnumField prop \<and> \<not> IsConstField prop)"

definition GenerateScriptStruct :: "IGenerator \<Rightarrow> Externals \<Rightarrow> World \<Rightarrow> UEObject \<Rightarrow> Package \<Rightarrow> Package" where
  "GenerateScriptStruct G X W scriptStructObj P =
     (let fullName = oFullName (W ! scriptStructObj);
          alignment = GetClassAlignas G fullName;
          super = oSuper (W ! scriptStructObj);
          derived = (IsValid W super \<and> super \<noteq> scriptStructObj);
          offset = (if derived then GetPropertySize W super else 0);
          properties = std_sort ComparePropertyLess (filter IsLayoutProperty (oChildren (W ! scriptStructObj)));
          ss = \<lparr> Name = oName (W ! scriptStructObj),
                 FullName = fullName,
                 NameCpp = MakeValidName X (oNameCPP (W ! scriptStructObj)),
                 NameCppFull = ''struct ''
                   @ (if alignment \<noteq> 0 then ''alignas('' @ fmt_d alignment @ '') '' else [])
                   @ MakeUniqueCppName X scriptStructObj
                   @ (if derived then '' : public '' @ MakeUniqueCppName X super else []),
                 Size = GetPropertySize W scriptStructObj,
                 InheritedSize = offset,
                 Members = GenerateMembers G X W scriptStructObj offset properties [],
                 PredefinedMethods = GetPredefinedClassMethods G fullName \<rparr>
      in P\<lparr> scriptStructs := scriptStructs P @ [ss] \<rparr>)"

definition PredefinedStaticMember :: "PredefinedMember \<Rightarrow> Member" where
  "PredefinedStaticMember prop =
     \<lparr> Member_Name = PredefinedMember_Name prop,
       Member_Type = ''static '' @ PredefinedMember_Type prop,
       Member_Offset = 0, Member_Size = 0, Member_Flags = 0,
       Member_FlagsString = [], Member_Comment = [] \<rparr>"

definition PredefinedClassMember :: "PredefinedMember \<Rightarrow> Member" where
  "PredefinedClassMember prop =
     \<lparr> Member_Name = PredefinedMember_Name prop,
       Member_Type = PredefinedMember_Type prop,
       Member_Offset = 0, Member_Size = 0, Member_Flags = 0,
       Member_FlagsString = [], Member_Comment = ''NOT AUTO-GENERATED PROPERTY'' \<rparr>"

definition TAB :: char where "TAB = CHR 0x09"
definition NL :: char where "NL = CHR 0x0A"
definition DQUOTE :: char where "DQUOTE = CHR 0x22"

definition StaticClass :: "IGenerator \<Rightarrow> World \<Rightarrow> UEObject \<Rightarrow> PredefinedMethod" where
  "StaticClass G W classObj =
     (let fullName = oFullName (W ! classObj) in
      if ShouldUseStrings G then
        Inline ([TAB] @ ''static UClass* StaticClass()'' @ [NL, TAB] @ ''{'' @ [NL, TAB, TAB]
          @ ''static auto ptr = UObject::FindClass(''
          @ (if ShouldXorStrings G then ''_xor_('' @ [DQUOTE] @ fullName @ [DQUOTE] @ '')'' else fullName)
          @ '');'' @ [NL, TAB, TAB] @ ''return ptr;'' @ [NL, TAB] @ ''}'')
      else
        Inline ([TAB] @ ''static UClass* StaticClass()'' @ [NL, TAB] @ ''{'' @ [NL, TAB, TAB]
          @ ''static auto ptr = static_class<UClass*>(UObject::GetGlobalObjects().GetByIndex(''
          @ fmt_d (oIndex (W ! classObj))
          @ ''));'' @ [NL, TAB, TAB] @ ''return ptr;'' @ [NL, TAB] @ ''}''))"

definition IsClassLayoutProperty :: "World \<Rightarrow> UEObject \<Rightarrow> UEProperty \<Rightarrow> bool" where
  "IsClassLayoutProperty W classObj prop =
     (let super = oSuper (W ! classObj) in
      IsLayoutProperty prop \<and>
      (\<not> IsValid W super \<or> (super \<noteq> classObj \<and> GetOffset prop \<ge> GetPropertySize W super)))"

definition GenerateClass :: "IGenerator \<Rightarrow> Externals \<Rightarrow> World \<Rightarrow> UEObject \<Rightarrow> Package \<Rightarrow> Package option" where
  "GenerateClass G X W classObj P =
     (let fullName = oFullName (W ! classObj);
          nameCpp = MakeValidName X (oNameCPP (W ! classObj));
          super = oSuper (W ! classObj);
          derived = (IsValid W super \<and> super \<noteq> classObj);
          offset = (if derived then GetPropertySize W super else 0);
          members0 = (case GetPredefinedClassStaticMembers G fullName of
                        Some predefinedStaticMembers \<Rightarrow> map PredefinedStaticMember predefinedStaticMembers
                      | None \<Rightarrow> []);
          members1 = (case GetPredefinedClassMembers G fullName of
                        Some predefinedMembers \<Rightarrow> members0 @ map PredefinedClassMember predefinedMembers
                      | None \<Rightarrow>
                          GenerateMembers G X W classObj offset
                            (std_sort ComparePropertyLess
                               (filter (IsClassLayoutProperty W classObj) (oChildren (W ! classObj))))
                            members0);
          predefined1 = GetPredefinedClassMethods G fullName @ [StaticClass G W classObj];
          methods = GenerateMethods G X W classObj []
      in do {
        predefined2 \<leftarrow>
          (case GetVirtualFunctionPatterns G fullName of
             Some patterns \<Rightarrow>
               do { methodCount \<leftarrow> CountMethods X classObj 0;
                    Some (ScanPatterns X classObj methodCount patterns predefined1) }
           | None \<Rightarrow> Some predefined1);
        Some (P\<lparr> classes := classes P @
          [\<lparr> Name = oName (W ! classObj),
             FullName = fullName,
             NameCpp = nameCpp,
             NameCppFull = ''class '' @ nameCpp
               @ (if derived then '' : public '' @ MakeValidName X (oNameCPP (W ! super)) else []),
             Size = GetPropertySize W classObj,
             InheritedSize = offset,
             Members = members1,
             PredefinedMethods = predefined2,
             Methods = methods \<rparr>] \<rparr>)
      })"

subsection \<open>Save\<close>

text \<open>
  \<^verbatim>\<open>Save\<close> returns whether it wrote, and each of \<^verbatim>\<open>SaveStructs\<close>, \<^verbatim>\<open>SaveClasses\<close>
  and \<^verbatim>\<open>SaveMethods\<close> opens one output file, \<^verbatim>\<open>path / name\<close>; the model returns the
  flag and the files opened, in order. A file is the pair of the two operands of the
  join, the directory \<^verbatim>\<open>path\<close> and the formatted file name: how \<^verbatim>\<open>fs::path\<close> joins them
  (the separator of the platform, none after an empty directory or one that ends in a
  separator) is not interpreted. The text printed into a file and the log line of a
  skipped package are left out.
\<close>

type_synonym OutputFile = "string \<times> string"

definition SaveStructs :: "IGenerator \<Rightarrow> World \<Rightarrow> string \<Rightarrow> Package \<Rightarrow> OutputFile" where
  "SaveStructs G W path P =
     (path, GetGameNameShort G @ ''_'' @ oName (W ! packageObj P) @ ''_structs.hpp'')"

definition SaveClasses :: "IGenerator \<Rightarrow> World \<Rightarrow> string \<Rightarrow> Package \<Rightarrow> OutputFile" where
  "SaveClasses G W path P =
     (path, GetGameNameShort G @ ''_'' @ oName (W ! packageObj P) @ ''_classes.hpp'')"

definition SaveMethods :: "IGenerator \<Rightarrow> World \<Rightarrow> string \<Rightarrow> Package \<Rightarrow> OutputFile" where
  "SaveMethods G W path P =
     (path, GetGameNameShort G @ ''_'' @ oName (W ! packageObj P) @ ''_functions.cpp'')"

definition Save :: "IGenerator \<Rightarrow> World \<Rightarrow> string \<Rightarrow> Package \<Rightarrow> bool \<times> OutputFile list" where
  "Save G W path P =
     (if ShouldGenerateEmptyFiles G
         \<or> (filter (\<lambda>e. Enum_Values e \<noteq> []) (enums P) \<noteq> []
             \<or> filter (\<lambda>s. Members s \<noteq> [] \<or> PredefinedMethods s \<noteq> []) (scriptStructs P) \<noteq> []
             \<or> filter (\<lambda>c. Members c \<noteq> [] \<or> PredefinedMethods c \<noteq> [] \<or> Methods c \<noteq> []) (classes P) \<noteq> [])
      then (True, [SaveStructs G W path P, SaveClasses G W path P, SaveMethods G W path P])
      else (False, []))"


subsection \<open>Prerequisites: the defined set and the package order\<close>

text \<open>
  \<^verbatim>\<open>std::find\<close> gives the position of the first occurrence, or the end;
  \<^verbatim>\<open>insert\<close> and \<^verbatim>\<open>erase\<close> act at a position of the vector.
\<close>

fun std_find :: "'a list \<Rightarrow> 'a \<Rightarrow> nat" where
  "std_find [] x = 0"
| "std_find (y # ys) x = (if y = x then 0 else Suc (std_find ys x))"

definition std_find_last :: "'a list \<Rightarrow> 'a \<Rightarrow> nat" where
  "std_find_last xs x = length xs - 1 - std_find (rev xs) x"

definition vector_insert :: "'a list \<Rightarrow> nat \<Rightarrow> 'a \<Rightarrow> 'a list" where
  "vector_insert xs i v = take i xs @ v # drop i xs"

definition vector_erase :: "'a list \<Rightarrow> nat \<Rightarrow> 'a list" where
  "vector_erase xs i = take i xs @ drop (Suc i) xs"

definition EnsureListed :: "UEObject list \<Rightarrow> UEObject \<Rightarrow> UEObject list" where
  "EnsureListed order thisPackage =
     (if std_find order thisPackage = length order then order @ [thisPackage] else order)"

text \<open>The order repair of \<^verbatim>\<open>GenerateScriptStructPrerequisites\<close> (erase, then insert).\<close>

definition RepairOrder_ScriptStruct :: "UEObject list \<Rightarrow> UEObject \<Rightarrow> UEObject \<Rightarrow> UEObject list" where
  "RepairOrder_ScriptStruct order classPackage thisPackage =
     (let itPO = std_find order classPackage;
          itPTP = std_find order thisPackage
      in if itPO = length order then vector_insert order itPTP classPackage
         else if itPO > itPTP then vector_insert (vector_erase order itPO) itPTP classPackage
         else order)"

text \<open>
  The order repair of \<^verbatim>\<open>GenerateClassPrerequisites\<close> (insert, then erase the last
  occurrence, found from the back).
\<close>

definition RepairOrder_Class :: "UEObject list \<Rightarrow> UEObject \<Rightarrow> UEObject \<Rightarrow> UEObject list" where
  "RepairOrder_Class order classPackage thisPackage =
     (let itPO = std_find order classPackage;
          itPTP = std_find order thisPackage
      in if itPO = length order then vector_insert order itPTP classPackage
         else if itPO \<ge> itPTP then
           (let order1 = vector_insert order itPTP classPackage
            in vector_erase order1 (std_find_last order1 classPackage))
         else order)"

text \<open>
  \<^verbatim>\<open>definedClasses[x]\<close> on the \<^verbatim>\<open>unordered_map\<close> inserts \<^verbatim>\<open>false\<close> for an absent
  key; \<^verbatim>\<open>definedClasses[x] |= false\<close> does that and nothing more.
\<close>

definition index_defined :: "(UEObject \<rightharpoonup> bool) \<Rightarrow> UEObject \<Rightarrow> (UEObject \<rightharpoonup> bool)" where
  "index_defined m x = (case m x of None \<Rightarrow> m(x \<mapsto> False) | Some b \<Rightarrow> m)"

text \<open>
  \<^verbatim>\<open>prop.Cast<UEStructProperty>().GetStruct()\<close>; for a field that is no struct property
  the null handle, on which the callee returns at once.
\<close>

definition GetStruct :: "UEProperty \<Rightarrow> UEObject option" where
  "GetStruct p = (case GetKind p of StructProperty s \<Rightarrow> Some s | _ \<Rightarrow> None)"

definition InnerProperties :: "UEProperty \<Rightarrow> UEProperty list" where
  "InnerProperties prop =
     (case GetKind prop of
        ArrayProperty inner \<Rightarrow> [inner]
      | MapProperty keyProp valueProp \<Rightarrow> [keyProp, valueProp]
      | _ \<Rightarrow> [])"

text \<open>
  \<^verbatim>\<open>GenerateMemberPrerequisites\<close>, with the struct generation it calls as a parameter
  \<open>g\<close>.
\<close>

fun GenerateMemberPrerequisites_inner ::
  "(UEObject \<Rightarrow> Package \<Rightarrow> Package option) \<Rightarrow> UEProperty list \<Rightarrow> Package \<Rightarrow> Package option" where
  "GenerateMemberPrerequisites_inner g [] P = Some P"
| "GenerateMemberPrerequisites_inner g (innerProp # rest) P =
     (if InfoType (GetInfo innerProp) = CustomStruct then
        do { P1 \<leftarrow> (case GetStruct innerProp of Some s \<Rightarrow> g s P | None \<Rightarrow> Some P);
             GenerateMemberPrerequisites_inner g rest P1 }
      else GenerateMemberPrerequisites_inner g rest P)"

fun GenerateMemberPrerequisites ::
  "(UEObject \<Rightarrow> Package \<Rightarrow> Package option) \<Rightarrow> UEProperty list \<Rightarrow> Package \<Rightarrow> Package option" where
  "GenerateMemberPrerequisites g [] P = Some P"
| "GenerateMemberPrerequisites g (prop # rest) P =
     (if InfoType (GetInfo prop) = CustomStruct then
        do { P1 \<leftarrow> (case GetStruct prop of Some s \<Rightarrow> g s P | None \<Rightarrow> Some P);
             GenerateMemberPrerequisites g rest P1 }
      else if InfoType (GetInfo prop) = Container then
        do { P1 \<leftarrow> GenerateMemberPrerequisites_inner g (InnerProperties prop) P;
             GenerateMemberPrerequisites g rest P1 }
      else GenerateMemberPrerequisites g rest P)"

text \<open>
  The two recursive generators. The recursion follows the type graph and is cut only by
  \<^verbatim>\<open>definedClasses\<close>, so the model counts the call depth down from a fuel; \<open>None\<close>
  is a run that has not returned within it.
\<close>

primrec GenerateScriptStructPrerequisites ::
  "nat \<Rightarrow> IGenerator \<Rightarrow> Externals \<Rightarrow> World \<Rightarrow> UEObject \<Rightarrow> Package \<Rightarrow> Package option" where
  "GenerateScriptStructPrerequisites 0 G X W scriptStructObj P = None"
| "GenerateScriptStructPrerequisites (Suc fuel) G X W scriptStructObj P =
     (if \<not> IsValid W scriptStructObj then Some P
      else
        let name = oName (W ! scriptStructObj) in
        if contains ''Default__'' name \<or> contains ''<uninitialized>'' name
           \<or> contains ''PLACEHOLDER-CLASS'' name then Some P
        else
          let P1 = P\<lparr> definedClasses := index_defined (definedClasses P) scriptStructObj \<rparr>;
              classPackage = oPackageObject (W ! scriptStructObj)
          in
          if \<not> IsValid W classPackage then Some P1
          else
            let P2 = P1\<lparr> packageOrder := EnsureListed (packageOrder P1) (packageObj P1) \<rparr> in
            if classPackage \<noteq> packageObj P2 then
              Some (P2\<lparr> packageOrder := RepairOrder_ScriptStruct (packageOrder P2) classPackage (packageObj P2) \<rparr>)
            else if definedClasses P2 scriptStructObj = Some False then
              let P3 = P2\<lparr> definedClasses := (definedClasses P2)(scriptStructObj \<mapsto> True) \<rparr>;
                  super = oSuper (W ! scriptStructObj)
              in do {
                P4 \<leftarrow>
                  (if IsValid W super \<and> super \<noteq> scriptStructObj then
                     (let P3' = P3\<lparr> definedClasses := index_defined (definedClasses P3) super \<rparr> in
                      if definedClasses P3' super = Some False
                      then GenerateScriptStructPrerequisites fuel G X W super P3'
                      else Some P3')
                   else Some P3);
                P5 \<leftarrow> GenerateMemberPrerequisites (GenerateScriptStructPrerequisites fuel G X W)
                        (oChildren (W ! scriptStructObj)) P4;
                Some (GenerateScriptStruct G X W scriptStructObj P5)
              }
            else Some P2)"

primrec GenerateClassPrerequisites ::
  "nat \<Rightarrow> IGenerator \<Rightarrow> Externals \<Rightarrow> World \<Rightarrow> UEObject \<Rightarrow> Package \<Rightarrow> Package option" where
  "GenerateClassPrerequisites 0 G X W classObj P = None"
| "GenerateClassPrerequisites (Suc fuel) G X W classObj P =
     (if \<not> IsValid W classObj then Some P
      else
        let name = oName (W ! classObj) in
        if contains ''Default__'' name \<or> contains ''PLACEHOLDER-CLASS'' name then Some P
        else
          let P1 = P\<lparr> definedClasses := index_defined (definedClasses P) classObj \<rparr>;
              classPackage = oPackageObject (W ! classObj)
          in
          if \<not> IsValid W classPackage then Some P1
          else
            let P2 = P1\<lparr> packageOrder := EnsureListed (packageOrder P1) (packageObj P1) \<rparr> in
            if classPackage \<noteq> packageObj P2 then
              Some (P2\<lparr> packageOrder := RepairOrder_Class (packageOrder P2) classPackage (packageObj P2) \<rparr>)
            else if definedClasses P2 classObj = Some False then
              let P3 = P2\<lparr> definedClasses := (definedClasses P2)(classObj \<mapsto> True) \<rparr>;
                  super = oSuper (W ! classObj)
              in do {
                P4 \<leftarrow> (if IsValid W super
                       then GenerateClassPrerequisites fuel G X W super P3
                       else Some P3);
                P5 \<leftarrow> GenerateMemberPrerequisites (GenerateScriptStructPrerequisites fuel G X W)
                        (oChildren (W ! classObj)) P4;
                GenerateClass G X W classObj P5
              }
            else Some P2)"

text \<open>\<^verbatim>\<open>Process\<close> walks the object store and generates what the package owns.\<close>

fun Process_loop ::
  "nat \<Rightarrow> IGenerator \<Rightarrow> Externals \<Rightarrow> World \<Rightarrow> UEObject list \<Rightarrow> Package \<Rightarrow> Package option" where
  "Process_loop fuel G X W [] P = Some P"
| "Process_loop fuel G X W (obj # objs) P =
     (if packageObj P = oPackageObject (W ! obj) then
        do { P1 \<leftarrow> (case oKind (W ! obj) of
                      KEnum ns \<Rightarrow> Some (GenerateEnum X W obj P)
                    | KConst v \<Rightarrow> Some (GenerateConst X W obj P)
                    | KClass \<Rightarrow> GenerateClassPrerequisites fuel G X W obj P
                    | KScriptStruct \<Rightarrow> GenerateScriptStructPrerequisites fuel G X W obj P
                    | KOther \<Rightarrow> Some P);
             Process_loop fuel G X W objs P1 }
      else Process_loop fuel G X W objs P)"

definition Process :: "nat \<Rightarrow> IGenerator \<Rightarrow> Externals \<Rightarrow> World \<Rightarrow> Package \<Rightarrow> Package option" where
  "Process fuel G X W P = Process_loop fuel G X W [0..<length W] P"


subsection \<open>The steps of the generators, named\<close>

text \<open>
  The statements the two generators share, as state transformers:
  \<^verbatim>\<open>definedClasses[x] |= false\<close>, the \<^verbatim>\<open>push_back\<close> of the current package when
  it is not listed, and \<^verbatim>\<open>definedClasses[x] = true\<close>.
\<close>

definition Touch :: "Package \<Rightarrow> UEObject \<Rightarrow> Package" where
  "Touch P x = P\<lparr> definedClasses := index_defined (definedClasses P) x \<rparr>"

definition Listed :: "Package \<Rightarrow> Package" where
  "Listed P = P\<lparr> packageOrder := EnsureListed (packageOrder P) (packageObj P) \<rparr>"

definition MarkDefined :: "Package \<Rightarrow> UEObject \<Rightarrow> Package" where
  "MarkDefined P x = P\<lparr> definedClasses := (definedClasses P)(x \<mapsto> True) \<rparr>"

text \<open>The number of objects of the store not yet marked as defined.\<close>

definition NotYetDefined :: "World \<Rightarrow> Package \<Rightarrow> nat" where
  "NotYetDefined W P = length (filter (\<lambda>x. definedClasses P x \<noteq> Some True) [0..<length W])"

section \<open>Layout predicates\<close>

text \<open>
  The members \<open>ms\<close> tile the byte interval from \<open>a\<close> to \<open>b\<close>: each starts where the one
  before it ends, the first at \<open>a\<close>, the last ending at \<open>b\<close>, by the offsets and sizes
  the members record.
\<close>

fun tiles :: "nat \<Rightarrow> Member list \<Rightarrow> nat \<Rightarrow> bool" where
  "tiles a [] b = (a = b)"
| "tiles a (m # ms) b = (Member_Offset m = a \<and> tiles (a + Member_Size m) ms b)"

text \<open>Where the last property ends (the cursor itself when there is none).\<close>

fun layout_end :: "nat \<Rightarrow> UEProperty list \<Rightarrow> nat" where
  "layout_end cursor [] = cursor"
| "layout_end cursor (p # ps) = layout_end (GetOffset p + GetElementSize p * GetArrayDim p) ps"

text \<open>
  The property behind each member the loop of \<^verbatim>\<open>GenerateMembers\<close> emits, in the order
  of emission, read off the branches of the loop: \<open>None\<close> for a filler (before a
  property that starts after the cursor, for the slack of a mapped type, for an
  unresolvable property), the property itself for its member. With the filler after the
  loop, when there is one, these are the origins of the members of the whole run.
\<close>

fun member_props :: "nat \<Rightarrow> UEProperty list \<Rightarrow> UEProperty option list" where
  "member_props cursor [] = []"
| "member_props cursor (p # ps) =
     (if cursor < GetOffset p then [None] else [])
     @ (if InfoType (GetInfo p) \<noteq> Unknown
        then Some p # (if sizeMismatch p > 0 then [None] else [])
        else [None])
     @ member_props (GetOffset p + GetElementSize p * GetArrayDim p) ps"

definition trailing_filler :: "IGenerator \<Rightarrow> World \<Rightarrow> UEObject \<Rightarrow> nat \<Rightarrow> UEProperty list \<Rightarrow> bool" where
  "trailing_filler G W structObj offset0 properties =
     (layout_end offset0 properties < GetPropertySize W structObj
      \<and> GetGlobalMemberAlignment G \<le> GetPropertySize W structObj - layout_end offset0 properties)"

definition member_origins :: "IGenerator \<Rightarrow> World \<Rightarrow> UEObject \<Rightarrow> nat \<Rightarrow> UEProperty list \<Rightarrow> UEProperty option list" where
  "member_origins G W structObj offset0 properties =
     member_props offset0 properties
     @ (if trailing_filler G W structObj offset0 properties then [None] else [])"

text \<open>
  A member agrees with its origin: a filler is of \<^verbatim>\<open>unsigned char\<close> without flags; the
  member of a property has the property's offset and flags and the size and type of its
  mapped type.
\<close>

fun member_of :: "Member \<Rightarrow> UEProperty option \<Rightarrow> bool" where
  "member_of m None = (Member_Type m = ''unsigned char'' \<and> Member_Flags m = 0)"
| "member_of m (Some p) =
     (Member_Offset m = GetOffset p \<and> Member_Size m = InfoSize (GetInfo p)
      \<and> Member_Type m = InfoCppType (GetInfo p) \<and> Member_Flags m = GetPropertyFlags p)"

text \<open>
  The bytes a member stands for. A member records the size of one element, and the array
  dimension goes into its name only, so the member of a property spans its recorded size
  times the array dimension of the property; a filler spans its recorded size. The span
  of the member of a bitfield is marked as such.
\<close>

record Span =
  Span_Offset :: nat
  Span_Size :: nat
  Span_Bitfield :: bool

definition span_end :: "Span \<Rightarrow> nat" where
  "span_end s = Span_Offset s + Span_Size s"

fun member_span :: "Member \<Rightarrow> UEProperty option \<Rightarrow> Span" where
  "member_span m None =
     \<lparr> Span_Offset = Member_Offset m, Span_Size = Member_Size m, Span_Bitfield = False \<rparr>"
| "member_span m (Some p) =
     \<lparr> Span_Offset = Member_Offset m, Span_Size = Member_Size m * GetArrayDim p,
       Span_Bitfield = IsBoolProperty p \<rparr>"

definition member_spans :: "Member list \<Rightarrow> UEProperty option list \<Rightarrow> Span list" where
  "member_spans ms origins = map (\<lambda>(m, origin). member_span m origin) (zip ms origins)"

text \<open>
  The spans tile the bytes from the end of \<open>prev\<close> to \<open>b\<close>: each span starts where the one
  before it ends, or is a bitfield on the very span before it (the bits of one unit share
  their bytes), and the last one ends at \<open>b\<close>. No other overlap and no gap is admitted.
\<close>

fun tiles_from :: "Span \<Rightarrow> Span list \<Rightarrow> nat \<Rightarrow> bool" where
  "tiles_from prev [] b = (span_end prev = b)"
| "tiles_from prev (s # ss) b =
     ((Span_Offset s = span_end prev \<or> (s = prev \<and> Span_Bitfield s)) \<and> tiles_from s ss b)"

definition start_span :: "nat \<Rightarrow> Span" where
  "start_span offset0 = \<lparr> Span_Offset = offset0, Span_Size = 0, Span_Bitfield = False \<rparr>"

text \<open>
  The bytes of a property in the reflected layout, and an exact layout after the span
  \<open>prev\<close>: every property starts at or after the end of the one before it, or is a bitfield
  on the span of the bitfield before it; the mapped type of a resolvable property has the
  size of one element; an unresolvable property starts exactly at the end of the one
  before it. Arrays and gaps between properties are admitted.
\<close>

definition property_span :: "UEProperty \<Rightarrow> Span" where
  "property_span p =
     \<lparr> Span_Offset = GetOffset p, Span_Size = GetElementSize p * GetArrayDim p,
       Span_Bitfield = (IsBoolProperty p \<and> InfoType (GetInfo p) \<noteq> Unknown) \<rparr>"

fun exact_layout :: "Span \<Rightarrow> UEProperty list \<Rightarrow> bool" where
  "exact_layout prev [] = True"
| "exact_layout prev (p # ps) =
     ((span_end prev \<le> GetOffset p \<or> (property_span p = prev \<and> Span_Bitfield prev))
      \<and> (if InfoType (GetInfo p) \<noteq> Unknown
          then InfoSize (GetInfo p) = GetElementSize p
          else GetOffset p = span_end prev)
      \<and> exact_layout (property_span p) ps)"

text \<open>
  The two fillers that lines 565 and 572 place at the cursor as it stood before the
  property, not at the property: the filler for the slack of a mapped type and the filler
  for an unresolvable property. They are aligned when each property that gets one starts
  at the cursor; a resolvable property without slack gets none.
\<close>

fun cursor_fillers_aligned :: "nat \<Rightarrow> UEProperty list \<Rightarrow> bool" where
  "cursor_fillers_aligned cursor [] = True"
| "cursor_fillers_aligned cursor (p # ps) =
     (((InfoType (GetInfo p) \<noteq> Unknown \<and> sizeMismatch p \<le> 0) \<or> GetOffset p = cursor)
      \<and> cursor_fillers_aligned (GetOffset p + GetElementSize p * GetArrayDim p) ps)"

text \<open>
  Where the members stop: at the struct's size when the filler after the loop is emitted,
  and at the end of the last property otherwise.
\<close>

definition layout_stop :: "IGenerator \<Rightarrow> World \<Rightarrow> UEObject \<Rightarrow> nat \<Rightarrow> UEProperty list \<Rightarrow> nat" where
  "layout_stop G W structObj offset0 properties =
     (if trailing_filler G W structObj offset0 properties
      then GetPropertySize W structObj else layout_end offset0 properties)"

text \<open>The spans of the members the loop emits from a cursor, branch by branch.\<close>

fun spans :: "nat \<Rightarrow> UEProperty list \<Rightarrow> Span list" where
  "spans c [] = []"
| "spans c (p # ps) =
     (if c < GetOffset p
      then [\<lparr> Span_Offset = c, Span_Size = GetOffset p - c, Span_Bitfield = False \<rparr>] else [])
     @ (if InfoType (GetInfo p) \<noteq> Unknown
        then \<lparr> Span_Offset = GetOffset p, Span_Size = InfoSize (GetInfo p) * GetArrayDim p,
               Span_Bitfield = IsBoolProperty p \<rparr>
             # (if sizeMismatch p > 0
                then [\<lparr> Span_Offset = c, Span_Size = nat (sizeMismatch p), Span_Bitfield = False \<rparr>]
                else [])
        else [\<lparr> Span_Offset = c, Span_Size = GetElementSize p * GetArrayDim p, Span_Bitfield = False \<rparr>])
     @ spans (GetOffset p + GetElementSize p * GetArrayDim p) ps"

section \<open>A small runtime for concrete runs\<close>

text \<open>
  Collaborators that leave names as they are, classify property flags 1, 2 and 4 as
  input, output and return parameters, and a dispatch table whose slot \<open>i\<close> holds the
  address \<open>4096 + i\<close>, of which the first five are on executable pages.
\<close>

definition ex_X :: Externals where
  "ex_X = \<lparr> MakeValidName = (\<lambda>s. s),
            MakeUniqueCppName = (\<lambda>x. ''Obj'' @ fmt_d x),
            StringifyFlags = (\<lambda>f. []),
            StringifyFunctionFlags = (\<lambda>f. []),
            MakeType = (\<lambda>f. if f = 1 then Some Default else if f = 2 then Some Out
                              else if f = 4 then Some Return else None),
            FUNC_Native = 0x400,
            FUNC_Static = 0x2000,
            FormatIndex = (\<lambda>fmt i. fmt @ fmt_d i),
            VTable = (\<lambda>c i. 4096 + i),
            VirtualQuery = (\<lambda>a. if 4096 \<le> a \<and> a < 4101 then Some PAGE_EXECUTE_READ else Some 4),
            FindPattern = (\<lambda>a n pat mask. if a = 4098 \<and> pat = ''H'' then 0 else - 1) \<rparr>"

definition ex_G :: "bool \<Rightarrow> nat \<Rightarrow> IGenerator" where
  "ex_G emitEmpty threshold =
     \<lparr> ShouldGenerateEmptyFiles = emitEmpty,
       ShouldUseStrings = False,
       ShouldXorStrings = False,
       GetGlobalMemberAlignment = threshold,
       GetClassAlignas = (\<lambda>s. 0),
       GetOverrideType = (\<lambda>s. s),
       GetPredefinedClassMembers = (\<lambda>s. None),
       GetPredefinedClassStaticMembers = (\<lambda>s. None),
       GetPredefinedClassMethods = (\<lambda>s. []),
       GetVirtualFunctionPatterns = (\<lambda>s. None),
       GetGameNameShort = ''SDK'' \<rparr>"

definition ex_info :: "nat \<Rightarrow> bool \<Rightarrow> Info" where
  "ex_info sz byref = \<lparr> InfoType = Primitive, InfoSize = sz, CanBeReference = byref, InfoCppType = ''int'' \<rparr>"

definition ex_prop :: "string \<Rightarrow> nat \<Rightarrow> UEProperty" where
  "ex_prop name offset = UEProperty name (''IntProperty '' @ name) offset 4 1 0 (ex_info 4 False) OtherProperty"

definition ex_object :: "string \<Rightarrow> UEObject \<Rightarrow> UEObject \<Rightarrow> UEProperty list \<Rightarrow> nat \<Rightarrow> ObjectKind \<Rightarrow> UEObjectData" where
  "ex_object name package super children propertySize kind =
     \<lparr> oName = name, oFullName = ''Object '' @ name, oNameCPP = ''U'' @ name,
       oPackageObject = package, oSuper = super, oChildren = children,
       oPropertySize = propertySize, oIndex = 7, oKind = kind \<rparr>"

definition ex_Package :: "UEObject \<Rightarrow> Package" where
  "ex_Package pkg =
     \<lparr> packageObj = pkg, enums = [], constants = Map.empty, scriptStructs = [], classes = [],
       packageOrder = [], definedClasses = Map.empty \<rparr>"

text \<open>
  Object 0 is the package \<open>Core\<close>; object 1 a struct of 16 bytes in it; object 2 a
  class in it with no children.
\<close>

definition ex_W :: World where
  "ex_W = [ ex_object ''Core'' 9 9 [] 0 KOther,
            ex_object ''Vec'' 0 9 [] 16 KScriptStruct,
            ex_object ''Thing'' 0 9 [] 0 KClass ]"

definition ex_Enum :: Enum where
  "ex_Enum = \<lparr> Enum_Name = ''EColor'', Enum_FullName = ''Enum Core.EColor'', Enum_Values = [''Red''] \<rparr>"

definition ex_param :: "string \<Rightarrow> nat \<Rightarrow> bool \<Rightarrow> UEProperty" where
  "ex_param name dim byref = UEProperty name (''Param '' @ name) 0 4 dim 1 (ex_info 4 byref) OtherProperty"

definition ex_function :: "string \<Rightarrow> nat \<Rightarrow> UEProperty list \<Rightarrow> UEProperty" where
  "ex_function name dim params =
     UEProperty name (''Function '' @ name) 0 0 dim 0
       \<lparr> InfoType = Unknown, InfoSize = 0, CanBeReference = False, InfoCppType = [] \<rparr>
       (Function 0 3 params)"

text \<open>
  Object 1 is an enum with one name three times; object 2 a class whose function takes
  three parameters of one name; object 3 a class whose function takes an array of four
  elements that may be passed by reference; object 4 a class whose function field itself
  answers an array dimension of 3 and takes one scalar.
\<close>

definition ex_W_names :: World where
  "ex_W_names =
     [ ex_object ''Core'' 9 9 [] 0 KOther,
       ex_object ''EDup'' 0 9 [] 0 (KEnum [''Value'', ''Value'', ''Value'']),
       ex_object ''Dup'' 0 9
         [ex_function ''Fn'' 1 [ex_param ''Value'' 1 False, ex_param ''Value'' 1 False, ex_param ''Value'' 1 False]]
         0 KClass,
       ex_object ''Arr'' 0 9 [ex_function ''Fill'' 1 [ex_param ''Values'' 4 True]] 0 KClass,
       ex_object ''Sca'' 0 9 [ex_function ''Set'' 3 [ex_param ''V'' 1 True]] 0 KClass ]"

definition ex_G_patterns :: IGenerator where
  "ex_G_patterns =
     (ex_G False 4)\<lparr> GetVirtualFunctionPatterns :=
        (\<lambda>s. Some [(''H'', ''x'', ''ProcessEvent at slot ''), (''Z'', ''x'', ''Other at slot '')]) \<rparr>"

text \<open>
  Object 1 is a struct that is its own superclass and has a member of struct 2; struct 2
  has a member of struct 1 and an array of struct 1; object 3 is a class, its own
  superclass, with a member of struct 1. All are owned by package 0.
\<close>

definition ex_struct_prop :: "string \<Rightarrow> nat \<Rightarrow> UEObject \<Rightarrow> UEProperty" where
  "ex_struct_prop name offset s =
     UEProperty name (''StructProperty '' @ name) offset 8 1 0
       \<lparr> InfoType = CustomStruct, InfoSize = 8, CanBeReference = True, InfoCppType = ''struct FS'' \<rparr>
       (StructProperty s)"

definition ex_array_prop :: "string \<Rightarrow> nat \<Rightarrow> UEObject \<Rightarrow> UEProperty" where
  "ex_array_prop name offset s =
     UEProperty name (''ArrayProperty '' @ name) offset 16 1 0
       \<lparr> InfoType = Container, InfoSize = 16, CanBeReference = True, InfoCppType = ''TArray<struct FS>'' \<rparr>
       (ArrayProperty (ex_struct_prop ''Inner'' 0 s))"

definition ex_W_cycle :: World where
  "ex_W_cycle =
     [ ex_object ''Core'' 9 9 [] 0 KOther,
       ex_object ''A'' 0 1 [ex_struct_prop ''b'' 0 2] 8 KScriptStruct,
       ex_object ''B'' 0 9 [ex_struct_prop ''a'' 0 1, ex_array_prop ''as'' 8 1] 24 KScriptStruct,
       ex_object ''C'' 0 3 [ex_struct_prop ''a'' 0 1] 8 KClass ]"

text \<open>
  A store with the package \<open>Core\<close> and one class in it, without children; and a class
  entry with no members, no predefined methods and no methods.
\<close>

definition ex_W_class :: World where
  "ex_W_class = [ ex_object ''Core'' 9 9 [] 0 KOther, ex_object ''Thing'' 0 9 [] 0 KClass ]"

definition ex_Class_empty :: Class where
  "ex_Class_empty =
     \<lparr> Name = ''Thing'', FullName = ''Object Thing'', NameCpp = ''UThing'', NameCppFull = ''class UThing'',
       Size = 0, InheritedSize = 0, Members = [], PredefinedMethods = [], Methods = [] \<rparr>"

text \<open>
  Two bitfields of the byte at offset 0 and an array of two elements of size 4 at offset
  4; a property at offset 4 of element size 8 whose mapped type has size 4; and a
  property at offset 4 whose type is not resolved.
\<close>

definition ex_bit :: "string \<Rightarrow> nat \<Rightarrow> nat \<Rightarrow> UEProperty" where
  "ex_bit name offset bitMask =
     UEProperty name (''BoolProperty '' @ name) offset 1 1 0
       \<lparr> InfoType = Primitive, InfoSize = 1, CanBeReference = False, InfoCppType = ''unsigned char'' \<rparr>
       (BoolProperty bitMask)"

definition ex_layout :: "UEProperty list" where
  "ex_layout =
     [ ex_bit ''bA'' 0 1, ex_bit ''bB'' 0 2,
       UEProperty ''Grid'' ''IntProperty Grid'' 4 4 2 0 (ex_info 4 False) OtherProperty ]"

definition ex_wide :: UEProperty where
  "ex_wide = UEProperty ''Wide'' ''Property Wide'' 4 8 1 0 (ex_info 4 False) OtherProperty"

definition ex_odd :: UEProperty where
  "ex_odd =
     UEProperty ''Odd'' ''Property Odd'' 4 4 1 0
       \<lparr> InfoType = Unknown, InfoSize = 0, CanBeReference = False, InfoCppType = [] \<rparr> OtherProperty"

section \<open>Properties\<close>

lemmas ex_defs = ex_X_def ex_G_def ex_info_def ex_prop_def ex_object_def ex_Package_def ex_W_def

subsection \<open>The trailing filler\<close>

text \<open>Whatever branch a property takes, the loop leaves the cursor at the property's end.\<close>

lemma GenerateMembers_step_cursor:
  "fst (GenerateMembers_step X p (c, ms, names, cnt)) = GetOffset p + GetElementSize p * GetArrayDim p"
  by (simp add: GenerateMembers_step_def Let_def split: prod.splits option.splits)

lemma GenerateMembers_loop_cursor:
  "fst (GenerateMembers_loop X ps st) = layout_end (fst st) ps"
proof (induction ps arbitrary: st)
  case Nil
  then show ?case by simp
next
  case (Cons p ps)
  obtain c ms names cnt where st: "st = (c, ms, names, cnt)" by (cases st) auto
  show ?case
    using Cons.IH [of "GenerateMembers_step X p st"] GenerateMembers_step_cursor [of X p c ms names cnt]
    by (simp add: st)
qed

text \<open>
  C7. After the property loop, whose cursor stands at the end of the last property,
  \<^verbatim>\<open>GenerateMembers\<close> appends one filler for the span from
  the cursor to the struct's size exactly when the cursor is below that size and the
  remainder is at least \<^verbatim>\<open>GetGlobalMemberAlignment\<close>, and appends nothing otherwise.
  For properties at offsets 0, 4 and 8 of size 4 in a struct of size 16 the output is the
  three members, followed by the filler of offset 12 and size 4 exactly when 4 is at
  least the threshold.
\<close>

theorem C7_trailing_filler:
  "GenerateMembers G X W structObj offset0 properties members0 =
     (case GenerateMembers_loop X properties (offset0, members0, Map.empty, 0) of
        (offset, members, uniqueMemberNames, unknownDataCounter) \<Rightarrow>
          if offset < GetPropertySize W structObj
             \<and> GetGlobalMemberAlignment G \<le> GetPropertySize W structObj - offset
          then members @ [Member_Unknown unknownDataCounter offset (GetPropertySize W structObj - offset) ''MISSED OFFSET'']
          else members)
   \<and> fst (GenerateMembers_loop X properties (offset0, members0, Map.empty, 0)) = layout_end offset0 properties
   \<and> GenerateMembers (ex_G e threshold) ex_X ex_W 1 0 [ex_prop ''A'' 0, ex_prop ''B'' 4, ex_prop ''C'' 8] [] =
       [ \<lparr> Member_Name = ''A'', Member_Type = ''int'', Member_Offset = 0, Member_Size = 4,
           Member_Flags = 0, Member_FlagsString = [], Member_Comment = [] \<rparr>,
         \<lparr> Member_Name = ''B'', Member_Type = ''int'', Member_Offset = 4, Member_Size = 4,
           Member_Flags = 0, Member_FlagsString = [], Member_Comment = [] \<rparr>,
         \<lparr> Member_Name = ''C'', Member_Type = ''int'', Member_Offset = 8, Member_Size = 4,
           Member_Flags = 0, Member_FlagsString = [], Member_Comment = [] \<rparr> ]
       @ (if 4 \<ge> threshold then [Member_Unknown 0 12 4 ''MISSED OFFSET''] else [])"
proof (intro conjI)
  show "fst (GenerateMembers_loop X properties (offset0, members0, Map.empty, 0)) = layout_end offset0 properties"
    by (simp add: GenerateMembers_loop_cursor)
  show "GenerateMembers G X W structObj offset0 properties members0 =
     (case GenerateMembers_loop X properties (offset0, members0, Map.empty, 0) of
        (offset, members, uniqueMemberNames, unknownDataCounter) \<Rightarrow>
          if offset < GetPropertySize W structObj
             \<and> GetGlobalMemberAlignment G \<le> GetPropertySize W structObj - offset
          then members @ [Member_Unknown unknownDataCounter offset (GetPropertySize W structObj - offset) ''MISSED OFFSET'']
          else members)"
    by (simp add: GenerateMembers_def Let_def split: prod.splits)
next
  show "GenerateMembers (ex_G e threshold) ex_X ex_W 1 0 [ex_prop ''A'' 0, ex_prop ''B'' 4, ex_prop ''C'' 8] [] =
       [ \<lparr> Member_Name = ''A'', Member_Type = ''int'', Member_Offset = 0, Member_Size = 4,
           Member_Flags = 0, Member_FlagsString = [], Member_Comment = [] \<rparr>,
         \<lparr> Member_Name = ''B'', Member_Type = ''int'', Member_Offset = 4, Member_Size = 4,
           Member_Flags = 0, Member_FlagsString = [], Member_Comment = [] \<rparr>,
         \<lparr> Member_Name = ''C'', Member_Type = ''int'', Member_Offset = 8, Member_Size = 4,
           Member_Flags = 0, Member_FlagsString = [], Member_Comment = [] \<rparr> ]
       @ (if 4 \<ge> threshold then [Member_Unknown 0 12 4 ''MISSED OFFSET''] else [])"
    by (simp add: GenerateMembers_def GenerateMembers_step_def sizeMismatch_def static_cast_int_def GetPropertySize_def
        IsBoolProperty_def Let_def ex_defs)
qed

theorem C7_trailing_filler_witness:
  "map (\<lambda>m. (Member_Offset m, Member_Size m))
     (GenerateMembers (ex_G False 4) ex_X ex_W 1 0 [ex_prop ''A'' 0, ex_prop ''B'' 4, ex_prop ''C'' 8] [])
     = [(0, 4), (4, 4), (8, 4), (12, 4)]
   \<and> map (\<lambda>m. (Member_Offset m, Member_Size m))
     (GenerateMembers (ex_G False 8) ex_X ex_W 1 0 [ex_prop ''A'' 0, ex_prop ''B'' 4, ex_prop ''C'' 8] [])
     = [(0, 4), (4, 4), (8, 4)]"
  using C7_trailing_filler [THEN conjunct2, THEN conjunct2, of False 4]
        C7_trailing_filler [THEN conjunct2, THEN conjunct2, of False 8]
  by (simp add: Member_Unknown_def)

subsection \<open>Save and the constants\<close>

text \<open>
  C10. The emptiness test of \<^verbatim>\<open>Save\<close> does not read the constants: its result flag is
  the same for every constants map. With empty-file generation off, a package with no
  enums, structs and classes, whatever its constants, gives false and opens no file; a
  package holding an enum with at least one value gives true and opens the three files.
\<close>

theorem C10_constants_not_inspected:
  "fst (Save G W path (P\<lparr> constants := cs \<rparr>)) = fst (Save G W path P)
   \<and> (\<not> ShouldGenerateEmptyFiles G \<and> enums P = [] \<and> scriptStructs P = [] \<and> classes P = []
        \<longrightarrow> Save G W path (P\<lparr> constants := cs \<rparr>) = (False, []))
   \<and> (e \<in> set (enums P) \<and> Enum_Values e \<noteq> []
        \<longrightarrow> Save G W path P = (True, [SaveStructs G W path P, SaveClasses G W path P, SaveMethods G W path P]))"
proof (intro conjI impI)
  show "fst (Save G W path (P\<lparr> constants := cs \<rparr>)) = fst (Save G W path P)"
    by (simp add: Save_def)
next
  assume "\<not> ShouldGenerateEmptyFiles G \<and> enums P = [] \<and> scriptStructs P = [] \<and> classes P = []"
  then show "Save G W path (P\<lparr> constants := cs \<rparr>) = (False, [])"
    by (simp add: Save_def)
next
  assume "e \<in> set (enums P) \<and> Enum_Values e \<noteq> []"
  then have "filter (\<lambda>e. Enum_Values e \<noteq> []) (enums P) \<noteq> []"
    by (auto simp: filter_empty_conv)
  then show "Save G W path P = (True, [SaveStructs G W path P, SaveClasses G W path P, SaveMethods G W path P])"
    by (simp add: Save_def)
qed

theorem C10_constants_not_inspected_witness:
  "Save (ex_G False 4) ex_W ''out'' ((ex_Package 0)\<lparr> constants := [''PI'' \<mapsto> ''3''] \<rparr>) = (False, [])
   \<and> Save (ex_G False 4) ex_W ''out'' ((ex_Package 0)\<lparr> enums := [ex_Enum] \<rparr>)
       = (True, [(''out'', ''SDK_Core_structs.hpp''), (''out'', ''SDK_Core_classes.hpp''), (''out'', ''SDK_Core_functions.cpp'')])"
  using C10_constants_not_inspected [where G = "ex_G False 4" and W = ex_W and path = "''out''"
          and P = "ex_Package 0" and cs = "[''PI'' \<mapsto> ''3'']" and e = ex_Enum]
        C10_constants_not_inspected [where G = "ex_G False 4" and W = ex_W and path = "''out''"
          and P = "(ex_Package 0)\<lparr> enums := [ex_Enum] \<rparr>" and cs = "Map.empty" and e = ex_Enum]
  by (simp add: ex_defs ex_Enum_def SaveStructs_def SaveClasses_def SaveMethods_def)

subsection \<open>The order repair\<close>

lemma std_find_absent: "x \<notin> set xs \<Longrightarrow> std_find xs x = length xs"
  by (induction xs) auto

lemma std_find_first: "x \<notin> set xs \<Longrightarrow> std_find (xs @ x # ys) x = length xs"
  by (induction xs) auto

lemma std_find_less: "x \<in> set xs \<Longrightarrow> std_find xs x < length xs"
  by (induction xs) auto

lemma std_find_last_unique:
  "x \<notin> set xs \<Longrightarrow> x \<notin> set ys \<Longrightarrow> std_find_last (xs @ x # ys) x = length xs"
  by (simp add: std_find_last_def std_find_first)

lemma vector_insert_at: "vector_insert (xs @ ys) (length xs) v = xs @ v # ys"
  by (simp add: vector_insert_def)

lemma vector_erase_at: "vector_erase (xs @ y # ys) (length xs) = xs @ ys"
  by (simp add: vector_erase_def)

lemma RepairOrder_ScriptStruct_absent:
  assumes "A \<notin> set xs" "B \<notin> set (xs @ A # ys)"
  shows "RepairOrder_ScriptStruct (xs @ A # ys) B A = xs @ B # A # ys"
  using assms std_find_absent [of B "xs @ A # ys"] std_find_first [of A xs ys]
        vector_insert_at [of xs "A # ys" B]
  by (simp add: RepairOrder_ScriptStruct_def)

lemma RepairOrder_Class_absent:
  assumes "A \<notin> set xs" "B \<notin> set (xs @ A # ys)"
  shows "RepairOrder_Class (xs @ A # ys) B A = xs @ B # A # ys"
  using assms std_find_absent [of B "xs @ A # ys"] std_find_first [of A xs ys]
        vector_insert_at [of xs "A # ys" B]
  by (simp add: RepairOrder_Class_def)

lemma RepairOrder_ScriptStruct_after:
  assumes "A \<notin> set xs" "B \<notin> set (xs @ A # ys)"
  shows "RepairOrder_ScriptStruct (xs @ A # ys @ B # zs) B A = xs @ B # A # ys @ zs"
proof -
  have b: "std_find (xs @ A # ys @ B # zs) B = length (xs @ A # ys)"
    using assms std_find_first [of B "xs @ A # ys" zs] by simp
  have a: "std_find (xs @ A # ys @ B # zs) A = length xs"
    using assms std_find_first [of A xs "ys @ B # zs"] by simp
  have e: "vector_erase (xs @ A # ys @ B # zs) (length (xs @ A # ys)) = xs @ A # ys @ zs"
    using vector_erase_at [of "xs @ A # ys" B zs] by simp
  show ?thesis
    using vector_insert_at [of xs "A # ys @ zs" B]
    by (simp only: RepairOrder_ScriptStruct_def Let_def a b e) simp
qed

lemma RepairOrder_Class_after:
  assumes "A \<notin> set xs" "B \<notin> set (xs @ A # ys)" "B \<notin> set zs"
  shows "RepairOrder_Class (xs @ A # ys @ B # zs) B A = xs @ B # A # ys @ zs"
proof -
  have b: "std_find (xs @ A # ys @ B # zs) B = length (xs @ A # ys)"
    using assms std_find_first [of B "xs @ A # ys" zs] by simp
  have a: "std_find (xs @ A # ys @ B # zs) A = length xs"
    using assms std_find_first [of A xs "ys @ B # zs"] by simp
  have i: "vector_insert (xs @ A # ys @ B # zs) (length xs) B = xs @ B # A # ys @ B # zs"
    using vector_insert_at [of xs "A # ys @ B # zs" B] by simp
  have l: "std_find_last (xs @ B # A # ys @ B # zs) B = length (xs @ B # A # ys)"
    using assms std_find_last_unique [of B zs "xs @ B # A # ys"]
    by (simp add: std_find_last_def std_find_first)
  have e: "vector_erase (xs @ B # A # ys @ B # zs) (length (xs @ B # A # ys)) = xs @ B # A # ys @ zs"
    using vector_erase_at [of "xs @ B # A # ys" B zs] by simp
  show ?thesis
    by (simp only: RepairOrder_Class_def Let_def a b i l e) simp
qed

lemma RepairOrder_ScriptStruct_before:
  assumes "B \<notin> set xs" "A \<notin> set (xs @ B # ys)"
  shows "RepairOrder_ScriptStruct (xs @ B # ys @ A # zs) B A = xs @ B # ys @ A # zs"
proof -
  have b: "std_find (xs @ B # ys @ A # zs) B = length xs"
    using assms std_find_first [of B xs "ys @ A # zs"] by simp
  have a: "std_find (xs @ B # ys @ A # zs) A = length (xs @ B # ys)"
    using assms std_find_first [of A "xs @ B # ys" zs] by simp
  show ?thesis
    by (simp add: RepairOrder_ScriptStruct_def Let_def a b)
qed

lemma RepairOrder_Class_before:
  assumes "B \<notin> set xs" "A \<notin> set (xs @ B # ys)"
  shows "RepairOrder_Class (xs @ B # ys @ A # zs) B A = xs @ B # ys @ A # zs"
proof -
  have b: "std_find (xs @ B # ys @ A # zs) B = length xs"
    using assms std_find_first [of B xs "ys @ A # zs"] by simp
  have a: "std_find (xs @ B # ys @ A # zs) A = length (xs @ B # ys)"
    using assms std_find_first [of A "xs @ B # ys" zs] by simp
  show ?thesis
    by (simp add: RepairOrder_Class_def Let_def a b)
qed

text \<open>
  C4, amended. With \<open>A\<close> the current unit, listed once, and \<open>B\<close> the owner of the
  dependency, both repairs (the one of the struct generator and the one of the class
  generator) insert an absent \<open>B\<close> immediately before \<open>A\<close>, move a \<open>B\<close> listed after
  \<open>A\<close> to immediately before \<open>A\<close>, and leave the order as it is when \<open>B\<close> is
  already listed before \<open>A\<close>. So \<open>[A]\<close> becomes \<open>[B, A]\<close>, \<open>[A, X, B]\<close> becomes
  \<open>[B, A, X]\<close>, and \<open>[B, X, A]\<close> stays \<open>[B, X, A]\<close>.
\<close>

theorem C4_order_repair:
  "(distinct (xs @ A # ys) \<and> B \<notin> set (xs @ A # ys) \<longrightarrow>
      RepairOrder_ScriptStruct (xs @ A # ys) B A = xs @ B # A # ys
      \<and> RepairOrder_Class (xs @ A # ys) B A = xs @ B # A # ys)
   \<and> (distinct (xs @ A # ys @ B # zs) \<longrightarrow>
      RepairOrder_ScriptStruct (xs @ A # ys @ B # zs) B A = xs @ B # A # ys @ zs
      \<and> RepairOrder_Class (xs @ A # ys @ B # zs) B A = xs @ B # A # ys @ zs)
   \<and> (distinct (xs @ B # ys @ A # zs) \<longrightarrow>
      RepairOrder_ScriptStruct (xs @ B # ys @ A # zs) B A = xs @ B # ys @ A # zs
      \<and> RepairOrder_Class (xs @ B # ys @ A # zs) B A = xs @ B # ys @ A # zs)"
proof (intro conjI impI)
  assume h: "distinct (xs @ A # ys) \<and> B \<notin> set (xs @ A # ys)"
  then have a: "A \<notin> set xs" and b: "B \<notin> set (xs @ A # ys)" by auto
  show "RepairOrder_ScriptStruct (xs @ A # ys) B A = xs @ B # A # ys"
    by (rule RepairOrder_ScriptStruct_absent [OF a b])
  show "RepairOrder_Class (xs @ A # ys) B A = xs @ B # A # ys"
    by (rule RepairOrder_Class_absent [OF a b])
next
  assume h: "distinct (xs @ A # ys @ B # zs)"
  then have a: "A \<notin> set xs" and b: "B \<notin> set (xs @ A # ys)" and c: "B \<notin> set zs" by auto
  show "RepairOrder_ScriptStruct (xs @ A # ys @ B # zs) B A = xs @ B # A # ys @ zs"
    by (rule RepairOrder_ScriptStruct_after [OF a b])
  show "RepairOrder_Class (xs @ A # ys @ B # zs) B A = xs @ B # A # ys @ zs"
    by (rule RepairOrder_Class_after [OF a b c])
next
  assume h: "distinct (xs @ B # ys @ A # zs)"
  then have b: "B \<notin> set xs" and a: "A \<notin> set (xs @ B # ys)" by auto
  show "RepairOrder_ScriptStruct (xs @ B # ys @ A # zs) B A = xs @ B # ys @ A # zs"
    by (rule RepairOrder_ScriptStruct_before [OF b a])
  show "RepairOrder_Class (xs @ B # ys @ A # zs) B A = xs @ B # ys @ A # zs"
    by (rule RepairOrder_Class_before [OF b a])
qed

theorem C4_order_repair_witness:
  "RepairOrder_ScriptStruct [0] 1 0 = [1, 0] \<and> RepairOrder_Class [0] 1 0 = [1, 0]
   \<and> RepairOrder_ScriptStruct [0, 2, 1] 1 0 = [1, 0, 2] \<and> RepairOrder_Class [0, 2, 1] 1 0 = [1, 0, 2]
   \<and> RepairOrder_ScriptStruct [1, 2, 0] 1 0 = [1, 2, 0] \<and> RepairOrder_Class [1, 2, 0] 1 0 = [1, 2, 0]"
  using C4_order_repair [where xs = "[]" and A = "0::nat" and ys = "[]" and B = 1 and zs = "[]"]
        C4_order_repair [where xs = "[]" and A = "0::nat" and ys = "[2]" and B = 1 and zs = "[]"]
  by simp

text \<open>
  The order \<open>[B, X, A]\<close> of the claim's second example, with \<open>B = 1\<close>, \<open>X = 2\<close> and
  \<open>A = 0\<close>: neither repair turns it into \<open>[X, B, A]\<close>.
\<close>

theorem C4_order_repair_counterexample:
  "RepairOrder_ScriptStruct [1, 2, 0] 1 0 \<noteq> [2, 1, 0]
   \<and> RepairOrder_Class [1, 2, 0] 1 0 \<noteq> [2, 1, 0]"
  by (simp add: RepairOrder_ScriptStruct_def RepairOrder_Class_def)

subsection \<open>Names of duplicates\<close>

lemmas ex_defs2 = ex_param_def ex_function_def ex_W_names_def

text \<open>
  C5. What the three loops do with a name that occurs three times. \<^verbatim>\<open>GenerateEnum\<close>
  reads the counter and then increments it: \<open>Value\<close>, \<open>Value01\<close>, \<open>Value02\<close>.
  \<^verbatim>\<open>GenerateMembers\<close> and \<^verbatim>\<open>GenerateMethods\<close> increment the counter and then read it:
  \<open>Value\<close>, \<open>Value02\<close>, \<open>Value03\<close>.
\<close>

theorem C5_duplicate_suffixes:
  "map Enum_Values (enums (GenerateEnum ex_X ex_W_names 1 (ex_Package 0))) = [[''Value'', ''Value01'', ''Value02'']]
   \<and> map Member_Name
         (GenerateMembers (ex_G False 8) ex_X ex_W 1 0
            [ex_prop ''Value'' 0, ex_prop ''Value'' 4, ex_prop ''Value'' 8] [])
       = [''Value'', ''Value02'', ''Value03'']
   \<and> map (map Parameter_Name) (map Parameters (GenerateMethods (ex_G False 4) ex_X ex_W_names 2 []))
       = [[''Value'', ''Value02'', ''Value03'']]"
proof (intro conjI)
  show "map Enum_Values (enums (GenerateEnum ex_X ex_W_names 1 (ex_Package 0))) = [[''Value'', ''Value01'', ''Value02'']]"
    by (simp add: GenerateEnum_def GetNames_def Let_def ex_defs ex_defs2 fmt_02d_def fmt_d.simps digit_char_def)
  show "map Member_Name
         (GenerateMembers (ex_G False 8) ex_X ex_W 1 0
            [ex_prop ''Value'' 0, ex_prop ''Value'' 4, ex_prop ''Value'' 8] [])
       = [''Value'', ''Value02'', ''Value03'']"
    by (simp add: GenerateMembers_def GenerateMembers_step_def sizeMismatch_def static_cast_int_def GetPropertySize_def
        IsBoolProperty_def
          Let_def ex_defs fmt_02d_def fmt_d.simps digit_char_def)
  show "map (map Parameter_Name) (map Parameters (GenerateMethods (ex_G False 4) ex_X ex_W_names 2 []))
       = [[''Value'', ''Value02'', ''Value03'']]"
    by (simp add: GenerateMethods_def GenerateMethods_function_def GenerateMethods_param_def
          ComparePropertyLess_def IsBoolProperty_def
          Let_def ex_defs ex_defs2 fmt_02d_def fmt_d.simps digit_char_def)
qed

subsection \<open>Array parameters\<close>

text \<open>
  C6. The array test of \<^verbatim>\<open>GenerateMethods\<close> reads \<^verbatim>\<open>prop.GetArrayDim()\<close>, the
  dimension of the function field, where the parameter is \<^verbatim>\<open>param\<close>: the outcome for a
  parameter is the same whatever its own array dimension. An input array of four
  elements in a function whose field answers dimension 1 keeps its type without
  \<open>*\<close> and is marked pass-by-reference; a scalar in a function whose field answers
  dimension 3 gets the pointer type.
\<close>

theorem C6_array_test_reads_function:
  "GenerateMethods_param G X prop (UEProperty n fn off es dim1 fl info k) st
     = GenerateMethods_param G X prop (UEProperty n fn off es dim2 fl info k) st
   \<and> map (map (\<lambda>p. (Parameter_Name p, CppType p, PassByReference p)))
         (map Parameters (GenerateMethods (ex_G False 4) ex_X ex_W_names 3 []))
       = [[(''Values'', ''int'', True)]]
   \<and> map (map (\<lambda>p. (Parameter_Name p, CppType p, PassByReference p)))
         (map Parameters (GenerateMethods (ex_G False 4) ex_X ex_W_names 4 []))
       = [[(''V'', ''int*'', False)]]"
proof (intro conjI)
  show "GenerateMethods_param G X prop (UEProperty n fn off es dim1 fl info k) st
     = GenerateMethods_param G X prop (UEProperty n fn off es dim2 fl info k) st"
    by (cases st; cases "MakeType X fl") (simp_all add: GenerateMethods_param_def IsBoolProperty_def Let_def)
  show "map (map (\<lambda>p. (Parameter_Name p, CppType p, PassByReference p)))
         (map Parameters (GenerateMethods (ex_G False 4) ex_X ex_W_names 3 []))
       = [[(''Values'', ''int'', True)]]"
    by (simp add: GenerateMethods_def GenerateMethods_function_def GenerateMethods_param_def
          ComparePropertyLess_def IsBoolProperty_def Let_def ex_defs ex_defs2)
  show "map (map (\<lambda>p. (Parameter_Name p, CppType p, PassByReference p)))
         (map Parameters (GenerateMethods (ex_G False 4) ex_X ex_W_names 4 []))
       = [[(''V'', ''int*'', False)]]"
    by (simp add: GenerateMethods_def GenerateMethods_function_def GenerateMethods_param_def
          ComparePropertyLess_def IsBoolProperty_def Let_def ex_defs ex_defs2)
qed

subsection \<open>The virtual-table scan\<close>

lemma CountMethods_stop: "\<not> Executable X c n \<Longrightarrow> CountMethods X c n = Some n"
  by (subst CountMethods.simps) (auto simp: Executable_def split: option.splits)

lemma CountMethods_next: "Executable X c n \<Longrightarrow> CountMethods X c n = CountMethods X c (Suc n)"
  by (subst CountMethods.simps) (auto simp: Executable_def split: option.splits)

lemma CountMethods_first:
  "\<not> Executable X c k \<Longrightarrow> (\<forall>i. n \<le> i \<and> i < k \<longrightarrow> Executable X c i) \<Longrightarrow> n \<le> k
   \<Longrightarrow> CountMethods X c n = Some k"
proof (induction "k - n" arbitrary: n)
  case 0
  then show ?case by (simp add: CountMethods_stop)
next
  case (Suc d)
  then have "Executable X c n" and "n < k" by auto
  moreover have "CountMethods X c (Suc n) = Some k"
    using Suc by (intro Suc.hyps) auto
  ultimately show ?case by (simp add: CountMethods_next)
qed

lemma CountMethods_Some:
  assumes a: "CountMethods X c n = Some k"
  shows "n \<le> k \<and> \<not> Executable X c k \<and> (\<forall>i. n \<le> i \<and> i < k \<longrightarrow> Executable X c i)"
proof (rule CountMethods.raw_induct
    [where P = "\<lambda>X c n k. n \<le> k \<and> \<not> Executable X c k \<and> (\<forall>i. n \<le> i \<and> i < k \<longrightarrow> Executable X c i)", OF _ a])
  fix f :: "Externals \<Rightarrow> UEObject \<Rightarrow> nat \<Rightarrow> nat option" and X c n k
  assume IH: "\<And>X c n k. f X c n = Some k \<Longrightarrow>
      n \<le> k \<and> \<not> Executable X c k \<and> (\<forall>i. n \<le> i \<and> i < k \<longrightarrow> Executable X c i)"
    and eq: "(case VirtualQuery X (VTable X c n) of
        None \<Rightarrow> Some n
      | Some protect \<Rightarrow>
          if protect \<noteq> PAGE_EXECUTE_READWRITE \<and> protect \<noteq> PAGE_EXECUTE_READ
          then Some n else f X c (n + 1)) = Some k"
  show "n \<le> k \<and> \<not> Executable X c k \<and> (\<forall>i. n \<le> i \<and> i < k \<longrightarrow> Executable X c i)"
  proof (cases "Executable X c n")
    case False
    with eq have "k = n"
      by (auto simp: Executable_def split: option.splits if_splits)
    with False show ?thesis by auto
  next
    case True
    with eq have "f X c (n + 1) = Some k"
      by (auto simp: Executable_def split: option.splits if_splits)
    from IH [OF this] have k: "n + 1 \<le> k" "\<not> Executable X c k"
      and e: "\<And>i. n + 1 \<le> i \<Longrightarrow> i < k \<Longrightarrow> Executable X c i" by auto
    have "Executable X c i" if "n \<le> i" "i < k" for i
      using that True e [of i] by (cases "i = n") auto
    with k show ?thesis by auto
  qed
qed

lemma FindSlot_Some:
  "FindSlot X c pat n i = Some j \<longleftrightarrow>
     (i \<le> j \<and> j < n \<and> SlotMatches X c pat j \<and> (\<forall>l. i \<le> l \<and> l < j \<longrightarrow> \<not> SlotMatches X c pat l))"
proof (induction X c pat n i rule: FindSlot.induct)
  case (1 X c pat n i)
  show ?case
  proof (cases "i < n")
    case False
    then show ?thesis by (subst FindSlot.simps) auto
  next
    case True
    show ?thesis
    proof (cases "SlotMatches X c pat i")
      case m: True
      have "FindSlot X c pat n i = Some i"
        using True m by (subst FindSlot.simps) simp
      moreover have "j = i" if "i \<le> j" "\<forall>l. i \<le> l \<and> l < j \<longrightarrow> \<not> SlotMatches X c pat l"
        using that m by (cases "i < j") auto
      then have "(i \<le> j \<and> j < n \<and> SlotMatches X c pat j \<and> (\<forall>l. i \<le> l \<and> l < j \<longrightarrow> \<not> SlotMatches X c pat l)) \<longleftrightarrow> j = i"
        using True m by auto
      ultimately show ?thesis by auto
    next
      case m: False
      have "FindSlot X c pat n i = FindSlot X c pat n (i + 1)"
        using True m by (subst FindSlot.simps) simp
      moreover have "(i \<le> j \<and> j < n \<and> SlotMatches X c pat j \<and> (\<forall>l. i \<le> l \<and> l < j \<longrightarrow> \<not> SlotMatches X c pat l))
          \<longleftrightarrow> (i + 1 \<le> j \<and> j < n \<and> SlotMatches X c pat j \<and> (\<forall>l. i + 1 \<le> l \<and> l < j \<longrightarrow> \<not> SlotMatches X c pat l))"
        using m by (metis Suc_eq_plus1 Suc_leI le_neq_implies_less Suc_leD less_le_not_le not_less_eq_eq)
      ultimately show ?thesis using 1 [OF True m] by simp
    qed
  qed
qed

lemma FindSlot_None:
  "FindSlot X c pat n i = None \<longleftrightarrow> (\<forall>l. i \<le> l \<and> l < n \<longrightarrow> \<not> SlotMatches X c pat l)"
proof (induction X c pat n i rule: FindSlot.induct)
  case (1 X c pat n i)
  show ?case
  proof (cases "i < n")
    case False
    then show ?thesis by (subst FindSlot.simps) auto
  next
    case True
    show ?thesis
    proof (cases "SlotMatches X c pat i")
      case m: True
      have "FindSlot X c pat n i = Some i"
        using True m by (subst FindSlot.simps) simp
      then show ?thesis using True m by auto
    next
      case m: False
      have "FindSlot X c pat n i = FindSlot X c pat n (i + 1)"
        using True m by (subst FindSlot.simps) simp
      moreover have "(\<forall>l. i \<le> l \<and> l < n \<longrightarrow> \<not> SlotMatches X c pat l) \<longleftrightarrow> (\<forall>l. i + 1 \<le> l \<and> l < n \<longrightarrow> \<not> SlotMatches X c pat l)"
        using m by (metis Suc_eq_plus1 Suc_leI le_neq_implies_less Suc_leD)
      ultimately show ?thesis using 1 [OF True m] by simp
    qed
  qed
qed

lemma ScanPatterns_eq:
  "ScanPatterns X c n patterns methods = methods @ concat (map (BoundAccessor X c n) patterns)"
  by (induction patterns arbitrary: methods) (auto simp: BoundAccessor_def split: option.splits)



lemma GenerateClass_patterns:
  assumes "CountMethods X c 0 = Some k"
    and "GetVirtualFunctionPatterns G (oFullName (W ! c)) = Some patterns"
  shows "\<exists>P'. GenerateClass G X W c P = Some P'
           \<and> map PredefinedMethods (classes P') =
               map PredefinedMethods (classes P) @
               [GetPredefinedClassMethods G (oFullName (W ! c)) @ [StaticClass G W c]
                  @ concat (map (BoundAccessor X c k) patterns)]"
  unfolding GenerateClass_def Let_def using assms by (simp add: ScanPatterns_eq)

text \<open>
  C8. The counting loop returns \<open>k\<close> exactly when the slots below \<open>k\<close> are all on
  executable pages and slot \<open>k\<close> is the first whose query fails or whose page is neither
  execute-read-write nor execute-read. For each pattern the search then binds slot \<open>j\<close>
  exactly when \<open>j\<close> is below that bound, is non-null and matches, and no slot below
  \<open>j\<close> does; it binds nothing exactly when no slot below the bound does. The scan of
  a list of patterns appends, pattern by pattern, the accessor of that first slot, and
  that is what \<^verbatim>\<open>GenerateClass\<close> puts after the predefined methods and
  \<^verbatim>\<open>StaticClass\<close>. With five executable slots followed by one that is not, the bound is
  5 for every list of patterns.
\<close>

theorem C8_virtual_table_scan:
  "(CountMethods X c 0 = Some k \<longleftrightarrow> (\<forall>i<k. Executable X c i) \<and> \<not> Executable X c k)
   \<and> (FindSlot X c pattern k 0 = Some j \<longleftrightarrow>
        j < k \<and> SlotMatches X c pattern j \<and> (\<forall>l<j. \<not> SlotMatches X c pattern l))
   \<and> (FindSlot X c pattern k 0 = None \<longleftrightarrow> (\<forall>l<k. \<not> SlotMatches X c pattern l))
   \<and> ScanPatterns X c k patterns methods = methods @ concat (map (BoundAccessor X c k) patterns)
   \<and> (CountMethods X c 0 = Some k \<and> GetVirtualFunctionPatterns G (oFullName (W ! c)) = Some patterns
        \<longrightarrow> (\<exists>P'. GenerateClass G X W c P = Some P'
               \<and> map PredefinedMethods (classes P') =
                   map PredefinedMethods (classes P) @
                   [GetPredefinedClassMethods G (oFullName (W ! c)) @ [StaticClass G W c]
                      @ concat (map (BoundAccessor X c k) patterns)]))"
proof (intro conjI impI)
  show "CountMethods X c 0 = Some k \<longleftrightarrow> (\<forall>i<k. Executable X c i) \<and> \<not> Executable X c k"
  proof
    assume "CountMethods X c 0 = Some k"
    from CountMethods_Some [OF this] show "(\<forall>i<k. Executable X c i) \<and> \<not> Executable X c k"
      by simp
  next
    assume "(\<forall>i<k. Executable X c i) \<and> \<not> Executable X c k"
    then show "CountMethods X c 0 = Some k"
      by (intro CountMethods_first) simp_all
  qed
  show "FindSlot X c pattern k 0 = Some j \<longleftrightarrow>
        j < k \<and> SlotMatches X c pattern j \<and> (\<forall>l<j. \<not> SlotMatches X c pattern l)"
    using FindSlot_Some [of X c pattern k 0 j] by simp
  show "FindSlot X c pattern k 0 = None \<longleftrightarrow> (\<forall>l<k. \<not> SlotMatches X c pattern l)"
    using FindSlot_None [of X c pattern k 0] by simp
  show "ScanPatterns X c k patterns methods = methods @ concat (map (BoundAccessor X c k) patterns)"
    by (rule ScanPatterns_eq)
next
  assume "CountMethods X c 0 = Some k \<and> GetVirtualFunctionPatterns G (oFullName (W ! c)) = Some patterns"
  then show "\<exists>P'. GenerateClass G X W c P = Some P'
               \<and> map PredefinedMethods (classes P') =
                   map PredefinedMethods (classes P) @
                   [GetPredefinedClassMethods G (oFullName (W ! c)) @ [StaticClass G W c]
                      @ concat (map (BoundAccessor X c k) patterns)]"
    by (intro GenerateClass_patterns) simp_all
qed



theorem C8_virtual_table_scan_witness:
  "CountMethods ex_X 2 0 = Some 5
   \<and> FindSlot ex_X 2 (''H'', ''x'', ''ProcessEvent at slot '') 5 0 = Some 2
   \<and> FindSlot ex_X 2 (''Z'', ''x'', ''Other at slot '') 5 0 = None
   \<and> ScanPatterns ex_X 2 5 [(''H'', ''x'', ''ProcessEvent at slot ''), (''Z'', ''x'', ''Other at slot '')] []
       = [Inline ''ProcessEvent at slot 2'']
   \<and> map PredefinedMethods (classes (the (GenerateClass ex_G_patterns ex_X ex_W 2 (ex_Package 0))))
       = [[StaticClass ex_G_patterns ex_W 2, Inline ''ProcessEvent at slot 2'']]"
proof -
  have e: "(\<forall>i<5. Executable ex_X 2 i) \<and> \<not> Executable ex_X 2 5"
    by (simp add: Executable_def ex_X_def PAGE_EXECUTE_READ_def PAGE_EXECUTE_READWRITE_def)
  have h: "(2::nat) < 5 \<and> SlotMatches ex_X 2 (''H'', ''x'', ''ProcessEvent at slot '') 2
      \<and> (\<forall>l<2. \<not> SlotMatches ex_X 2 (''H'', ''x'', ''ProcessEvent at slot '') l)"
    by (simp add: SlotMatches_def ex_X_def)
  have z: "\<forall>l<5. \<not> SlotMatches ex_X 2 (''Z'', ''x'', ''Other at slot '') l"
    by (simp add: SlotMatches_def ex_X_def)
  note H = C8_virtual_table_scan [where X = ex_X and c = 2 and k = 5 and j = 2
      and pattern = "(''H'', ''x'', ''ProcessEvent at slot '')"
      and patterns = "[(''H'', ''x'', ''ProcessEvent at slot ''), (''Z'', ''x'', ''Other at slot '')]"
      and methods = "[]" and G = ex_G_patterns and W = ex_W and P = "ex_Package 0"]
  note Z = C8_virtual_table_scan [where X = ex_X and c = 2 and k = 5
      and pattern = "(''Z'', ''x'', ''Other at slot '')"]
  have 1: "CountMethods ex_X 2 0 = Some 5"
    using H [THEN conjunct1] e by (rule iffD2)
  have 2: "FindSlot ex_X 2 (''H'', ''x'', ''ProcessEvent at slot '') 5 0 = Some 2"
    using H [THEN conjunct2, THEN conjunct1] h by (rule iffD2)
  have 3: "FindSlot ex_X 2 (''Z'', ''x'', ''Other at slot '') 5 0 = None"
    using Z [THEN conjunct2, THEN conjunct2, THEN conjunct1] z by (rule iffD2)
  have 4: "ScanPatterns ex_X 2 5 [(''H'', ''x'', ''ProcessEvent at slot ''), (''Z'', ''x'', ''Other at slot '')] []
       = [Inline ''ProcessEvent at slot 2'']"
    unfolding H [THEN conjunct2, THEN conjunct2, THEN conjunct2, THEN conjunct1]
    by (simp add: BoundAccessor_def 2 3) (simp add: ex_X_def fmt_d.simps digit_char_def)
  have g: "GetVirtualFunctionPatterns ex_G_patterns (oFullName (ex_W ! 2))
      = Some [(''H'', ''x'', ''ProcessEvent at slot ''), (''Z'', ''x'', ''Other at slot '')]"
    by (simp add: ex_G_patterns_def ex_G_def)
  from H [THEN conjunct2, THEN conjunct2, THEN conjunct2, THEN conjunct2] 1 g
  obtain P' where P': "GenerateClass ex_G_patterns ex_X ex_W 2 (ex_Package 0) = Some P'"
    and m: "map PredefinedMethods (classes P') =
      map PredefinedMethods (classes (ex_Package 0)) @
        [GetPredefinedClassMethods ex_G_patterns (oFullName (ex_W ! 2)) @ [StaticClass ex_G_patterns ex_W 2]
          @ concat (map (BoundAccessor ex_X 2 5)
              [(''H'', ''x'', ''ProcessEvent at slot ''), (''Z'', ''x'', ''Other at slot '')])]"
    by blast
  have b: "concat (map (BoundAccessor ex_X 2 5)
      [(''H'', ''x'', ''ProcessEvent at slot ''), (''Z'', ''x'', ''Other at slot '')])
      = [Inline ''ProcessEvent at slot 2'']"
    by (simp add: BoundAccessor_def 2 3) (simp add: ex_X_def fmt_d.simps digit_char_def)
  have 5: "map PredefinedMethods (classes (the (GenerateClass ex_G_patterns ex_X ex_W 2 (ex_Package 0))))
       = [[StaticClass ex_G_patterns ex_W 2, Inline ''ProcessEvent at slot 2'']]"
    unfolding P' option.sel m b by (simp add: ex_Package_def ex_G_patterns_def ex_G_def)
  from 1 2 3 4 5 show ?thesis by simp
qed

subsection \<open>The member layout\<close>

text \<open>
  The cast keeps the low 32 bits: a footprint of \<open>2 ^ 31\<close> bytes reads as a negative
  number, and one of \<open>2 ^ 32 + 4\<close> bytes as 4.
\<close>

lemma static_cast_int_wraps:
  "static_cast_int 4 = 4 \<and> static_cast_int (2 ^ 31) = - (2 ^ 31) \<and> static_cast_int (2 ^ 32 + 4) = 4"
  by (simp add: static_cast_int_def)

text \<open>
  Whatever the properties, each turn of the loop appends members that agree with their
  origins, and their spans are those of \<open>spans\<close>; so do the loop and the whole run.
\<close>

lemma member_spans_append:
  "length ms = length os \<Longrightarrow>
   member_spans (ms @ ms') (os @ os') = member_spans ms os @ member_spans ms' os'"
  by (simp add: member_spans_def)

lemma member_spans_offsets:
  "length ms = length os \<Longrightarrow> map Span_Offset (member_spans ms os) = map Member_Offset ms"
proof (induction ms arbitrary: os)
  case Nil
  then show ?case by (simp add: member_spans_def)
next
  case (Cons m ms)
  then obtain x xs where os: "os = x # xs" by (cases os) auto
  with Cons.prems have l: "length ms = length xs" by simp
  from Cons.IH [OF l] show ?case
    by (cases x) (simp_all add: os member_spans_def)
qed

lemma GenerateMembers_step_emits:
  "\<exists>new names' cnt'.
     GenerateMembers_step X p (c, ms, names, cnt)
       = (GetOffset p + GetElementSize p * GetArrayDim p, ms @ new, names', cnt')
     \<and> list_all2 member_of new (member_props c [p])
     \<and> member_spans new (member_props c [p]) = spans c [p]"
  by (cases "names (MakeValidName X (GetName p))")
     (simp_all add: GenerateMembers_step_def Let_def member_spans_def Member_Unknown_def)

lemma GenerateMembers_loop_emits:
  "\<exists>new names' cnt'.
     GenerateMembers_loop X ps (c, ms, names, cnt) = (layout_end c ps, ms @ new, names', cnt')
     \<and> list_all2 member_of new (member_props c ps)
     \<and> member_spans new (member_props c ps) = spans c ps"
proof (induction ps arbitrary: c ms names cnt)
  case Nil
  then show ?case by (simp add: member_spans_def)
next
  case (Cons p ps)
  let ?c = "GetOffset p + GetElementSize p * GetArrayDim p"
  from GenerateMembers_step_emits [of X p c ms names cnt]
  obtain new1 names1 cnt1 where
    st: "GenerateMembers_step X p (c, ms, names, cnt) = (?c, ms @ new1, names1, cnt1)"
    and m1: "list_all2 member_of new1 (member_props c [p])"
    and s1: "member_spans new1 (member_props c [p]) = spans c [p]"
    by blast
  from Cons.IH [of ?c "ms @ new1" names1 cnt1]
  obtain new2 names2 cnt2 where
    lp: "GenerateMembers_loop X ps (?c, ms @ new1, names1, cnt1)
           = (layout_end ?c ps, (ms @ new1) @ new2, names2, cnt2)"
    and m2: "list_all2 member_of new2 (member_props ?c ps)"
    and s2: "member_spans new2 (member_props ?c ps) = spans ?c ps"
    by blast
  have l1: "length new1 = length (member_props c [p])"
    using m1 by (rule list_all2_lengthD)
  have mp: "member_props c (p # ps) = member_props c [p] @ member_props ?c ps" by simp
  have sp: "spans c (p # ps) = spans c [p] @ spans ?c ps" by simp
  have "list_all2 member_of (new1 @ new2) (member_props c (p # ps))"
    unfolding mp using m1 m2 by (rule list_all2_appendI)
  moreover have "member_spans (new1 @ new2) (member_props c (p # ps)) = spans c (p # ps)"
    unfolding mp sp using member_spans_append [OF l1] s1 s2 by simp
  moreover have "GenerateMembers_loop X (p # ps) (c, ms, names, cnt)
                   = (layout_end c (p # ps), ms @ (new1 @ new2), names2, cnt2)"
    using st lp by simp
  ultimately show ?case by blast
qed

lemma GenerateMembers_emits:
  "list_all2 member_of (GenerateMembers G X W structObj offset0 properties [])
     (member_origins G W structObj offset0 properties)
   \<and> member_spans (GenerateMembers G X W structObj offset0 properties [])
       (member_origins G W structObj offset0 properties)
     = spans offset0 properties
       @ (if trailing_filler G W structObj offset0 properties
          then [\<lparr> Span_Offset = layout_end offset0 properties,
                  Span_Size = GetPropertySize W structObj - layout_end offset0 properties,
                  Span_Bitfield = False \<rparr>]
          else [])"
proof -
  from GenerateMembers_loop_emits [of X properties offset0 "[]" Map.empty 0]
  obtain new names cnt where
    lp: "GenerateMembers_loop X properties (offset0, [], Map.empty, 0)
           = (layout_end offset0 properties, new, names, cnt)"
    and m: "list_all2 member_of new (member_props offset0 properties)"
    and s: "member_spans new (member_props offset0 properties) = spans offset0 properties"
    by auto
  have l: "length new = length (member_props offset0 properties)"
    using m by (rule list_all2_lengthD)
  show ?thesis
  proof (cases "trailing_filler G W structObj offset0 properties")
    case True
    then have g: "GenerateMembers G X W structObj offset0 properties []
                    = new @ [Member_Unknown cnt (layout_end offset0 properties)
                               (GetPropertySize W structObj - layout_end offset0 properties) ''MISSED OFFSET'']"
      by (simp add: GenerateMembers_def lp Let_def trailing_filler_def)
    have o: "member_origins G W structObj offset0 properties = member_props offset0 properties @ [None]"
      using True by (simp add: member_origins_def)
    have "list_all2 member_of (new @ [Member_Unknown cnt (layout_end offset0 properties)
                               (GetPropertySize W structObj - layout_end offset0 properties) ''MISSED OFFSET''])
            (member_props offset0 properties @ [None])"
      using m by (rule list_all2_appendI) (simp add: Member_Unknown_def)
    then show ?thesis
      unfolding g o using True member_spans_append [OF l] s
      by (simp add: member_spans_def Member_Unknown_def)
  next
    case False
    then have g: "GenerateMembers G X W structObj offset0 properties [] = new"
      by (auto simp: GenerateMembers_def lp Let_def trailing_filler_def)
    have o: "member_origins G W structObj offset0 properties = member_props offset0 properties"
      using False by (simp add: member_origins_def)
    show ?thesis unfolding g o using False m s by simp
  qed
qed

text \<open>
  The spans from a cursor: their offsets are sorted when the fillers placed at the cursor
  are aligned, and they tile when the layout is exact.
\<close>

lemma sizeMismatch_same:
  "InfoSize (GetInfo p) = GetElementSize p \<Longrightarrow> sizeMismatch p = 0"
  by (simp add: sizeMismatch_def)

lemma layout_end_lower:
  "lo \<le> c \<Longrightarrow> \<forall>p \<in> set ps. lo \<le> GetOffset p \<Longrightarrow> lo \<le> layout_end c ps"
  by (induction ps arbitrary: c) auto

lemma spans_sorted:
  "lo \<le> c \<Longrightarrow> \<forall>p \<in> set ps. lo \<le> GetOffset p \<Longrightarrow> sorted (map GetOffset ps) \<Longrightarrow>
   cursor_fillers_aligned c ps \<Longrightarrow>
   sorted (map Span_Offset (spans c ps))
   \<and> (\<forall>s \<in> set (spans c ps). lo \<le> Span_Offset s \<and> Span_Offset s \<le> layout_end c ps)"
proof (induction ps arbitrary: lo c)
  case Nil
  then show ?case by simp
next
  case (Cons p ps)
  let ?c = "GetOffset p + GetElementSize p * GetArrayDim p"
  have a: "GetOffset p \<le> ?c" by simp
  have b: "\<forall>q \<in> set ps. GetOffset p \<le> GetOffset q" using Cons.prems(3) by auto
  have c: "sorted (map GetOffset ps)" using Cons.prems(3) by simp
  have d: "cursor_fillers_aligned ?c ps" using Cons.prems(4) by simp
  from Cons.IH [OF a b c d]
  have ih1: "sorted (map Span_Offset (spans ?c ps))"
    and ih2: "\<forall>s \<in> set (spans ?c ps). GetOffset p \<le> Span_Offset s \<and> Span_Offset s \<le> layout_end ?c ps"
    by auto
  have e: "GetOffset p \<le> layout_end ?c ps" by (rule layout_end_lower [OF a b])
  have lo: "lo \<le> c" "lo \<le> GetOffset p" using Cons.prems(1,2) by auto
  have k: "(InfoType (GetInfo p) \<noteq> Unknown \<and> sizeMismatch p \<le> 0) \<or> GetOffset p = c"
    using Cons.prems(4) by simp
  show ?case
    using ih1 ih2 e lo k by (auto simp: sorted_append)
qed

lemma spans_tile:
  "exact_layout prev ps \<Longrightarrow>
   \<exists>last. span_end last = layout_end (span_end prev) ps
     \<and> (\<forall>rest b. tiles_from prev (spans (span_end prev) ps @ rest) b = tiles_from last rest b)"
proof (induction ps arbitrary: prev)
  case Nil
  then show ?case by auto
next
  case (Cons p ps)
  let ?s = "property_span p"
  let ?c = "GetOffset p + GetElementSize p * GetArrayDim p"
  from Cons.prems have A: "span_end prev \<le> GetOffset p \<or> (?s = prev \<and> Span_Bitfield prev)"
    and B: "if InfoType (GetInfo p) \<noteq> Unknown
            then InfoSize (GetInfo p) = GetElementSize p
            else GetOffset p = span_end prev"
    and C: "exact_layout ?s ps"
    by simp_all
  have e: "span_end ?s = ?c" by (simp add: span_end_def property_span_def)
  from Cons.IH [OF C] obtain last where
    l1: "span_end last = layout_end ?c ps"
    and l2: "\<And>rest b. tiles_from ?s (spans ?c ps @ rest) b = tiles_from last rest b"
    unfolding e by blast
  have step: "tiles_from prev (spans (span_end prev) (p # ps) @ rest) b = tiles_from ?s (spans ?c ps @ rest) b"
    for rest b
  proof (cases "InfoType (GetInfo p) \<noteq> Unknown")
    case True
    with B have s: "InfoSize (GetInfo p) = GetElementSize p" by simp
    have m: "sizeMismatch p = 0" by (rule sizeMismatch_same [OF s])
    have ps: "?s = \<lparr> Span_Offset = GetOffset p, Span_Size = GetElementSize p * GetArrayDim p,
                     Span_Bitfield = IsBoolProperty p \<rparr>"
      using True by (simp add: property_span_def)
    show ?thesis
    proof (cases "span_end prev < GetOffset p")
      case True
      then show ?thesis
        using \<open>InfoType (GetInfo p) \<noteq> Unknown\<close> s m ps by (simp add: span_end_def)
    next
      case False
      with A have "GetOffset p = span_end prev \<or> (?s = prev \<and> Span_Bitfield prev)" by auto
      then show ?thesis
        using False \<open>InfoType (GetInfo p) \<noteq> Unknown\<close> s m ps by auto
    qed
  next
    case False
    with B have o: "GetOffset p = span_end prev" by simp
    have ps: "?s = \<lparr> Span_Offset = GetOffset p, Span_Size = GetElementSize p * GetArrayDim p,
                     Span_Bitfield = False \<rparr>"
      using False by (simp add: property_span_def)
    show ?thesis using False o ps by simp
  qed
  show ?case
  proof (intro exI [of _ last] conjI allI)
    show "span_end last = layout_end (span_end prev) (p # ps)" using l1 by simp
  next
    fix rest b
    show "tiles_from prev (spans (span_end prev) (p # ps) @ rest) b = tiles_from last rest b"
      by (simp only: step l2)
  qed
qed

text \<open>
  The layout properties \<^verbatim>\<open>GenerateScriptStruct\<close> and \<^verbatim>\<open>GenerateClass\<close> pass on are
  sorted with \<^verbatim>\<open>ComparePropertyLess\<close>, and so by offset.
\<close>

lemma set_insert_by: "set (insert_by lt x ys) = insert x (set ys)"
  by (induction ys) auto

lemma ComparePropertyLess_offset:
  "ComparePropertyLess y x \<Longrightarrow> GetOffset y \<le> GetOffset x"
  by (auto simp: ComparePropertyLess_def split: if_splits)

lemma not_ComparePropertyLess_offset:
  "\<not> ComparePropertyLess y x \<Longrightarrow> GetOffset x \<le> GetOffset y"
  by (auto simp: ComparePropertyLess_def split: if_splits)

lemma insert_by_sorted_offsets:
  "sorted (map GetOffset ys) \<Longrightarrow> sorted (map GetOffset (insert_by ComparePropertyLess x ys))"
proof (induction ys)
  case Nil
  then show ?case by simp
next
  case (Cons y ys)
  show ?case
  proof (cases "ComparePropertyLess y x")
    case True
    from ComparePropertyLess_offset [OF True] Cons show ?thesis
      by (auto simp: True set_insert_by)
  next
    case False
    from not_ComparePropertyLess_offset [OF False] Cons.prems show ?thesis
      by (auto simp: False)
  qed
qed

lemma std_sort_sorted_offsets:
  "sorted (map GetOffset (std_sort ComparePropertyLess ps))"
  by (induction ps) (simp_all add: insert_by_sorted_offsets)

text \<open>
  C1, amended. The members \<^verbatim>\<open>GenerateMembers\<close> emits agree, one by one, with their
  origins: fillers, and the members of the resolvable properties at the offsets of these.
  Properties sorted with \<^verbatim>\<open>ComparePropertyLess\<close> are sorted by offset.
  When the properties are sorted by offset and every filler placed at the cursor stands at
  its property (no slack filler and no filler for an unresolvable property after a gap or
  inside the property before), the offsets of the members are non-decreasing. When the
  layout is exact, the spans of the members, an array spanning its element size times
  its dimension and the bitfields of one unit sharing one span, tile the bytes from the
  inherited size up to the stop, without any other overlap and without gap: the stop is
  the struct's size when the last property ends below it with a remainder of at least the
  threshold, and the end of the last property otherwise, so a remainder below the
  threshold stays uncovered.
\<close>

theorem C1_member_tiling:
  "list_all2 member_of (GenerateMembers G X W structObj offset0 properties [])
     (member_origins G W structObj offset0 properties)
   \<and> sorted (map GetOffset (std_sort ComparePropertyLess children))
   \<and> (sorted (map GetOffset properties) \<and> cursor_fillers_aligned offset0 properties
        \<longrightarrow> sorted (map Member_Offset (GenerateMembers G X W structObj offset0 properties [])))
   \<and> (exact_layout (start_span offset0) properties
        \<longrightarrow> tiles_from (start_span offset0)
              (member_spans (GenerateMembers G X W structObj offset0 properties [])
                 (member_origins G W structObj offset0 properties))
              (layout_stop G W structObj offset0 properties))"
proof (intro conjI impI)
  let ?ms = "GenerateMembers G X W structObj offset0 properties []"
  let ?os = "member_origins G W structObj offset0 properties"
  let ?t = "\<lparr> Span_Offset = layout_end offset0 properties,
              Span_Size = GetPropertySize W structObj - layout_end offset0 properties,
              Span_Bitfield = False \<rparr>"
  note E = GenerateMembers_emits [of G X W structObj offset0 properties]
  show al: "list_all2 member_of ?ms ?os" using E by simp
  show "sorted (map GetOffset (std_sort ComparePropertyLess children))"
    by (rule std_sort_sorted_offsets)
  have sp: "member_spans ?ms ?os = spans offset0 properties
              @ (if trailing_filler G W structObj offset0 properties then [?t] else [])"
    using E by simp
  have len: "length ?ms = length ?os" using al by (rule list_all2_lengthD)
  {
    assume h: "sorted (map GetOffset properties) \<and> cursor_fillers_aligned offset0 properties"
    have "sorted (map Span_Offset (spans offset0 properties))
          \<and> (\<forall>s \<in> set (spans offset0 properties).
                0 \<le> Span_Offset s \<and> Span_Offset s \<le> layout_end offset0 properties)"
      by (rule spans_sorted) (use h in simp_all)
    then have "sorted (map Span_Offset (member_spans ?ms ?os))"
      unfolding sp by (simp add: sorted_append)
    then show "sorted (map Member_Offset ?ms)"
      using member_spans_offsets [OF len] by simp
  }
  {
    assume h: "exact_layout (start_span offset0) properties"
    have e: "span_end (start_span offset0) = offset0" by (simp add: span_end_def start_span_def)
    from spans_tile [OF h] obtain last where
      l1: "span_end last = layout_end offset0 properties"
      and l2: "\<And>rest b. tiles_from (start_span offset0) (spans offset0 properties @ rest) b
                 = tiles_from last rest b"
      unfolding e by blast
    show "tiles_from (start_span offset0) (member_spans ?ms ?os)
            (layout_stop G W structObj offset0 properties)"
    proof (cases "trailing_filler G W structObj offset0 properties")
      case True
      then have "layout_end offset0 properties < GetPropertySize W structObj"
        by (simp add: trailing_filler_def)
      then show ?thesis
        unfolding sp using True l1 l2 [of "[?t]"] by (simp add: layout_stop_def span_end_def)
    next
      case False
      then show ?thesis
        unfolding sp using l1 l2 [of "[]"] by (simp add: layout_stop_def)
    qed
  }
qed

theorem C1_member_tiling_witness:
  "sorted (map GetOffset ex_layout)
   \<and> cursor_fillers_aligned 0 ex_layout
   \<and> exact_layout (start_span 0) ex_layout
   \<and> layout_stop (ex_G False 4) ex_W 1 0 ex_layout = 16
   \<and> list_all2 member_of (GenerateMembers (ex_G False 4) ex_X ex_W 1 0 ex_layout [])
        [Some (ex_bit ''bA'' 0 1), Some (ex_bit ''bB'' 0 2), None,
         Some (UEProperty ''Grid'' ''IntProperty Grid'' 4 4 2 0 (ex_info 4 False) OtherProperty), None]
   \<and> sorted (map Member_Offset (GenerateMembers (ex_G False 4) ex_X ex_W 1 0 ex_layout []))
   \<and> tiles_from (start_span 0)
        (member_spans (GenerateMembers (ex_G False 4) ex_X ex_W 1 0 ex_layout [])
           (member_origins (ex_G False 4) ex_W 1 0 ex_layout)) 16
   \<and> member_spans (GenerateMembers (ex_G False 4) ex_X ex_W 1 0 ex_layout [])
        (member_origins (ex_G False 4) ex_W 1 0 ex_layout)
      = [ \<lparr> Span_Offset = 0, Span_Size = 1, Span_Bitfield = True \<rparr>,
          \<lparr> Span_Offset = 0, Span_Size = 1, Span_Bitfield = True \<rparr>,
          \<lparr> Span_Offset = 1, Span_Size = 3, Span_Bitfield = False \<rparr>,
          \<lparr> Span_Offset = 4, Span_Size = 8, Span_Bitfield = False \<rparr>,
          \<lparr> Span_Offset = 12, Span_Size = 4, Span_Bitfield = False \<rparr> ]"
proof -
  have a: "sorted (map GetOffset ex_layout)"
    by (simp add: ex_layout_def ex_bit_def)
  have b: "cursor_fillers_aligned 0 ex_layout"
    by (simp add: ex_layout_def ex_bit_def ex_info_def sizeMismatch_def static_cast_int_def)
  have c: "exact_layout (start_span 0) ex_layout"
    by (simp add: ex_layout_def ex_bit_def ex_info_def start_span_def span_end_def property_span_def
          IsBoolProperty_def)
  have d: "layout_stop (ex_G False 4) ex_W 1 0 ex_layout = 16"
    by (simp add: layout_stop_def trailing_filler_def ex_layout_def ex_bit_def GetPropertySize_def ex_defs)
  have e: "member_origins (ex_G False 4) ex_W 1 0 ex_layout
             = [Some (ex_bit ''bA'' 0 1), Some (ex_bit ''bB'' 0 2), None,
                Some (UEProperty ''Grid'' ''IntProperty Grid'' 4 4 2 0 (ex_info 4 False) OtherProperty), None]"
    by (simp add: member_origins_def trailing_filler_def ex_layout_def ex_bit_def GetPropertySize_def
          sizeMismatch_def static_cast_int_def ex_defs)
  have f: "member_spans (GenerateMembers (ex_G False 4) ex_X ex_W 1 0 ex_layout [])
             (member_origins (ex_G False 4) ex_W 1 0 ex_layout)
      = [ \<lparr> Span_Offset = 0, Span_Size = 1, Span_Bitfield = True \<rparr>,
          \<lparr> Span_Offset = 0, Span_Size = 1, Span_Bitfield = True \<rparr>,
          \<lparr> Span_Offset = 1, Span_Size = 3, Span_Bitfield = False \<rparr>,
          \<lparr> Span_Offset = 4, Span_Size = 8, Span_Bitfield = False \<rparr>,
          \<lparr> Span_Offset = 12, Span_Size = 4, Span_Bitfield = False \<rparr> ]"
    unfolding e
    by (simp add: member_spans_def GenerateMembers_def GenerateMembers_step_def GetPropertySize_def
          IsBoolProperty_def Let_def Member_Unknown_def sizeMismatch_def static_cast_int_def
          ex_layout_def ex_bit_def ex_defs)
  from C1_member_tiling [where G = "ex_G False 4" and X = ex_X and W = ex_W and structObj = 1
         and ?offset0.0 = 0 and properties = ex_layout and children = ex_layout]
       a b c d e f
  show ?thesis by simp
qed

text \<open>
  The claim as stated fails in three ways. For the properties at offsets 0, 4 and 8 of
  size 4 in a struct of size 16 with no superclass and a threshold of 8, the three members
  end at 12 and the last four bytes have no filler. For a property at offset 4 of element
  size 8 whose mapped type has size 4, the gap filler stands at 0, the member at 4 and
  the slack filler at 0 again, so the offsets decrease. For an unresolvable property at
  offset 4, its filler stands at 0 on the gap filler, and the bytes from 4 to 8 are
  covered by no member.
\<close>

theorem C1_member_tiling_counterexample:
  "GetPropertySize ex_W 1 = 16
   \<and> \<not> tiles 0 (GenerateMembers (ex_G False 8) ex_X ex_W 1 0
                  [ex_prop ''A'' 0, ex_prop ''B'' 4, ex_prop ''C'' 8] []) 16
   \<and> \<not> tiles_from (start_span 0)
          (member_spans
             (GenerateMembers (ex_G False 8) ex_X ex_W 1 0 [ex_prop ''A'' 0, ex_prop ''B'' 4, ex_prop ''C'' 8] [])
             (member_origins (ex_G False 8) ex_W 1 0 [ex_prop ''A'' 0, ex_prop ''B'' 4, ex_prop ''C'' 8])) 16
   \<and> \<not> sorted (map Member_Offset (GenerateMembers (ex_G False 4) ex_X ex_W 1 0 [ex_wide] []))
   \<and> \<not> tiles_from (start_span 0)
          (member_spans (GenerateMembers (ex_G False 4) ex_X ex_W 1 0 [ex_odd] [])
             (member_origins (ex_G False 4) ex_W 1 0 [ex_odd])) 16"
  by (simp add: GenerateMembers_def GenerateMembers_step_def GetPropertySize_def IsBoolProperty_def
        Let_def Member_Unknown_def sizeMismatch_def static_cast_int_def member_spans_def
        member_origins_def trailing_filler_def start_span_def span_end_def ex_wide_def ex_odd_def ex_defs)

text \<open>
  The offsets a filler records are those of the cursor before the property: for a property at offset 4 of element size 8 whose mapped type has size 4,
  read from cursor 0, the loop emits the gap filler at 0, the member at 4, and the filler
  for the size mismatch at 0 again.
\<close>

lemma GenerateMembers_mismatch_filler_offset:
  "map (\<lambda>m. (Member_Offset m, Member_Size m))
     (GenerateMembers (ex_G False 4) ex_X ex_W 1 0
        [UEProperty ''Wide'' ''Property Wide'' 4 8 1 0 (ex_info 4 False) OtherProperty] [])
   = [(0, 4), (4, 4), (0, 4), (12, 4)]"
  by (simp add: GenerateMembers_def GenerateMembers_step_def sizeMismatch_def static_cast_int_def GetPropertySize_def
        IsBoolProperty_def
        Let_def Member_Unknown_def ex_defs)

text \<open>
  A member records the size of one element, also for an array; and the bitfields of one
  byte are members at one offset.
\<close>

lemma GenerateMembers_array_member_size:
  "map (\<lambda>m. (Member_Name m, Member_Offset m, Member_Size m))
     (GenerateMembers (ex_G False 4) ex_X ex_W 1 0
        [UEProperty ''Grid'' ''Property Grid'' 0 4 4 0 (ex_info 4 False) OtherProperty] [])
   = [(''Grid[0x4]'', 0, 4)]"
  by (simp add: GenerateMembers_def GenerateMembers_step_def sizeMismatch_def static_cast_int_def GetPropertySize_def
        IsBoolProperty_def
        Let_def fmt_X.simps digit_char_def ex_defs)

lemma GenerateMembers_bitfields_share_offset:
  "map (\<lambda>m. (Member_Name m, Member_Offset m, Member_Size m))
     (GenerateMembers (ex_G False 4) ex_X ex_W 1 0
        [UEProperty ''bA'' ''BoolProperty bA'' 0 1 1 0 (ex_info 1 False) (BoolProperty 1),
         UEProperty ''bB'' ''BoolProperty bB'' 0 1 1 0 (ex_info 1 False) (BoolProperty 2)] [])
   = [(''bA : 1'', 0, 1), (''bB : 1'', 0, 1), (''UnknownData00[0xF]'', 1, 15)]"
  by (simp add: GenerateMembers_def GenerateMembers_step_def sizeMismatch_def static_cast_int_def GetPropertySize_def
        IsBoolProperty_def
        Let_def Member_Unknown_def fmt_02d_def fmt_d.simps fmt_X.simps digit_char_def ex_defs)

subsection \<open>The defined set\<close>

text \<open>
  The bodies of the two generators, with their steps named, and a scheme for what every
  run preserves: a reflexive and transitive relation between packages that each step
  respects holds between the package before a run and the package after it.
\<close>

lemma GenerateScriptStructPrerequisites_Suc:
  "GenerateScriptStructPrerequisites (Suc n) G X W x P =
    (if \<not> IsValid W x then Some P
     else if contains ''Default__'' (oName (W ! x)) \<or> contains ''<uninitialized>'' (oName (W ! x))
             \<or> contains ''PLACEHOLDER-CLASS'' (oName (W ! x)) then Some P
     else if \<not> IsValid W (oPackageObject (W ! x)) then Some (Touch P x)
     else if oPackageObject (W ! x) \<noteq> packageObj P then
       Some ((Listed (Touch P x))\<lparr> packageOrder :=
          RepairOrder_ScriptStruct (packageOrder (Listed (Touch P x))) (oPackageObject (W ! x)) (packageObj (Listed (Touch P x))) \<rparr>)
     else if definedClasses (Touch P x) x = Some False then
       do {
         P4 \<leftarrow> (if IsValid W (oSuper (W ! x)) \<and> oSuper (W ! x) \<noteq> x then
                  (if definedClasses (Touch (MarkDefined (Listed (Touch P x)) x) (oSuper (W ! x))) (oSuper (W ! x)) = Some False
                   then GenerateScriptStructPrerequisites n G X W (oSuper (W ! x))
                          (Touch (MarkDefined (Listed (Touch P x)) x) (oSuper (W ! x)))
                   else Some (Touch (MarkDefined (Listed (Touch P x)) x) (oSuper (W ! x))))
                else Some (MarkDefined (Listed (Touch P x)) x));
         P5 \<leftarrow> GenerateMemberPrerequisites (GenerateScriptStructPrerequisites n G X W) (oChildren (W ! x)) P4;
         Some (GenerateScriptStruct G X W x P5)
       }
     else Some (Listed (Touch P x)))"
  by (simp add: Let_def Touch_def Listed_def MarkDefined_def)

lemma GenerateClassPrerequisites_Suc:
  "GenerateClassPrerequisites (Suc n) G X W x P =
    (if \<not> IsValid W x then Some P
     else if contains ''Default__'' (oName (W ! x)) \<or> contains ''PLACEHOLDER-CLASS'' (oName (W ! x)) then Some P
     else if \<not> IsValid W (oPackageObject (W ! x)) then Some (Touch P x)
     else if oPackageObject (W ! x) \<noteq> packageObj P then
       Some ((Listed (Touch P x))\<lparr> packageOrder :=
          RepairOrder_Class (packageOrder (Listed (Touch P x))) (oPackageObject (W ! x)) (packageObj (Listed (Touch P x))) \<rparr>)
     else if definedClasses (Touch P x) x = Some False then
       do {
         P4 \<leftarrow> (if IsValid W (oSuper (W ! x))
                then GenerateClassPrerequisites n G X W (oSuper (W ! x)) (MarkDefined (Listed (Touch P x)) x)
                else Some (MarkDefined (Listed (Touch P x)) x));
         P5 \<leftarrow> GenerateMemberPrerequisites (GenerateScriptStructPrerequisites n G X W) (oChildren (W ! x)) P4;
         GenerateClass G X W x P5
       }
     else Some (Listed (Touch P x)))"
  by (simp add: Let_def Touch_def Listed_def MarkDefined_def)


declare GenerateScriptStructPrerequisites.simps(2) [simp del]
declare GenerateClassPrerequisites.simps(2) [simp del]

lemma GenerateMemberPrerequisites_inner_rel:
  assumes refl: "\<And>P. R P P" and trans: "\<And>P Q S. R P Q \<Longrightarrow> R Q S \<Longrightarrow> R P S"
    and g: "\<And>s P P'. g s P = Some P' \<Longrightarrow> R P P'"
  shows "GenerateMemberPrerequisites_inner g ps P = Some P' \<Longrightarrow> R P P'"
proof (induction ps arbitrary: P)
  case Nil
  then show ?case by (simp add: refl)
next
  case (Cons p ps)
  show ?case
  proof (cases "InfoType (GetInfo p) = CustomStruct")
    case True
    with Cons.prems obtain P1 where
      1: "(case GetStruct p of Some s \<Rightarrow> g s P | None \<Rightarrow> Some P) = Some P1"
      and 2: "GenerateMemberPrerequisites_inner g ps P1 = Some P'"
      by (auto simp: bind_eq_Some_conv)
    from 1 have "R P P1" by (cases "GetStruct p") (auto simp: refl g)
    from this Cons.IH [OF 2] show ?thesis by (rule trans)
  next
    case False
    with Cons.prems Cons.IH show ?thesis by simp
  qed
qed

lemma GenerateMemberPrerequisites_rel:
  assumes refl: "\<And>P. R P P" and trans: "\<And>P Q S. R P Q \<Longrightarrow> R Q S \<Longrightarrow> R P S"
    and g: "\<And>s P P'. g s P = Some P' \<Longrightarrow> R P P'"
  shows "GenerateMemberPrerequisites g ps P = Some P' \<Longrightarrow> R P P'"
proof (induction ps arbitrary: P)
  case Nil
  then show ?case by (simp add: refl)
next
  case (Cons p ps)
  show ?case
  proof (cases "InfoType (GetInfo p) = CustomStruct")
    case True
    with Cons.prems obtain P1 where
      1: "(case GetStruct p of Some s \<Rightarrow> g s P | None \<Rightarrow> Some P) = Some P1"
      and 2: "GenerateMemberPrerequisites g ps P1 = Some P'"
      by (auto simp: bind_eq_Some_conv)
    from 1 have "R P P1" by (cases "GetStruct p") (auto simp: refl g)
    from this Cons.IH [OF 2] show ?thesis by (rule trans)
  next
    case False
    show ?thesis
    proof (cases "InfoType (GetInfo p) = Container")
      case True
      with False Cons.prems obtain P1 where
        1: "GenerateMemberPrerequisites_inner g (InnerProperties p) P = Some P1"
        and 2: "GenerateMemberPrerequisites g ps P1 = Some P'"
        by (auto simp: bind_eq_Some_conv)
      have "R P P1"
      proof (rule GenerateMemberPrerequisites_inner_rel [where R = R and g = g])
        show "\<And>P. R P P" by (rule refl)
        show "\<And>P Q S. R P Q \<Longrightarrow> R Q S \<Longrightarrow> R P S" by (rule trans)
        show "\<And>s P P'. g s P = Some P' \<Longrightarrow> R P P'" by (rule g)
        show "GenerateMemberPrerequisites_inner g (InnerProperties p) P = Some P1" by (rule 1)
      qed
      from this Cons.IH [OF 2] show ?thesis by (rule trans)
    next
      case c: False
      with False Cons.prems Cons.IH show ?thesis by simp
    qed
  qed
qed


lemma packageObj_Listed_Touch [simp]: "packageObj (Listed (Touch P x)) = packageObj P"
  by (simp add: Listed_def Touch_def)

lemma GenerateScriptStructPrerequisites_rel:
  assumes refl: "\<And>P. R P P" and trans: "\<And>P Q S. R P Q \<Longrightarrow> R Q S \<Longrightarrow> R P S"
    and touch: "\<And>P x. R P (Touch P x)"
    and listed: "\<And>P. R P (Listed P)"
    and mark: "\<And>P x. R P (MarkDefined P x)"
    and repair: "\<And>P B. R P (P\<lparr> packageOrder := RepairOrder_ScriptStruct (packageOrder P) B (packageObj P) \<rparr>)"
    and gen: "\<And>P x. R P (GenerateScriptStruct G X W x P)"
  shows "GenerateScriptStructPrerequisites fuel G X W x P = Some P' \<Longrightarrow> R P P'"
proof (induction fuel arbitrary: x P P')
  case 0
  then show ?case by simp
next
  case (Suc n)
  let ?Q = "Listed (Touch P x)"
  let ?M = "MarkDefined ?Q x"
  let ?s = "oSuper (W ! x)"
  have RQ: "R P ?Q" by (rule trans [OF touch listed])
  have RM: "R P ?M" by (rule trans [OF RQ mark])
  note eq = Suc.prems [unfolded GenerateScriptStructPrerequisites_Suc]
  show ?case
  proof (cases "\<not> IsValid W x \<or> contains ''Default__'' (oName (W ! x))
      \<or> contains ''<uninitialized>'' (oName (W ! x)) \<or> contains ''PLACEHOLDER-CLASS'' (oName (W ! x))")
    case True
    with eq have "P' = P" by (auto split: if_splits)
    then show ?thesis by (simp add: refl)
  next
    case ok: False
    show ?thesis
    proof (cases "IsValid W (oPackageObject (W ! x))")
      case False
      with ok eq have "P' = Touch P x" by (auto split: if_splits)
      then show ?thesis by (simp add: touch)
    next
      case pv: True
      show ?thesis
      proof (cases "oPackageObject (W ! x) = packageObj P")
        case False
        with ok pv eq have "P' = ?Q\<lparr> packageOrder :=
            RepairOrder_ScriptStruct (packageOrder ?Q) (oPackageObject (W ! x)) (packageObj ?Q) \<rparr>"
          by auto
        then show ?thesis using trans [OF RQ repair] by simp
      next
        case own: True
        show ?thesis
        proof (cases "definedClasses (Touch P x) x = Some False")
          case False
          with ok pv own eq have "P' = ?Q" by (auto split: if_splits)
          then show ?thesis by (simp add: RQ)
        next
          case undef: True
          with ok pv own eq obtain P4 P5 where
            4: "(if IsValid W ?s \<and> ?s \<noteq> x then
                  (if definedClasses (Touch ?M ?s) ?s = Some False
                   then GenerateScriptStructPrerequisites n G X W ?s (Touch ?M ?s)
                   else Some (Touch ?M ?s))
                else Some ?M) = Some P4"
            and 5: "GenerateMemberPrerequisites (GenerateScriptStructPrerequisites n G X W) (oChildren (W ! x)) P4 = Some P5"
            and 6: "P' = GenerateScriptStruct G X W x P5"
            by (auto simp: bind_eq_Some_conv split: if_splits)
          have "R ?M P4"
          proof (cases "IsValid W ?s \<and> ?s \<noteq> x")
            case False
            with 4 show ?thesis by (auto simp: refl)
          next
            case True
            show ?thesis
            proof (cases "definedClasses (Touch ?M ?s) ?s = Some False")
              case False
              with True 4 show ?thesis by (auto simp: touch)
            next
              case d: True
              with True 4 have "GenerateScriptStructPrerequisites n G X W ?s (Touch ?M ?s) = Some P4"
                by simp
              from touch Suc.IH [OF this] show ?thesis by (rule trans)
            qed
          qed
          with RM have R4: "R P P4" by (rule trans)
          have "R P4 P5"
          proof (rule GenerateMemberPrerequisites_rel [where R = R and g = "GenerateScriptStructPrerequisites n G X W"])
            show "\<And>P. R P P" by (rule refl)
            show "\<And>P Q S. R P Q \<Longrightarrow> R Q S \<Longrightarrow> R P S" by (rule trans)
            show "\<And>s P P'. GenerateScriptStructPrerequisites n G X W s P = Some P' \<Longrightarrow> R P P'"
              by (rule Suc.IH)
            show "GenerateMemberPrerequisites (GenerateScriptStructPrerequisites n G X W) (oChildren (W ! x)) P4 = Some P5"
              by (rule 5)
          qed
          with R4 have "R P P5" by (rule trans)
          from this gen have "R P (GenerateScriptStruct G X W x P5)" by (rule trans)
          with 6 show ?thesis by simp
        qed
      qed
    qed
  qed
qed

lemma GenerateClassPrerequisites_rel:
  assumes refl: "\<And>P. R P P" and trans: "\<And>P Q S. R P Q \<Longrightarrow> R Q S \<Longrightarrow> R P S"
    and touch: "\<And>P x. R P (Touch P x)"
    and listed: "\<And>P. R P (Listed P)"
    and mark: "\<And>P x. R P (MarkDefined P x)"
    and repair: "\<And>P B. R P (P\<lparr> packageOrder := RepairOrder_Class (packageOrder P) B (packageObj P) \<rparr>)"
    and gen: "\<And>P P' x. GenerateClass G X W x P = Some P' \<Longrightarrow> R P P'"
    and ss: "\<And>n s P P'. GenerateScriptStructPrerequisites n G X W s P = Some P' \<Longrightarrow> R P P'"
  shows "GenerateClassPrerequisites fuel G X W x P = Some P' \<Longrightarrow> R P P'"
proof (induction fuel arbitrary: x P P')
  case 0
  then show ?case by simp
next
  case (Suc n)
  let ?Q = "Listed (Touch P x)"
  let ?M = "MarkDefined ?Q x"
  let ?s = "oSuper (W ! x)"
  have RQ: "R P ?Q" by (rule trans [OF touch listed])
  have RM: "R P ?M" by (rule trans [OF RQ mark])
  note eq = Suc.prems [unfolded GenerateClassPrerequisites_Suc]
  show ?case
  proof (cases "\<not> IsValid W x \<or> contains ''Default__'' (oName (W ! x))
      \<or> contains ''PLACEHOLDER-CLASS'' (oName (W ! x))")
    case True
    with eq have "P' = P" by (auto split: if_splits)
    then show ?thesis by (simp add: refl)
  next
    case ok: False
    show ?thesis
    proof (cases "IsValid W (oPackageObject (W ! x))")
      case False
      with ok eq have "P' = Touch P x" by (auto split: if_splits)
      then show ?thesis by (simp add: touch)
    next
      case pv: True
      show ?thesis
      proof (cases "oPackageObject (W ! x) = packageObj P")
        case False
        with ok pv eq have "P' = ?Q\<lparr> packageOrder :=
            RepairOrder_Class (packageOrder ?Q) (oPackageObject (W ! x)) (packageObj ?Q) \<rparr>"
          by auto
        then show ?thesis using trans [OF RQ repair] by simp
      next
        case own: True
        show ?thesis
        proof (cases "definedClasses (Touch P x) x = Some False")
          case False
          with ok pv own eq have "P' = ?Q" by (auto split: if_splits)
          then show ?thesis by (simp add: RQ)
        next
          case undef: True
          with ok pv own eq obtain P4 P5 where
            4: "(if IsValid W ?s then GenerateClassPrerequisites n G X W ?s ?M else Some ?M) = Some P4"
            and 5: "GenerateMemberPrerequisites (GenerateScriptStructPrerequisites n G X W) (oChildren (W ! x)) P4 = Some P5"
            and 6: "GenerateClass G X W x P5 = Some P'"
            by (auto simp: bind_eq_Some_conv split: if_splits)
          have "R ?M P4"
          proof (cases "IsValid W ?s")
            case False
            with 4 show ?thesis by (auto simp: refl)
          next
            case True
            with 4 have "GenerateClassPrerequisites n G X W ?s ?M = Some P4" by simp
            then show ?thesis by (rule Suc.IH)
          qed
          with RM have R4: "R P P4" by (rule trans)
          have "R P4 P5"
          proof (rule GenerateMemberPrerequisites_rel [where R = R and g = "GenerateScriptStructPrerequisites n G X W"])
            show "\<And>P. R P P" by (rule refl)
            show "\<And>P Q S. R P Q \<Longrightarrow> R Q S \<Longrightarrow> R P S" by (rule trans)
            show "\<And>s P P'. GenerateScriptStructPrerequisites n G X W s P = Some P' \<Longrightarrow> R P P'"
              by (rule ss)
            show "GenerateMemberPrerequisites (GenerateScriptStructPrerequisites n G X W) (oChildren (W ! x)) P4 = Some P5"
              by (rule 5)
          qed
          with R4 have "R P P5" by (rule trans)
          from this gen [OF 6] show ?thesis by (rule trans)
        qed
      qed
    qed
  qed
qed

lemma GenerateClass_Some:
  "GenerateClass G X W c P = Some P' \<Longrightarrow>
     \<exists>cl. P' = P\<lparr> classes := classes P @ [cl] \<rparr> \<and> StaticClass G W c \<in> set (PredefinedMethods cl)
          \<and> Name cl = oName (W ! c)"
  unfolding GenerateClass_def Let_def
  by (auto simp: bind_eq_Some_conv ScanPatterns_eq split: option.splits)

lemma index_defined_True:
  "m y = Some True \<Longrightarrow> index_defined m x y = Some True"
  by (auto simp: index_defined_def split: option.splits)

lemma index_defined_same: "m x = Some b \<Longrightarrow> index_defined m x = m"
  by (simp add: index_defined_def)

lemma index_defined_not_True:
  "index_defined m x y \<noteq> Some True \<longleftrightarrow> m y \<noteq> Some True"
  by (auto simp: index_defined_def split: option.splits)

lemma defined_monotone_struct:
  assumes "GenerateScriptStructPrerequisites fuel G X W x P = Some P'"
  shows "definedClasses P y = Some True \<longrightarrow> definedClasses P' y = Some True"
proof (rule GenerateScriptStructPrerequisites_rel
    [where R = "\<lambda>P P'. definedClasses P y = Some True \<longrightarrow> definedClasses P' y = Some True", OF _ _ _ _ _ _ _ assms])
qed (auto simp: Touch_def Listed_def MarkDefined_def GenerateScriptStruct_def Let_def index_defined_True)

lemma defined_monotone_class:
  assumes "GenerateClassPrerequisites fuel G X W x P = Some P'"
  shows "definedClasses P y = Some True \<longrightarrow> definedClasses P' y = Some True"
proof (rule GenerateClassPrerequisites_rel
    [where R = "\<lambda>P P'. definedClasses P y = Some True \<longrightarrow> definedClasses P' y = Some True", OF _ _ _ _ _ _ _ _ assms])
  fix n s P P'
  assume "GenerateScriptStructPrerequisites n G X W s P = Some P'"
  then show "definedClasses P y = Some True \<longrightarrow> definedClasses P' y = Some True"
    by (rule defined_monotone_struct)
next
  fix P P' x
  assume "GenerateClass G X W x P = Some P'"
  then show "definedClasses P y = Some True \<longrightarrow> definedClasses P' y = Some True"
    by (auto dest: GenerateClass_Some)
qed (auto simp: Touch_def Listed_def MarkDefined_def index_defined_True)


lemma length_filter_mono:
  "(\<And>x. x \<in> set xs \<Longrightarrow> Q' x \<Longrightarrow> Q x) \<Longrightarrow> length (filter Q' xs) \<le> length (filter Q xs)"
  by (induction xs) auto

lemma length_filter_strict:
  "x \<in> set xs \<Longrightarrow> Q x \<Longrightarrow> \<not> Q' x \<Longrightarrow> (\<And>y. y \<in> set xs \<Longrightarrow> Q' y \<Longrightarrow> Q y)
   \<Longrightarrow> length (filter Q' xs) < length (filter Q xs)"
proof (induction xs)
  case Nil
  then show ?case by simp
next
  case (Cons a xs)
  have m: "length (filter Q' xs) \<le> length (filter Q xs)"
    using Cons.prems(4) by (intro length_filter_mono) auto
  show ?case
  proof (cases "a = x")
    case True
    with Cons.prems m show ?thesis by auto
  next
    case False
    with Cons.prems have "length (filter Q' xs) < length (filter Q xs)"
      by (intro Cons.IH) auto
    with Cons.prems(4) [of a] show ?thesis by auto
  qed
qed

lemma NotYetDefined_mono:
  "(\<And>y. definedClasses P y = Some True \<Longrightarrow> definedClasses P' y = Some True)
   \<Longrightarrow> NotYetDefined W P' \<le> NotYetDefined W P"
  unfolding NotYetDefined_def by (rule length_filter_mono) auto

lemma NotYetDefined_Touch [simp]: "NotYetDefined W (Touch P x) = NotYetDefined W P"
  by (simp add: NotYetDefined_def Touch_def index_defined_not_True)

lemma NotYetDefined_Listed [simp]: "NotYetDefined W (Listed P) = NotYetDefined W P"
  by (simp add: NotYetDefined_def Listed_def)

lemma NotYetDefined_MarkDefined:
  assumes "IsValid W x" and "definedClasses P x \<noteq> Some True"
  shows "NotYetDefined W (MarkDefined P x) < NotYetDefined W P"
  unfolding NotYetDefined_def
proof (rule length_filter_strict [where x = x])
  show "x \<in> set [0..<length W]" using assms(1) by (simp add: IsValid_def)
  show "definedClasses P x \<noteq> Some True" by (rule assms(2))
  show "\<not> definedClasses (MarkDefined P x) x \<noteq> Some True" by (simp add: MarkDefined_def)
  show "\<And>y. y \<in> set [0..<length W] \<Longrightarrow> definedClasses (MarkDefined P x) y \<noteq> Some True
      \<Longrightarrow> definedClasses P y \<noteq> Some True"
    by (auto simp: MarkDefined_def split: if_splits)
qed

lemma NotYetDefined_struct:
  "GenerateScriptStructPrerequisites fuel G X W x P = Some P' \<Longrightarrow> NotYetDefined W P' \<le> NotYetDefined W P"
  using defined_monotone_struct by (intro NotYetDefined_mono) blast

lemma NotYetDefined_class:
  "GenerateClassPrerequisites fuel G X W x P = Some P' \<Longrightarrow> NotYetDefined W P' \<le> NotYetDefined W P"
  using defined_monotone_class by (intro NotYetDefined_mono) blast

lemma GenerateMemberPrerequisites_inner_total:
  assumes g: "\<And>s P. NotYetDefined W P < n \<Longrightarrow> \<exists>P'. g s P = Some P'"
    and mono: "\<And>s P P'. g s P = Some P' \<Longrightarrow> NotYetDefined W P' \<le> NotYetDefined W P"
  shows "NotYetDefined W P < n \<Longrightarrow>
    \<exists>P'. GenerateMemberPrerequisites_inner g ps P = Some P' \<and> NotYetDefined W P' \<le> NotYetDefined W P"
proof (induction ps arbitrary: P)
  case Nil
  then show ?case by simp
next
  case (Cons p ps)
  show ?case
  proof (cases "InfoType (GetInfo p) = CustomStruct")
    case True
    have "\<exists>P1. (case GetStruct p of Some s \<Rightarrow> g s P | None \<Rightarrow> Some P) = Some P1
        \<and> NotYetDefined W P1 \<le> NotYetDefined W P"
      using g [OF Cons.prems] mono by (cases "GetStruct p") fastforce+
    then obtain P1 where 1: "(case GetStruct p of Some s \<Rightarrow> g s P | None \<Rightarrow> Some P) = Some P1"
      and le: "NotYetDefined W P1 \<le> NotYetDefined W P" by blast
    from le Cons.prems have "NotYetDefined W P1 < n" by simp
    from Cons.IH [OF this] obtain P' where
      "GenerateMemberPrerequisites_inner g ps P1 = Some P'" "NotYetDefined W P' \<le> NotYetDefined W P1"
      by blast
    with True 1 le show ?thesis by auto
  next
    case False
    with Cons.IH [OF Cons.prems] show ?thesis by simp
  qed
qed

lemma GenerateMemberPrerequisites_total:
  assumes g: "\<And>s P. NotYetDefined W P < n \<Longrightarrow> \<exists>P'. g s P = Some P'"
    and mono: "\<And>s P P'. g s P = Some P' \<Longrightarrow> NotYetDefined W P' \<le> NotYetDefined W P"
  shows "NotYetDefined W P < n \<Longrightarrow>
    \<exists>P'. GenerateMemberPrerequisites g ps P = Some P' \<and> NotYetDefined W P' \<le> NotYetDefined W P"
proof (induction ps arbitrary: P)
  case Nil
  then show ?case by simp
next
  case (Cons p ps)
  have "\<exists>P1. (if InfoType (GetInfo p) = CustomStruct
               then (case GetStruct p of Some s \<Rightarrow> g s P | None \<Rightarrow> Some P)
               else if InfoType (GetInfo p) = Container
               then GenerateMemberPrerequisites_inner g (InnerProperties p) P
               else Some P) = Some P1
        \<and> NotYetDefined W P1 \<le> NotYetDefined W P"
  proof (cases "InfoType (GetInfo p) = CustomStruct")
    case True
    then show ?thesis
      using g [OF Cons.prems] mono by (cases "GetStruct p") fastforce+
  next
    case False
    then show ?thesis
      using GenerateMemberPrerequisites_inner_total [where g = g and W = W and n = n, OF g mono Cons.prems]
      by auto
  qed
  then obtain P1 where 1: "(if InfoType (GetInfo p) = CustomStruct
               then (case GetStruct p of Some s \<Rightarrow> g s P | None \<Rightarrow> Some P)
               else if InfoType (GetInfo p) = Container
               then GenerateMemberPrerequisites_inner g (InnerProperties p) P
               else Some P) = Some P1"
    and le: "NotYetDefined W P1 \<le> NotYetDefined W P" by blast
  from le Cons.prems have "NotYetDefined W P1 < n" by simp
  from Cons.IH [OF this] obtain P' where
    "GenerateMemberPrerequisites g ps P1 = Some P'" "NotYetDefined W P' \<le> NotYetDefined W P1"
    by blast
  with 1 le show ?case by (auto split: if_splits)
qed


lemma Touch_entry: "definedClasses (Touch P x) x \<noteq> Some False \<Longrightarrow> definedClasses (Touch P x) x = Some True"
  by (auto simp: Touch_def index_defined_def split: option.splits)

lemma Touch_not_True: "definedClasses (Touch P x) y \<noteq> Some True \<longleftrightarrow> definedClasses P y \<noteq> Some True"
  by (simp add: Touch_def index_defined_not_True)

lemma GenerateScriptStructPrerequisites_total:
  "NotYetDefined W P < fuel \<Longrightarrow> \<exists>P'. GenerateScriptStructPrerequisites fuel G X W x P = Some P'"
proof (induction fuel arbitrary: x P)
  case 0
  then show ?case by simp
next
  case (Suc n)
  let ?Q = "Listed (Touch P x)"
  let ?M = "MarkDefined ?Q x"
  let ?s = "oSuper (W ! x)"
  show ?case
  proof (cases "IsValid W x \<and> definedClasses (Touch P x) x = Some False")
    case False
    then show ?thesis
      by (subst GenerateScriptStructPrerequisites_Suc) (auto dest: Touch_entry)
  next
    case True
    then have "definedClasses ?Q x \<noteq> Some True" by (simp add: Listed_def)
    with True have "NotYetDefined W ?M < NotYetDefined W ?Q"
      by (intro NotYetDefined_MarkDefined) simp_all
    with Suc.prems have M: "NotYetDefined W ?M < n" by simp
    have "\<exists>P4. (if IsValid W ?s \<and> ?s \<noteq> x then
                  (if definedClasses (Touch ?M ?s) ?s = Some False
                   then GenerateScriptStructPrerequisites n G X W ?s (Touch ?M ?s)
                   else Some (Touch ?M ?s))
                else Some ?M) = Some P4 \<and> NotYetDefined W P4 < n"
    proof (cases "IsValid W ?s \<and> ?s \<noteq> x \<and> definedClasses (Touch ?M ?s) ?s = Some False")
      case False
      with M show ?thesis by auto
    next
      case r: True
      from M have "NotYetDefined W (Touch ?M ?s) < n" by simp
      from Suc.IH [OF this] obtain P4 where
        4: "GenerateScriptStructPrerequisites n G X W ?s (Touch ?M ?s) = Some P4" by blast
      from NotYetDefined_struct [OF 4] M have "NotYetDefined W P4 < n" by simp
      with r 4 show ?thesis by auto
    qed
    then obtain P4 where 4: "(if IsValid W ?s \<and> ?s \<noteq> x then
                  (if definedClasses (Touch ?M ?s) ?s = Some False
                   then GenerateScriptStructPrerequisites n G X W ?s (Touch ?M ?s)
                   else Some (Touch ?M ?s))
                else Some ?M) = Some P4" and P4: "NotYetDefined W P4 < n" by blast
    have "\<exists>P5. GenerateMemberPrerequisites (GenerateScriptStructPrerequisites n G X W) (oChildren (W ! x)) P4 = Some P5
        \<and> NotYetDefined W P5 \<le> NotYetDefined W P4"
    proof (rule GenerateMemberPrerequisites_total [where n = n])
      show "\<And>s P. NotYetDefined W P < n \<Longrightarrow> \<exists>P'. GenerateScriptStructPrerequisites n G X W s P = Some P'"
        by (rule Suc.IH)
      show "\<And>s P P'. GenerateScriptStructPrerequisites n G X W s P = Some P' \<Longrightarrow> NotYetDefined W P' \<le> NotYetDefined W P"
        by (rule NotYetDefined_struct)
      show "NotYetDefined W P4 < n" by (rule P4)
    qed
    then obtain P5 where
      5: "GenerateMemberPrerequisites (GenerateScriptStructPrerequisites n G X W) (oChildren (W ! x)) P4 = Some P5"
      by blast
    show ?thesis
      using True 4 5 by (subst GenerateScriptStructPrerequisites_Suc) auto
  qed
qed

lemma GenerateClass_total:
  assumes "GetVirtualFunctionPatterns G (oFullName (W ! c)) \<noteq> None \<longrightarrow> (\<exists>k. \<not> Executable X c k)"
  shows "\<exists>P'. GenerateClass G X W c P = Some P'"
proof (cases "GetVirtualFunctionPatterns G (oFullName (W ! c))")
  case None
  then show ?thesis by (simp add: GenerateClass_def Let_def)
next
  case (Some patterns)
  with assms obtain k where k: "\<not> Executable X c k" by auto
  define k0 where "k0 = (LEAST k. \<not> Executable X c k)"
  have "\<not> Executable X c k0" unfolding k0_def using k by (rule LeastI)
  moreover have "\<forall>i. 0 \<le> i \<and> i < k0 \<longrightarrow> Executable X c i"
    unfolding k0_def using not_less_Least by blast
  ultimately have "CountMethods X c 0 = Some k0"
    by (intro CountMethods_first) simp_all
  with Some show ?thesis
    using GenerateClass_patterns [of X c k0 G W patterns P] by blast
qed

lemma GenerateClassPrerequisites_total:
  assumes scans: "\<forall>c. IsValid W c \<and> GetVirtualFunctionPatterns G (oFullName (W ! c)) \<noteq> None
                    \<longrightarrow> (\<exists>k. \<not> Executable X c k)"
  shows "NotYetDefined W P < fuel \<Longrightarrow> \<exists>P'. GenerateClassPrerequisites fuel G X W x P = Some P'"
proof (induction fuel arbitrary: x P)
  case 0
  then show ?case by simp
next
  case (Suc n)
  let ?Q = "Listed (Touch P x)"
  let ?M = "MarkDefined ?Q x"
  let ?s = "oSuper (W ! x)"
  show ?case
  proof (cases "IsValid W x \<and> definedClasses (Touch P x) x = Some False")
    case False
    then show ?thesis
      by (subst GenerateClassPrerequisites_Suc) (auto dest: Touch_entry)
  next
    case True
    then have "definedClasses ?Q x \<noteq> Some True" by (simp add: Listed_def)
    with True have "NotYetDefined W ?M < NotYetDefined W ?Q"
      by (intro NotYetDefined_MarkDefined) simp_all
    with Suc.prems have M: "NotYetDefined W ?M < n" by simp
    have "\<exists>P4. (if IsValid W ?s then GenerateClassPrerequisites n G X W ?s ?M else Some ?M) = Some P4
        \<and> NotYetDefined W P4 < n"
    proof (cases "IsValid W ?s")
      case False
      with M show ?thesis by auto
    next
      case r: True
      from Suc.IH [OF M] obtain P4 where
        4: "GenerateClassPrerequisites n G X W ?s ?M = Some P4" by blast
      from NotYetDefined_class [OF 4] M have "NotYetDefined W P4 < n" by simp
      with r 4 show ?thesis by auto
    qed
    then obtain P4 where
      4: "(if IsValid W ?s then GenerateClassPrerequisites n G X W ?s ?M else Some ?M) = Some P4"
      and P4: "NotYetDefined W P4 < n" by blast
    have "\<exists>P5. GenerateMemberPrerequisites (GenerateScriptStructPrerequisites n G X W) (oChildren (W ! x)) P4 = Some P5
        \<and> NotYetDefined W P5 \<le> NotYetDefined W P4"
    proof (rule GenerateMemberPrerequisites_total [where n = n])
      show "\<And>s P. NotYetDefined W P < n \<Longrightarrow> \<exists>P'. GenerateScriptStructPrerequisites n G X W s P = Some P'"
        by (rule GenerateScriptStructPrerequisites_total)
      show "\<And>s P P'. GenerateScriptStructPrerequisites n G X W s P = Some P' \<Longrightarrow> NotYetDefined W P' \<le> NotYetDefined W P"
        by (rule NotYetDefined_struct)
      show "NotYetDefined W P4 < n" by (rule P4)
    qed
    then obtain P5 where
      5: "GenerateMemberPrerequisites (GenerateScriptStructPrerequisites n G X W) (oChildren (W ! x)) P4 = Some P5"
      by blast
    from True scans have "GetVirtualFunctionPatterns G (oFullName (W ! x)) \<noteq> None \<longrightarrow> (\<exists>k. \<not> Executable X x k)"
      by blast
    from GenerateClass_total [OF this] obtain P' where 6: "GenerateClass G X W x P5 = Some P'"
      by blast
    show ?thesis
      using True 4 5 6 by (subst GenerateClassPrerequisites_Suc) auto
  qed
qed


lemma EnsureListed_member: "A \<in> set order \<Longrightarrow> EnsureListed order A = order"
  using std_find_less [of A order] by (simp add: EnsureListed_def)

lemma Touch_defined: "definedClasses P x = Some b \<Longrightarrow> Touch P x = P"
  by (simp add: Touch_def index_defined_same)

lemma Listed_member: "packageObj P \<in> set (packageOrder P) \<Longrightarrow> Listed P = P"
  by (simp add: Listed_def EnsureListed_member)

lemma GenerateScriptStructPrerequisites_defined:
  assumes "definedClasses P x = Some True"
  shows "\<exists>P'. GenerateScriptStructPrerequisites (Suc n) G X W x P = Some P'
           \<and> definedClasses P' = definedClasses P \<and> enums P' = enums P \<and> constants P' = constants P
           \<and> scriptStructs P' = scriptStructs P \<and> classes P' = classes P
           \<and> (packageObj P \<in> set (packageOrder P) \<and> oPackageObject (W ! x) = packageObj P \<longrightarrow> P' = P)"
  using assms
  by (subst GenerateScriptStructPrerequisites_Suc)
     (auto simp: Touch_defined Listed_member, auto simp: Listed_def)

lemma GenerateClassPrerequisites_defined:
  assumes "definedClasses P x = Some True"
  shows "\<exists>P'. GenerateClassPrerequisites (Suc n) G X W x P = Some P'
           \<and> definedClasses P' = definedClasses P \<and> enums P' = enums P \<and> constants P' = constants P
           \<and> scriptStructs P' = scriptStructs P \<and> classes P' = classes P
           \<and> (packageObj P \<in> set (packageOrder P) \<and> oPackageObject (W ! x) = packageObj P \<longrightarrow> P' = P)"
  using assms
  by (subst GenerateClassPrerequisites_Suc)
     (auto simp: Touch_defined Listed_member, auto simp: Listed_def)



lemma defined_monotone_members:
  assumes "GenerateMemberPrerequisites (GenerateScriptStructPrerequisites n G X W) ps P = Some P'"
  shows "definedClasses P y = Some True \<longrightarrow> definedClasses P' y = Some True"
proof (rule GenerateMemberPrerequisites_rel
    [where R = "\<lambda>P P'. definedClasses P y = Some True \<longrightarrow> definedClasses P' y = Some True"
       and g = "GenerateScriptStructPrerequisites n G X W", OF _ _ _ assms])
  fix s P P'
  assume "GenerateScriptStructPrerequisites n G X W s P = Some P'"
  then show "definedClasses P y = Some True \<longrightarrow> definedClasses P' y = Some True"
    by (rule defined_monotone_struct)
qed auto

lemma GenerateScriptStructPrerequisites_marks:
  assumes run: "GenerateScriptStructPrerequisites fuel G X W x P = Some P'"
    and valid: "IsValid W x"
    and name: "\<not> (contains ''Default__'' (oName (W ! x)) \<or> contains ''<uninitialized>'' (oName (W ! x))
                 \<or> contains ''PLACEHOLDER-CLASS'' (oName (W ! x)))"
    and own: "oPackageObject (W ! x) = packageObj P" and pv: "IsValid W (packageObj P)"
  shows "definedClasses P' x = Some True"
proof (cases fuel)
  case 0
  with run show ?thesis by simp
next
  case (Suc n)
  let ?Q = "Listed (Touch P x)"
  let ?M = "MarkDefined ?Q x"
  let ?s = "oSuper (W ! x)"
  note eq = run [unfolded Suc GenerateScriptStructPrerequisites_Suc]
  show ?thesis
  proof (cases "definedClasses (Touch P x) x = Some False")
    case False
    with eq valid name own pv have "P' = ?Q" by (auto split: if_splits)
    with False show ?thesis by (auto simp: Listed_def dest: Touch_entry)
  next
    case True
    with eq valid name own pv obtain P4 P5 where
      4: "(if IsValid W ?s \<and> ?s \<noteq> x then
            (if definedClasses (Touch ?M ?s) ?s = Some False
             then GenerateScriptStructPrerequisites n G X W ?s (Touch ?M ?s)
             else Some (Touch ?M ?s))
          else Some ?M) = Some P4"
      and 5: "GenerateMemberPrerequisites (GenerateScriptStructPrerequisites n G X W) (oChildren (W ! x)) P4 = Some P5"
      and 6: "P' = GenerateScriptStruct G X W x P5"
      by (auto simp: bind_eq_Some_conv split: if_splits)
    have M: "definedClasses ?M x = Some True" by (simp add: MarkDefined_def)
    have T: "definedClasses (Touch ?M ?s) x = Some True"
      using M by (simp add: Touch_def index_defined_True)
    have "definedClasses P4 x = Some True"
    proof (cases "IsValid W ?s \<and> ?s \<noteq> x \<and> definedClasses (Touch ?M ?s) ?s = Some False")
      case False
      with 4 M T show ?thesis by (auto split: if_splits)
    next
      case True
      with 4 have "GenerateScriptStructPrerequisites n G X W ?s (Touch ?M ?s) = Some P4" by simp
      from defined_monotone_struct [OF this, of x] T show ?thesis by simp
    qed
    with defined_monotone_members [OF 5, of x] have "definedClasses P5 x = Some True" by simp
    with 6 show ?thesis by (simp add: GenerateScriptStruct_def Let_def)
  qed
qed

lemma GenerateClassPrerequisites_marks:
  assumes run: "GenerateClassPrerequisites fuel G X W x P = Some P'"
    and valid: "IsValid W x"
    and name: "\<not> (contains ''Default__'' (oName (W ! x)) \<or> contains ''PLACEHOLDER-CLASS'' (oName (W ! x)))"
    and own: "oPackageObject (W ! x) = packageObj P" and pv: "IsValid W (packageObj P)"
  shows "definedClasses P' x = Some True"
proof (cases fuel)
  case 0
  with run show ?thesis by simp
next
  case (Suc n)
  let ?Q = "Listed (Touch P x)"
  let ?M = "MarkDefined ?Q x"
  let ?s = "oSuper (W ! x)"
  note eq = run [unfolded Suc GenerateClassPrerequisites_Suc]
  show ?thesis
  proof (cases "definedClasses (Touch P x) x = Some False")
    case False
    with eq valid name own pv have "P' = ?Q" by (auto split: if_splits)
    with False show ?thesis by (auto simp: Listed_def dest: Touch_entry)
  next
    case True
    with eq valid name own pv obtain P4 P5 where
      4: "(if IsValid W ?s then GenerateClassPrerequisites n G X W ?s ?M else Some ?M) = Some P4"
      and 5: "GenerateMemberPrerequisites (GenerateScriptStructPrerequisites n G X W) (oChildren (W ! x)) P4 = Some P5"
      and 6: "GenerateClass G X W x P5 = Some P'"
      by (auto simp: bind_eq_Some_conv split: if_splits)
    have M: "definedClasses ?M x = Some True" by (simp add: MarkDefined_def)
    have "definedClasses P4 x = Some True"
    proof (cases "IsValid W ?s")
      case False
      with 4 M show ?thesis by auto
    next
      case True
      with 4 have "GenerateClassPrerequisites n G X W ?s ?M = Some P4" by simp
      from defined_monotone_class [OF this, of x] M show ?thesis by simp
    qed
    with defined_monotone_members [OF 5, of x] have "definedClasses P5 x = Some True" by simp
    with GenerateClass_Some [OF 6] show ?thesis by auto
  qed
qed


text \<open>A run that returns with some fuel returns the same with more.\<close>

lemma GenerateMemberPrerequisites_inner_mono:
  assumes g: "\<And>s P r. g s P = Some r \<Longrightarrow> g' s P = Some r"
  shows "GenerateMemberPrerequisites_inner g ps P = Some r \<Longrightarrow> GenerateMemberPrerequisites_inner g' ps P = Some r"
proof (induction ps arbitrary: P)
  case Nil
  then show ?case by simp
next
  case (Cons p ps)
  show ?case
  proof (cases "InfoType (GetInfo p) = CustomStruct")
    case True
    with Cons.prems obtain P1 where
      1: "(case GetStruct p of Some s \<Rightarrow> g s P | None \<Rightarrow> Some P) = Some P1"
      and 2: "GenerateMemberPrerequisites_inner g ps P1 = Some r"
      by (auto simp: bind_eq_Some_conv)
    from 1 have "(case GetStruct p of Some s \<Rightarrow> g' s P | None \<Rightarrow> Some P) = Some P1"
      by (cases "GetStruct p") (auto simp: g)
    with True Cons.IH [OF 2] show ?thesis by simp
  next
    case False
    with Cons show ?thesis by simp
  qed
qed

lemma GenerateMemberPrerequisites_mono:
  assumes g: "\<And>s P r. g s P = Some r \<Longrightarrow> g' s P = Some r"
  shows "GenerateMemberPrerequisites g ps P = Some r \<Longrightarrow> GenerateMemberPrerequisites g' ps P = Some r"
proof (induction ps arbitrary: P)
  case Nil
  then show ?case by simp
next
  case (Cons p ps)
  show ?case
  proof (cases "InfoType (GetInfo p) = CustomStruct")
    case True
    with Cons.prems obtain P1 where
      1: "(case GetStruct p of Some s \<Rightarrow> g s P | None \<Rightarrow> Some P) = Some P1"
      and 2: "GenerateMemberPrerequisites g ps P1 = Some r"
      by (auto simp: bind_eq_Some_conv)
    from 1 have "(case GetStruct p of Some s \<Rightarrow> g' s P | None \<Rightarrow> Some P) = Some P1"
      by (cases "GetStruct p") (auto simp: g)
    with True Cons.IH [OF 2] show ?thesis by simp
  next
    case False
    show ?thesis
    proof (cases "InfoType (GetInfo p) = Container")
      case True
      with False Cons.prems obtain P1 where
        1: "GenerateMemberPrerequisites_inner g (InnerProperties p) P = Some P1"
        and 2: "GenerateMemberPrerequisites g ps P1 = Some r"
        by (auto simp: bind_eq_Some_conv)
      from GenerateMemberPrerequisites_inner_mono [where g = g and g' = g', OF g 1]
      have "GenerateMemberPrerequisites_inner g' (InnerProperties p) P = Some P1" .
      with False True Cons.IH [OF 2] show ?thesis by simp
    next
      case c: False
      with False Cons show ?thesis by simp
    qed
  qed
qed

lemma GenerateScriptStructPrerequisites_more_fuel:
  "GenerateScriptStructPrerequisites n G X W x P = Some r \<Longrightarrow>
   GenerateScriptStructPrerequisites (Suc n) G X W x P = Some r"
proof (induction n arbitrary: x P r)
  case 0
  then show ?case by simp
next
  case (Suc n)
  let ?M = "MarkDefined (Listed (Touch P x)) x"
  let ?s = "oSuper (W ! x)"
  show ?case
  proof (cases "IsValid W x
      \<and> \<not> (contains ''Default__'' (oName (W ! x)) \<or> contains ''<uninitialized>'' (oName (W ! x))
             \<or> contains ''PLACEHOLDER-CLASS'' (oName (W ! x)))
      \<and> IsValid W (oPackageObject (W ! x)) \<and> oPackageObject (W ! x) = packageObj P
      \<and> definedClasses (Touch P x) x = Some False")
    case False
    with Suc.prems show ?thesis
      by (subst GenerateScriptStructPrerequisites_Suc, subst (asm) GenerateScriptStructPrerequisites_Suc)
         (auto split: if_splits)
  next
    case True
    with Suc.prems [unfolded GenerateScriptStructPrerequisites_Suc] obtain P4 P5 where
      4: "(if IsValid W ?s \<and> ?s \<noteq> x then
            (if definedClasses (Touch ?M ?s) ?s = Some False
             then GenerateScriptStructPrerequisites n G X W ?s (Touch ?M ?s)
             else Some (Touch ?M ?s))
          else Some ?M) = Some P4"
      and 5: "GenerateMemberPrerequisites (GenerateScriptStructPrerequisites n G X W) (oChildren (W ! x)) P4 = Some P5"
      and 6: "r = GenerateScriptStruct G X W x P5"
      by (auto simp: bind_eq_Some_conv split: if_splits)
    from 4 have s4: "(if IsValid W ?s \<and> ?s \<noteq> x then
            (if definedClasses (Touch ?M ?s) ?s = Some False
             then GenerateScriptStructPrerequisites (Suc n) G X W ?s (Touch ?M ?s)
             else Some (Touch ?M ?s))
          else Some ?M) = Some P4"
      by (auto split: if_splits intro: Suc.IH)
    from GenerateMemberPrerequisites_mono [where g = "GenerateScriptStructPrerequisites n G X W"
        and g' = "GenerateScriptStructPrerequisites (Suc n) G X W", OF Suc.IH 5]
    have s5: "GenerateMemberPrerequisites (GenerateScriptStructPrerequisites (Suc n) G X W) (oChildren (W ! x)) P4 = Some P5" .
    from True s4 s5 6 show ?thesis
      by (subst GenerateScriptStructPrerequisites_Suc) auto
  qed
qed

lemma GenerateClassPrerequisites_more_fuel:
  "GenerateClassPrerequisites n G X W x P = Some r \<Longrightarrow>
   GenerateClassPrerequisites (Suc n) G X W x P = Some r"
proof (induction n arbitrary: x P r)
  case 0
  then show ?case by simp
next
  case (Suc n)
  let ?M = "MarkDefined (Listed (Touch P x)) x"
  let ?s = "oSuper (W ! x)"
  show ?case
  proof (cases "IsValid W x
      \<and> \<not> (contains ''Default__'' (oName (W ! x)) \<or> contains ''PLACEHOLDER-CLASS'' (oName (W ! x)))
      \<and> IsValid W (oPackageObject (W ! x)) \<and> oPackageObject (W ! x) = packageObj P
      \<and> definedClasses (Touch P x) x = Some False")
    case False
    with Suc.prems show ?thesis
      by (subst GenerateClassPrerequisites_Suc, subst (asm) GenerateClassPrerequisites_Suc)
         (auto split: if_splits)
  next
    case True
    with Suc.prems [unfolded GenerateClassPrerequisites_Suc] obtain P4 P5 where
      4: "(if IsValid W ?s then GenerateClassPrerequisites n G X W ?s ?M else Some ?M) = Some P4"
      and 5: "GenerateMemberPrerequisites (GenerateScriptStructPrerequisites n G X W) (oChildren (W ! x)) P4 = Some P5"
      and 6: "GenerateClass G X W x P5 = Some r"
      by (auto simp: bind_eq_Some_conv split: if_splits)
    from 4 have s4: "(if IsValid W ?s then GenerateClassPrerequisites (Suc n) G X W ?s ?M else Some ?M) = Some P4"
      by (auto split: if_splits intro: Suc.IH)
    from GenerateMemberPrerequisites_mono [where g = "GenerateScriptStructPrerequisites n G X W"
        and g' = "GenerateScriptStructPrerequisites (Suc n) G X W", OF GenerateScriptStructPrerequisites_more_fuel 5]
    have s5: "GenerateMemberPrerequisites (GenerateScriptStructPrerequisites (Suc n) G X W) (oChildren (W ! x)) P4 = Some P5" .
    from True s4 s5 6 show ?thesis
      by (subst GenerateClassPrerequisites_Suc) auto
  qed
qed

text \<open>
  C3. In a run of either generator an entry of \<^verbatim>\<open>definedClasses\<close> that is true stays
  true, so an entry goes from false to true at most once; the run on a valid, unskipped
  entity of the current package leaves its entry true. The flip is the step
  \<open>MarkDefined\<close>, taken before the calls on the superclass and the member types. On an
  entity whose entry is already true a call returns, changes neither
  \<^verbatim>\<open>definedClasses\<close> nor any entity list, and changes nothing at all when the entity
  belongs to the current package and that package is listed in \<^verbatim>\<open>packageOrder\<close>. On
  every object graph, cyclic or not, a run returns when the fuel exceeds the number of
  objects not yet defined; for classes, provided the virtual-table scan of every class
  with registered patterns meets a slot that is not executable. More fuel does not
  change what a run returns.
\<close>

theorem C3_defined_once:
  "(GenerateScriptStructPrerequisites fuel G X W x P = Some P1 \<and> definedClasses P y = Some True
      \<longrightarrow> definedClasses P1 y = Some True)
   \<and> (GenerateClassPrerequisites fuel G X W x P = Some P2 \<and> definedClasses P y = Some True
      \<longrightarrow> definedClasses P2 y = Some True)
   \<and> (GenerateScriptStructPrerequisites fuel G X W x P = Some P1 \<and> IsValid W x
        \<and> \<not> (contains ''Default__'' (oName (W ! x)) \<or> contains ''<uninitialized>'' (oName (W ! x))
                \<or> contains ''PLACEHOLDER-CLASS'' (oName (W ! x)))
        \<and> oPackageObject (W ! x) = packageObj P \<and> IsValid W (packageObj P)
      \<longrightarrow> definedClasses P1 x = Some True)
   \<and> (GenerateClassPrerequisites fuel G X W x P = Some P2 \<and> IsValid W x
        \<and> \<not> (contains ''Default__'' (oName (W ! x)) \<or> contains ''PLACEHOLDER-CLASS'' (oName (W ! x)))
        \<and> oPackageObject (W ! x) = packageObj P \<and> IsValid W (packageObj P)
      \<longrightarrow> definedClasses P2 x = Some True)
   \<and> (definedClasses P x = Some True \<longrightarrow>
        (\<exists>P'. GenerateScriptStructPrerequisites (Suc fuel) G X W x P = Some P'
           \<and> definedClasses P' = definedClasses P \<and> enums P' = enums P \<and> constants P' = constants P
           \<and> scriptStructs P' = scriptStructs P \<and> classes P' = classes P
           \<and> (packageObj P \<in> set (packageOrder P) \<and> oPackageObject (W ! x) = packageObj P \<longrightarrow> P' = P)))
   \<and> (definedClasses P x = Some True \<longrightarrow>
        (\<exists>P'. GenerateClassPrerequisites (Suc fuel) G X W x P = Some P'
           \<and> definedClasses P' = definedClasses P \<and> enums P' = enums P \<and> constants P' = constants P
           \<and> scriptStructs P' = scriptStructs P \<and> classes P' = classes P
           \<and> (packageObj P \<in> set (packageOrder P) \<and> oPackageObject (W ! x) = packageObj P \<longrightarrow> P' = P)))
   \<and> (NotYetDefined W P < fuel \<longrightarrow> (\<exists>P'. GenerateScriptStructPrerequisites fuel G X W x P = Some P'))
   \<and> (NotYetDefined W P < fuel
        \<and> (\<forall>c. IsValid W c \<and> GetVirtualFunctionPatterns G (oFullName (W ! c)) \<noteq> None
                \<longrightarrow> (\<exists>k. \<not> Executable X c k))
      \<longrightarrow> (\<exists>P'. GenerateClassPrerequisites fuel G X W x P = Some P'))
   \<and> (GenerateScriptStructPrerequisites fuel G X W x P = Some P1
      \<longrightarrow> GenerateScriptStructPrerequisites (Suc fuel) G X W x P = Some P1)
   \<and> (GenerateClassPrerequisites fuel G X W x P = Some P2
      \<longrightarrow> GenerateClassPrerequisites (Suc fuel) G X W x P = Some P2)"
proof (intro conjI impI)
  assume "GenerateScriptStructPrerequisites fuel G X W x P = Some P1 \<and> definedClasses P y = Some True"
  then show "definedClasses P1 y = Some True"
    using defined_monotone_struct [of fuel G X W x P P1 y] by simp
next
  assume "GenerateClassPrerequisites fuel G X W x P = Some P2 \<and> definedClasses P y = Some True"
  then show "definedClasses P2 y = Some True"
    using defined_monotone_class [of fuel G X W x P P2 y] by simp
next
  assume "GenerateScriptStructPrerequisites fuel G X W x P = Some P1 \<and> IsValid W x
        \<and> \<not> (contains ''Default__'' (oName (W ! x)) \<or> contains ''<uninitialized>'' (oName (W ! x))
                \<or> contains ''PLACEHOLDER-CLASS'' (oName (W ! x)))
        \<and> oPackageObject (W ! x) = packageObj P \<and> IsValid W (packageObj P)"
  then show "definedClasses P1 x = Some True"
    by (intro GenerateScriptStructPrerequisites_marks [of fuel G X W x P P1]) simp_all
next
  assume "GenerateClassPrerequisites fuel G X W x P = Some P2 \<and> IsValid W x
        \<and> \<not> (contains ''Default__'' (oName (W ! x)) \<or> contains ''PLACEHOLDER-CLASS'' (oName (W ! x)))
        \<and> oPackageObject (W ! x) = packageObj P \<and> IsValid W (packageObj P)"
  then show "definedClasses P2 x = Some True"
    by (intro GenerateClassPrerequisites_marks [of fuel G X W x P P2]) simp_all
next
  assume "definedClasses P x = Some True"
  then show "\<exists>P'. GenerateScriptStructPrerequisites (Suc fuel) G X W x P = Some P'
           \<and> definedClasses P' = definedClasses P \<and> enums P' = enums P \<and> constants P' = constants P
           \<and> scriptStructs P' = scriptStructs P \<and> classes P' = classes P
           \<and> (packageObj P \<in> set (packageOrder P) \<and> oPackageObject (W ! x) = packageObj P \<longrightarrow> P' = P)"
    by (rule GenerateScriptStructPrerequisites_defined)
next
  assume "definedClasses P x = Some True"
  then show "\<exists>P'. GenerateClassPrerequisites (Suc fuel) G X W x P = Some P'
           \<and> definedClasses P' = definedClasses P \<and> enums P' = enums P \<and> constants P' = constants P
           \<and> scriptStructs P' = scriptStructs P \<and> classes P' = classes P
           \<and> (packageObj P \<in> set (packageOrder P) \<and> oPackageObject (W ! x) = packageObj P \<longrightarrow> P' = P)"
    by (rule GenerateClassPrerequisites_defined)
next
  assume "NotYetDefined W P < fuel"
  then show "\<exists>P'. GenerateScriptStructPrerequisites fuel G X W x P = Some P'"
    by (rule GenerateScriptStructPrerequisites_total)
next
  assume "NotYetDefined W P < fuel
        \<and> (\<forall>c. IsValid W c \<and> GetVirtualFunctionPatterns G (oFullName (W ! c)) \<noteq> None
                \<longrightarrow> (\<exists>k. \<not> Executable X c k))"
  then show "\<exists>P'. GenerateClassPrerequisites fuel G X W x P = Some P'"
    using GenerateClassPrerequisites_total [of W G X P fuel x] by blast
next
  assume "GenerateScriptStructPrerequisites fuel G X W x P = Some P1"
  then show "GenerateScriptStructPrerequisites (Suc fuel) G X W x P = Some P1"
    by (rule GenerateScriptStructPrerequisites_more_fuel)
next
  assume "GenerateClassPrerequisites fuel G X W x P = Some P2"
  then show "GenerateClassPrerequisites (Suc fuel) G X W x P = Some P2"
    by (rule GenerateClassPrerequisites_more_fuel)
qed


theorem C3_defined_once_witness:
  "NotYetDefined ex_W_cycle (ex_Package 0) < 5
   \<and> GenerateScriptStructPrerequisites 5 (ex_G False 4) ex_X ex_W_cycle 1 (ex_Package 0) \<noteq> None
   \<and> GenerateClassPrerequisites 5 ex_G_patterns ex_X ex_W_cycle 3 (ex_Package 0) \<noteq> None
   \<and> map Name (scriptStructs (the (GenerateScriptStructPrerequisites 5 (ex_G False 4) ex_X ex_W_cycle 1 (ex_Package 0))))
        = [''B'', ''A'']
   \<and> definedClasses (the (GenerateScriptStructPrerequisites 5 (ex_G False 4) ex_X ex_W_cycle 1 (ex_Package 0))) 1
        = Some True
   \<and> GenerateScriptStructPrerequisites 1 (ex_G False 4) ex_X ex_W_cycle 1
        (the (GenerateScriptStructPrerequisites 5 (ex_G False 4) ex_X ex_W_cycle 1 (ex_Package 0)))
        = Some (the (GenerateScriptStructPrerequisites 5 (ex_G False 4) ex_X ex_W_cycle 1 (ex_Package 0)))"
proof -
  let ?R = "the (GenerateScriptStructPrerequisites 5 (ex_G False 4) ex_X ex_W_cycle 1 (ex_Package 0))"
  note S = C3_defined_once [where fuel = 5 and G = "ex_G False 4" and X = ex_X and W = ex_W_cycle
      and x = 1 and P = "ex_Package 0"]
  note C = C3_defined_once [where fuel = 5 and G = ex_G_patterns and X = ex_X and W = ex_W_cycle
      and x = 3 and P = "ex_Package 0"]
  note N = C3_defined_once [where fuel = 0 and G = "ex_G False 4" and X = ex_X and W = ex_W_cycle
      and x = 1 and P = ?R]
  have n: "NotYetDefined ex_W_cycle (ex_Package 0) < 5"
    by code_simp
  have scans: "\<forall>c. IsValid ex_W_cycle c \<and> GetVirtualFunctionPatterns ex_G_patterns (oFullName (ex_W_cycle ! c)) \<noteq> None
                \<longrightarrow> (\<exists>k. \<not> Executable ex_X c k)"
  proof (intro allI impI exI)
    fix c
    show "\<not> Executable ex_X c 5"
      by (simp add: Executable_def ex_X_def PAGE_EXECUTE_READ_def PAGE_EXECUTE_READWRITE_def)
  qed
  from S n have 1: "\<exists>P'. GenerateScriptStructPrerequisites 5 (ex_G False 4) ex_X ex_W_cycle 1 (ex_Package 0) = Some P'"
    by simp
  from C n scans have 2: "\<exists>P'. GenerateClassPrerequisites 5 ex_G_patterns ex_X ex_W_cycle 3 (ex_Package 0) = Some P'"
    by simp
  have r: "map Name (scriptStructs ?R) = [''B'', ''A''] \<and> definedClasses ?R 1 = Some True
      \<and> packageObj ?R \<in> set (packageOrder ?R) \<and> oPackageObject (ex_W_cycle ! 1) = packageObj ?R"
    by code_simp
  then have 3: "map Name (scriptStructs ?R) = [''B'', ''A'']"
    and 4: "definedClasses ?R 1 = Some True"
    and 5: "packageObj ?R \<in> set (packageOrder ?R) \<and> oPackageObject (ex_W_cycle ! 1) = packageObj ?R"
    by simp_all
  from N 4 5 have 6: "GenerateScriptStructPrerequisites 1 (ex_G False 4) ex_X ex_W_cycle 1 ?R = Some ?R"
    by auto
  from n 1 2 3 4 6 show ?thesis by auto
qed

subsection \<open>The StaticClass accessor and the emptiness test\<close>

lemma Save_class_with_predefined:
  assumes "c \<in> set (classes P)" and "PredefinedMethods c \<noteq> []"
  shows "Save G W path P = (True, [SaveStructs G W path P, SaveClasses G W path P, SaveMethods G W path P])"
proof -
  from assms have "filter (\<lambda>c. Members c \<noteq> [] \<or> PredefinedMethods c \<noteq> [] \<or> Methods c \<noteq> []) (classes P) \<noteq> []"
    by (auto simp: filter_empty_conv)
  then show ?thesis by (simp add: Save_def)
qed

lemma classes_kept_struct:
  assumes "GenerateScriptStructPrerequisites fuel G X W x P = Some P'"
  shows "classes P' = classes P"
proof (rule GenerateScriptStructPrerequisites_rel
    [where R = "\<lambda>P P'. classes P' = classes P", OF _ _ _ _ _ _ _ assms])
qed (auto simp: Touch_def Listed_def MarkDefined_def GenerateScriptStruct_def Let_def)

lemma classes_predefined_class:
  assumes "GenerateClassPrerequisites fuel G X W x P = Some P'"
  shows "list_all (\<lambda>c. PredefinedMethods c \<noteq> []) (classes P)
         \<longrightarrow> list_all (\<lambda>c. PredefinedMethods c \<noteq> []) (classes P')"
proof (rule GenerateClassPrerequisites_rel
    [where R = "\<lambda>P P'. list_all (\<lambda>c. PredefinedMethods c \<noteq> []) (classes P)
         \<longrightarrow> list_all (\<lambda>c. PredefinedMethods c \<noteq> []) (classes P')", OF _ _ _ _ _ _ _ _ assms])
  fix n s P P'
  assume "GenerateScriptStructPrerequisites n G X W s P = Some P'"
  then show "list_all (\<lambda>c. PredefinedMethods c \<noteq> []) (classes P)
         \<longrightarrow> list_all (\<lambda>c. PredefinedMethods c \<noteq> []) (classes P')"
    by (simp add: classes_kept_struct)
next
  fix P P' x
  assume "GenerateClass G X W x P = Some P'"
  then show "list_all (\<lambda>c. PredefinedMethods c \<noteq> []) (classes P)
         \<longrightarrow> list_all (\<lambda>c. PredefinedMethods c \<noteq> []) (classes P')"
    by (auto dest!: GenerateClass_Some)
qed (auto simp: Touch_def Listed_def MarkDefined_def)

lemma classes_predefined_loop:
  "Process_loop fuel G X W objs P = Some P' \<Longrightarrow>
   list_all (\<lambda>c. PredefinedMethods c \<noteq> []) (classes P) \<Longrightarrow>
   list_all (\<lambda>c. PredefinedMethods c \<noteq> []) (classes P')"
proof (induction objs arbitrary: P)
  case Nil
  then show ?case by simp
next
  case (Cons obj objs)
  show ?case
  proof (cases "packageObj P = oPackageObject (W ! obj)")
    case False
    with Cons show ?thesis by simp
  next
    case True
    with Cons.prems(1) obtain P1 where
      1: "(case oKind (W ! obj) of
             KEnum ns \<Rightarrow> Some (GenerateEnum X W obj P)
           | KConst v \<Rightarrow> Some (GenerateConst X W obj P)
           | KClass \<Rightarrow> GenerateClassPrerequisites fuel G X W obj P
           | KScriptStruct \<Rightarrow> GenerateScriptStructPrerequisites fuel G X W obj P
           | KOther \<Rightarrow> Some P) = Some P1"
      and 2: "Process_loop fuel G X W objs P1 = Some P'"
      by (auto simp: bind_eq_Some_conv)
    have "list_all (\<lambda>c. PredefinedMethods c \<noteq> []) (classes P1)"
    proof (cases "oKind (W ! obj)")
      case (KEnum ns)
      with 1 Cons.prems(2) show ?thesis by (auto simp: GenerateEnum_def Let_def)
    next
      case (KConst v)
      with 1 Cons.prems(2) show ?thesis by (auto simp: GenerateConst_def Let_def)
    next
      case KClass
      with 1 Cons.prems(2) show ?thesis using classes_predefined_class by auto
    next
      case KScriptStruct
      with 1 Cons.prems(2) show ?thesis by (auto simp: classes_kept_struct)
    next
      case KOther
      with 1 Cons.prems(2) show ?thesis by auto
    qed
    with Cons.IH [OF 2] show ?thesis by simp
  qed
qed

text \<open>
  C9. \<^verbatim>\<open>GenerateClass\<close> appends one class whose predefined methods contain the
  \<^verbatim>\<open>StaticClass\<close> accessor, so the list is not empty, and \<^verbatim>\<open>Save\<close> on the resulting
  package returns true and opens the three files whatever the configuration. Through
  \<^verbatim>\<open>Process\<close>: from a package without classes every class of the result has a non-empty
  list of predefined methods, and if there is at least one class \<^verbatim>\<open>Save\<close> returns true
  and opens the three files.
\<close>

theorem C9_StaticClass_always:
  "(GenerateClass G X W classObj P0 = Some P \<longrightarrow>
      (\<exists>cl. classes P = classes P0 @ [cl] \<and> StaticClass G W classObj \<in> set (PredefinedMethods cl)
            \<and> PredefinedMethods cl \<noteq> [])
      \<and> Save G W path P = (True, [SaveStructs G W path P, SaveClasses G W path P, SaveMethods G W path P]))
   \<and> (Process fuel G X W P0 = Some P \<and> classes P0 = [] \<longrightarrow>
        list_all (\<lambda>c. PredefinedMethods c \<noteq> []) (classes P))
   \<and> (Process fuel G X W P0 = Some P \<and> classes P0 = [] \<and> classes P \<noteq> [] \<longrightarrow>
        Save G W path P = (True, [SaveStructs G W path P, SaveClasses G W path P, SaveMethods G W path P]))"
proof (intro conjI impI)
  assume g: "GenerateClass G X W classObj P0 = Some P"
  from GenerateClass_Some [OF g] obtain cl where
    cl: "P = P0\<lparr> classes := classes P0 @ [cl] \<rparr>" "StaticClass G W classObj \<in> set (PredefinedMethods cl)"
    by blast
  then have ne: "PredefinedMethods cl \<noteq> []" by auto
  from cl ne show "\<exists>cl. classes P = classes P0 @ [cl] \<and> StaticClass G W classObj \<in> set (PredefinedMethods cl)
            \<and> PredefinedMethods cl \<noteq> []"
    by auto
  from cl have "cl \<in> set (classes P)" by simp
  from Save_class_with_predefined [OF this ne]
  show "Save G W path P = (True, [SaveStructs G W path P, SaveClasses G W path P, SaveMethods G W path P])" .
next
  assume "Process fuel G X W P0 = Some P \<and> classes P0 = []"
  then show "list_all (\<lambda>c. PredefinedMethods c \<noteq> []) (classes P)"
    using classes_predefined_loop [of fuel G X W "[0..<length W]" P0 P] by (simp add: Process_def)
next
  assume a: "Process fuel G X W P0 = Some P \<and> classes P0 = [] \<and> classes P \<noteq> []"
  then have all: "list_all (\<lambda>c. PredefinedMethods c \<noteq> []) (classes P)"
    using classes_predefined_loop [of fuel G X W "[0..<length W]" P0 P] by (simp add: Process_def)
  from a obtain c where c: "c \<in> set (classes P)" by (cases "classes P") auto
  with all have "PredefinedMethods c \<noteq> []" by (simp add: list_all_iff)
  from Save_class_with_predefined [OF c this]
  show "Save G W path P = (True, [SaveStructs G W path P, SaveClasses G W path P, SaveMethods G W path P])" .
qed


theorem C9_StaticClass_always_witness:
  "Process 2 (ex_G False 4) ex_X ex_W_class (ex_Package 0) \<noteq> None
   \<and> map Name (classes (the (Process 2 (ex_G False 4) ex_X ex_W_class (ex_Package 0)))) = [''Thing'']
   \<and> map Members (classes (the (Process 2 (ex_G False 4) ex_X ex_W_class (ex_Package 0)))) = [[]]
   \<and> map Methods (classes (the (Process 2 (ex_G False 4) ex_X ex_W_class (ex_Package 0)))) = [[]]
   \<and> list_all (\<lambda>c. PredefinedMethods c \<noteq> []) (classes (the (Process 2 (ex_G False 4) ex_X ex_W_class (ex_Package 0))))
   \<and> Save (ex_G False 4) ex_W_class ''out'' (the (Process 2 (ex_G False 4) ex_X ex_W_class (ex_Package 0)))
        = (True, [(''out'', ''SDK_Core_structs.hpp''), (''out'', ''SDK_Core_classes.hpp''), (''out'', ''SDK_Core_functions.cpp'')])"
proof -
  let ?R = "the (Process 2 (ex_G False 4) ex_X ex_W_class (ex_Package 0))"
  have "\<not> Option.is_none (Process 2 (ex_G False 4) ex_X ex_W_class (ex_Package 0))"
    by code_simp
  then have nn: "Process 2 (ex_G False 4) ex_X ex_W_class (ex_Package 0) \<noteq> None"
    by (simp add: Option.is_none_def)
  then have run: "Process 2 (ex_G False 4) ex_X ex_W_class (ex_Package 0) = Some ?R"
    by simp
  have c: "map Name (classes ?R) = [''Thing''] \<and> map Members (classes ?R) = [[]] \<and> map Methods (classes ?R) = [[]]"
    by code_simp
  then have ne: "classes ?R \<noteq> []" by auto
  have p0: "classes (ex_Package 0) = []" by (simp add: ex_Package_def)
  note T = C9_StaticClass_always [where fuel = 2 and G = "ex_G False 4" and X = ex_X and W = ex_W_class
      and ?P0.0 = "ex_Package 0" and P = ?R and path = "''out''"]
  from T run p0 have all: "list_all (\<lambda>c. PredefinedMethods c \<noteq> []) (classes ?R)" by simp
  from T run p0 ne have "Save (ex_G False 4) ex_W_class ''out'' ?R
      = (True, [SaveStructs (ex_G False 4) ex_W_class ''out'' ?R, SaveClasses (ex_G False 4) ex_W_class ''out'' ?R,
                SaveMethods (ex_G False 4) ex_W_class ''out'' ?R])" by simp
  moreover have "packageObj ?R = 0" by code_simp
  ultimately have s: "Save (ex_G False 4) ex_W_class ''out'' ?R
        = (True, [(''out'', ''SDK_Core_structs.hpp''), (''out'', ''SDK_Core_classes.hpp''), (''out'', ''SDK_Core_functions.cpp'')])"
    by (simp add: SaveStructs_def SaveClasses_def SaveMethods_def ex_G_def ex_W_class_def ex_object_def)
  from nn c all s show ?thesis by blast
qed

text \<open>
  C2, amended. On a package whose sole entity is a class with no members, no predefined
  methods and no methods, \<^verbatim>\<open>Save\<close> returns false and opens no file when empty-file
  generation is off, and returns true and opens the three files when it is on. On a
  package whose sole class has no members and no methods but a predefined method it
  returns true and opens the three files whatever the setting. And every class
  \<^verbatim>\<open>GenerateClass\<close> produces is of the second kind: it carries the \<^verbatim>\<open>StaticClass\<close>
  predefined method, so its list of predefined methods is not empty.
\<close>

theorem C2_Save_sole_class:
  "(enums P = [] \<and> scriptStructs P = [] \<and> classes P = [c]
      \<and> Members c = [] \<and> PredefinedMethods c = [] \<and> Methods c = [] \<longrightarrow>
        Save G W path P =
          (if ShouldGenerateEmptyFiles G
           then (True, [SaveStructs G W path P, SaveClasses G W path P, SaveMethods G W path P])
           else (False, [])))
   \<and> (classes P = [c] \<and> Members c = [] \<and> Methods c = [] \<and> PredefinedMethods c \<noteq> [] \<longrightarrow>
        Save G W path P = (True, [SaveStructs G W path P, SaveClasses G W path P, SaveMethods G W path P]))
   \<and> (GenerateClass G X W classObj P0 = Some P' \<longrightarrow>
        (\<exists>cl. classes P' = classes P0 @ [cl] \<and> StaticClass G W classObj \<in> set (PredefinedMethods cl)
              \<and> PredefinedMethods cl \<noteq> []))"
proof (intro conjI impI)
  assume "enums P = [] \<and> scriptStructs P = [] \<and> classes P = [c]
      \<and> Members c = [] \<and> PredefinedMethods c = [] \<and> Methods c = []"
  then show "Save G W path P =
          (if ShouldGenerateEmptyFiles G
           then (True, [SaveStructs G W path P, SaveClasses G W path P, SaveMethods G W path P])
           else (False, []))"
    by (simp add: Save_def)
next
  assume "classes P = [c] \<and> Members c = [] \<and> Methods c = [] \<and> PredefinedMethods c \<noteq> []"
  then show "Save G W path P = (True, [SaveStructs G W path P, SaveClasses G W path P, SaveMethods G W path P])"
    by (simp add: Save_def)
next
  assume g: "GenerateClass G X W classObj P0 = Some P'"
  from GenerateClass_Some [OF g] obtain cl where
    cl: "P' = P0\<lparr> classes := classes P0 @ [cl] \<rparr>" "StaticClass G W classObj \<in> set (PredefinedMethods cl)"
    by blast
  then have "PredefinedMethods cl \<noteq> []" by auto
  with cl show "\<exists>cl. classes P' = classes P0 @ [cl] \<and> StaticClass G W classObj \<in> set (PredefinedMethods cl)
              \<and> PredefinedMethods cl \<noteq> []"
    by auto
qed

theorem C2_Save_sole_class_witness:
  "Save (ex_G False 4) ex_W_class ''out'' ((ex_Package 0)\<lparr> classes := [ex_Class_empty] \<rparr>) = (False, [])
   \<and> Save (ex_G True 4) ex_W_class ''out'' ((ex_Package 0)\<lparr> classes := [ex_Class_empty] \<rparr>)
       = (True, [(''out'', ''SDK_Core_structs.hpp''), (''out'', ''SDK_Core_classes.hpp''), (''out'', ''SDK_Core_functions.cpp'')])
   \<and> Save (ex_G False 4) ex_W_class ''out''
         ((ex_Package 0)\<lparr> classes := [ex_Class_empty\<lparr> PredefinedMethods := [StaticClass (ex_G False 4) ex_W_class 1] \<rparr>] \<rparr>)
       = (True, [(''out'', ''SDK_Core_structs.hpp''), (''out'', ''SDK_Core_classes.hpp''), (''out'', ''SDK_Core_functions.cpp'')])
   \<and> \<not> Option.is_none (GenerateClass (ex_G False 4) ex_X ex_W_class 1 (ex_Package 0))
   \<and> list_all (\<lambda>cl. PredefinedMethods cl \<noteq> [])
        (classes (the (GenerateClass (ex_G False 4) ex_X ex_W_class 1 (ex_Package 0))))"
proof -
  let ?E = "(ex_Package 0)\<lparr> classes := [ex_Class_empty] \<rparr>"
  let ?S = "ex_Class_empty\<lparr> PredefinedMethods := [StaticClass (ex_G False 4) ex_W_class 1] \<rparr>"
  let ?R = "the (GenerateClass (ex_G False 4) ex_X ex_W_class 1 (ex_Package 0))"
  have n: "\<not> Option.is_none (GenerateClass (ex_G False 4) ex_X ex_W_class 1 (ex_Package 0))"
    by code_simp
  then have run: "GenerateClass (ex_G False 4) ex_X ex_W_class 1 (ex_Package 0) = Some ?R"
    by (simp add: Option.is_none_def)
  have p0: "classes (ex_Package 0) = []" by (simp add: ex_Package_def)
  note T1 = C2_Save_sole_class [where G = "ex_G False 4" and W = ex_W_class and path = "''out''"
          and P = ?E and c = ex_Class_empty and X = ex_X and classObj = 1
          and ?P0.0 = "ex_Package 0" and P' = ?R]
  note T2 = C2_Save_sole_class [where G = "ex_G True 4" and W = ex_W_class and path = "''out''"
          and P = ?E and c = ex_Class_empty and X = ex_X and classObj = 1
          and ?P0.0 = "ex_Package 0" and P' = ?R]
  note T3 = C2_Save_sole_class [where G = "ex_G False 4" and W = ex_W_class and path = "''out''"
          and P = "(ex_Package 0)\<lparr> classes := [?S] \<rparr>" and c = ?S and X = ex_X and classObj = 1
          and ?P0.0 = "ex_Package 0" and P' = ?R]
  have a: "Save (ex_G False 4) ex_W_class ''out'' ?E = (False, [])"
    using T1 [THEN conjunct1]
    by (simp add: ex_Package_def ex_Class_empty_def ex_G_def)
  have b: "Save (ex_G True 4) ex_W_class ''out'' ?E
       = (True, [(''out'', ''SDK_Core_structs.hpp''), (''out'', ''SDK_Core_classes.hpp''), (''out'', ''SDK_Core_functions.cpp'')])"
    using T2 [THEN conjunct1]
    by (simp add: ex_Package_def ex_Class_empty_def ex_G_def ex_W_class_def ex_object_def
          SaveStructs_def SaveClasses_def SaveMethods_def)
  have c: "Save (ex_G False 4) ex_W_class ''out'' ((ex_Package 0)\<lparr> classes := [?S] \<rparr>)
       = (True, [(''out'', ''SDK_Core_structs.hpp''), (''out'', ''SDK_Core_classes.hpp''), (''out'', ''SDK_Core_functions.cpp'')])"
    using T3 [THEN conjunct2, THEN conjunct1]
    by (simp add: ex_Package_def ex_Class_empty_def ex_G_def ex_W_class_def ex_object_def
          SaveStructs_def SaveClasses_def SaveMethods_def)
  from T1 [THEN conjunct2, THEN conjunct2] run p0
  have d: "list_all (\<lambda>cl. PredefinedMethods cl \<noteq> []) (classes ?R)"
    by auto
  from a b c n d show ?thesis by blast
qed

text \<open>
  The claim as stated fails on the package \<^verbatim>\<open>Process\<close> builds from a store whose only
  entity is a class without children, with empty-file generation off: the class has no
  members and no methods, and \<^verbatim>\<open>Save\<close> returns true and opens the three files.
\<close>

theorem C2_Save_sole_class_counterexample:
  "\<not> ShouldGenerateEmptyFiles (ex_G False 4)
   \<and> \<not> Option.is_none (Process 2 (ex_G False 4) ex_X ex_W_class (ex_Package 0))
   \<and> length (enums (the (Process 2 (ex_G False 4) ex_X ex_W_class (ex_Package 0)))) = 0
   \<and> length (scriptStructs (the (Process 2 (ex_G False 4) ex_X ex_W_class (ex_Package 0)))) = 0
   \<and> map Name (classes (the (Process 2 (ex_G False 4) ex_X ex_W_class (ex_Package 0)))) = [''Thing'']
   \<and> map Members (classes (the (Process 2 (ex_G False 4) ex_X ex_W_class (ex_Package 0)))) = [[]]
   \<and> map Methods (classes (the (Process 2 (ex_G False 4) ex_X ex_W_class (ex_Package 0)))) = [[]]
   \<and> Save (ex_G False 4) ex_W_class ''out'' (the (Process 2 (ex_G False 4) ex_X ex_W_class (ex_Package 0)))
        = (True, [(''out'', ''SDK_Core_structs.hpp''), (''out'', ''SDK_Core_classes.hpp''), (''out'', ''SDK_Core_functions.cpp'')])"
  by code_simp

end
